theory Spec2Isabelle
  imports Main "HOL-Library.Word"
begin

unbundle bit_operations_syntax

section \<open>Machine types\<close>

type_synonym u8 = "8 word"
type_synonym u16 = "16 word"
type_synonym u32 = "32 word"
type_synonym u64 = "64 word"

section \<open>twt.c: wake interval mantissa and exponent\<close>

text \<open>
  \<^verbatim>\<open>static u64 twt_calculate_wake_interval(u16 mantissa, int exponent)
  { return (u64)mantissa * (1UL << exponent); }\<close>
  \<open>unsigned long\<close> is taken to be 64 bits wide (the LP64 kernel targets). A shift count
  outside \<open>0..63\<close> is undefined in C; \<open>push_bit\<close> gives 0 from 64 on and \<open>nat\<close> maps a
  negative count to 0, so theorems about this function state the range of the exponent.
\<close>

definition twt_calculate_wake_interval :: "u16 \<Rightarrow> int \<Rightarrow> u64" where
  "twt_calculate_wake_interval mantissa exponent =
     (ucast mantissa :: u64) * push_bit (nat exponent) (1 :: u64)"

text \<open>
  The loop of \<^verbatim>\<open>twt_calculate_wake_interval_fields\<close>:
  \<^verbatim>\<open>while (m > __UINT16_MAX__) { e++; m >>= 1; }\<close>
\<close>

function twt_fields_loop :: "u64 \<Rightarrow> int \<Rightarrow> u64 \<times> int" where
  "twt_fields_loop m e =
     (if m > 0xFFFF then twt_fields_loop (drop_bit 1 m) (e + 1) else (m, e))"
  by pat_completeness auto
termination
proof (relation "measure (\<lambda>(m, e). unat m)")
  show "wf (measure (\<lambda>(m :: u64, e :: int). unat m))" by simp
next
  fix m :: u64 and e :: int
  assume "0xFFFF < m"
  then have "0 < unat m"
    by (simp add: word_less_nat_alt)
  then have "unat m div 2 < unat m" by simp
  then show "((drop_bit 1 m, e + 1), (m, e)) \<in> measure (\<lambda>(m, e). unat m)"
    by (simp add: drop_bit_eq_div unat_div)
qed

declare twt_fields_loop.simps [simp del]

text \<open>
  \<^verbatim>\<open>twt_calculate_wake_interval_fields\<close> returns the recomputed interval and writes the
  mantissa and the exponent through its pointer arguments: the model returns the three.
\<close>

definition twt_calculate_wake_interval_fields :: "u64 \<Rightarrow> u64 \<times> u16 \<times> int" where
  "twt_calculate_wake_interval_fields wake_interval =
     (let (m, e) = twt_fields_loop wake_interval 0;
          mantissa = (ucast m :: u16);
          exponent = e
      in (twt_calculate_wake_interval mantissa exponent, mantissa, exponent))"

section \<open>command.c: command transport and response demultiplexer\<close>

subsection \<open>Error numbers and limits\<close>

definition ENOMEM :: int where "ENOMEM = 12"
definition ENODEV :: int where "ENODEV = 19"
definition EINVAL :: int where "EINVAL = 22"
definition EBADSLT :: int where "EBADSLT = 57"
definition ETIMEDOUT :: int where "ETIMEDOUT = 110"

definition MM_MAX_COMMAND_RETRY :: nat where "MM_MAX_COMMAND_RETRY = 2"

text \<open>
  \<^verbatim>\<open>command.h\<close> is not among the sources. The macros and the structure size the code takes
  from it are parameters of the model.
\<close>

record command_h =
  MORSE_CMD_REQ :: u16                  \<comment> \<open>flag of a request\<close>
  MORSE_CMD_HOST_ID_SEQ_MAX :: nat
  MORSE_CMD_HOST_ID_SEQ_SHIFT :: nat
  MORSE_CMD_HOST_ID_SEQ_MASK :: u16
  MORSE_CMD_HOST_ID_RETRY_MASK :: u16
  sizeof_morse_cmd_header :: nat        \<comment> \<open>\<^verbatim>\<open>sizeof(struct morse_cmd_header)\<close>\<close>

text \<open>
  Modelled from the spec: \<^verbatim>\<open>host_id = (sequence << RETRY_BITS) | retry\<close>, so the retry mask
  covers the bits below the shift and the sequence mask the bits from the shift on, and
  the retry counter of every attempt fits below the shift.
\<close>

definition host_id_layout_ok :: "command_h \<Rightarrow> bool" where
  "host_id_layout_ok H =
     (MORSE_CMD_HOST_ID_RETRY_MASK H = mask (MORSE_CMD_HOST_ID_SEQ_SHIFT H) \<and>
      MORSE_CMD_HOST_ID_SEQ_MASK H = NOT (mask (MORSE_CMD_HOST_ID_SEQ_SHIFT H)) \<and>
      MM_MAX_COMMAND_RETRY \<le> 2 ^ MORSE_CMD_HOST_ID_SEQ_SHIFT H)"

text \<open>
  Modelled from the spec: a confirmation frame is the header followed by \<^verbatim>\<open>status:u32\<close>
  and the type-specific fields, so \<^verbatim>\<open>sizeof(struct morse_resp)\<close>, whose last member is a
  flexible array, is the header and four bytes.
\<close>

definition sizeof_morse_resp :: "command_h \<Rightarrow> nat" where
  "sizeof_morse_resp H = sizeof_morse_cmd_header H + 4"

subsection \<open>Data\<close>

record morse_cmd_header =
  hdr_flags :: u16
  hdr_message_id :: u16
  hdr_len :: u16
  hdr_host_id :: u16
  hdr_vif_id :: u16

record morse_cmd =
  cmd_hdr :: morse_cmd_header
  cmd_data :: "u8 list"

text \<open>\<^verbatim>\<open>struct morse_cmd_resp_cb\<close>; \<^verbatim>\<open>dest_resp\<close> is a pointer, \<open>None\<close> when it is NULL.\<close>

record morse_cmd_resp_cb =
  cb_ret :: int
  cb_length :: u32
  cb_dest_resp :: "nat option"

text \<open>
  The command skb waiting for its confirmation (\<^verbatim>\<open>morse_skbq_tx_pending(cmd_q)\<close>): its
  data and the control block \<^verbatim>\<open>IEEE80211_SKB_CB(skb)->driver_data\<close>. The data are kept
  abstract, because \<^verbatim>\<open>morse_skb_remove_hdr_after_sent_to_chip\<close> (defined outside the
  sources) rewrites them before the command header is read.
\<close>

record 'd pending_skb =
  skb_data :: 'd
  skb_cb :: morse_cmd_resp_cb

text \<open>
  The part of \<^verbatim>\<open>struct morse\<close> the two functions use. \<open>cmd_comp\<close> is the pointer to the
  waiter's completion, \<open>None\<close> when NULL; the number is how often \<^verbatim>\<open>complete()\<close> was
  called on it. \<open>mem\<close> is the memory that \<^verbatim>\<open>dest_resp\<close> pointers refer to: \<open>mem p i\<close> is the
  byte at the address \<open>p + i\<close>.
\<close>

record 'd morse =
  cmd_q_present :: bool
  cmd_seq :: nat
  cmd_comp :: "nat option"
  tx_pending :: "'d pending_skb option"
  mem :: "nat \<Rightarrow> nat \<Rightarrow> u8"

subsection \<open>\<^verbatim>\<open>morse_cmd_tx\<close>\<close>

text \<open>
  What the surroundings do in one pass of the retry loop: whether
  \<^verbatim>\<open>morse_skbq_alloc_skb\<close> returns a buffer, the return value of \<^verbatim>\<open>morse_skbq_skb_tx\<close>,
  the return value of \<^verbatim>\<open>wait_for_completion_timeout\<close> (0 when the wait timed out), and
  the two places the result is read from after a completed wait.
\<close>

record cmd_attempt =
  skb_alloc_ok :: bool
  skbq_tx_ret :: int
  wait_ret :: nat
  resp_status_read :: u32   \<comment> \<open>\<^verbatim>\<open>resp->status\<close>\<close>
  cb_ret_read :: int        \<comment> \<open>\<^verbatim>\<open>resp_cb->ret\<close>\<close>

text \<open>Calls that leave the function, in order.\<close>

datatype cmd_io =
  PS_DISABLE
  | PS_ENABLE
  | SKB_TX morse_cmd_header "u8 list"   \<comment> \<open>the frame handed to \<^verbatim>\<open>morse_skbq_skb_tx\<close>\<close>
  | WAIT u32                            \<comment> \<open>\<^verbatim>\<open>wait_for_completion_timeout\<close>, in ms\<close>
  | SKB_FINISH

text \<open>The module parameter \<^verbatim>\<open>default_cmd_timeout_ms\<close>, at its initial value.\<close>

definition default_cmd_timeout_ms :: u32 where "default_cmd_timeout_ms = 600"

record cmd_tx_result =
  tx_ret :: int
  tx_cmd :: morse_cmd            \<comment> \<open>the caller's command structure on return\<close>
  tx_comp :: "nat option"        \<comment> \<open>\<^verbatim>\<open>mors->cmd_comp\<close> on return\<close>
  tx_trace :: "cmd_io list"
  tx_attempts :: nat             \<comment> \<open>passes through the loop body\<close>

text \<open>
  The \<^verbatim>\<open>do { ... } while ((ret == -ETIMEDOUT) && retry < MM_MAX_COMMAND_RETRY)\<close> loop. A
  \<^verbatim>\<open>break\<close> leaves it without incrementing \<^verbatim>\<open>retry\<close>. The frame is the first
  \<^verbatim>\<open>sizeof(*cmd) + hdr.len\<close> bytes of the command: the header and \<^verbatim>\<open>hdr.len\<close> bytes of data.
\<close>

function cmd_tx_loop ::
  "(nat \<Rightarrow> cmd_attempt) \<Rightarrow> u16 \<Rightarrow> u32 \<Rightarrow> bool \<Rightarrow> u32 \<Rightarrow>
   morse_cmd \<Rightarrow> nat option \<Rightarrow> nat \<Rightarrow> cmd_io list \<Rightarrow> cmd_tx_result" where
  "cmd_tx_loop env host_id len resp timeout cmd cmpl retry tr =
     (let cmd1 = cmd\<lparr>cmd_hdr := (cmd_hdr cmd)\<lparr>hdr_host_id := host_id OR word_of_nat retry\<rparr>\<rparr>
      in if \<not> skb_alloc_ok (env retry)
         then \<lparr>tx_ret = - ENOMEM, tx_cmd = cmd1, tx_comp = cmpl, tx_trace = tr,
               tx_attempts = Suc retry\<rparr>
         else
           let timeout1 = (if timeout \<noteq> 0 then timeout else default_cmd_timeout_ms);
               tr1 = tr @ [SKB_TX (cmd_hdr cmd1) (take (unat (hdr_len (cmd_hdr cmd1))) (cmd_data cmd1))]
           in if skbq_tx_ret (env retry) \<noteq> 0
              then \<lparr>tx_ret = skbq_tx_ret (env retry), tx_cmd = cmd1, tx_comp = Some 0,
                    tx_trace = tr1, tx_attempts = Suc retry\<rparr>
              else
                let ret = (if wait_ret (env retry) = 0 then - ETIMEDOUT
                           else if len \<noteq> 0 \<and> resp then sint (resp_status_read (env retry))
                           else cb_ret_read (env retry));
                    tr2 = tr1 @ [WAIT timeout1, SKB_FINISH];
                    retry1 = Suc retry
                in if ret = - ETIMEDOUT \<and> retry1 < MM_MAX_COMMAND_RETRY
                   then cmd_tx_loop env host_id len resp timeout1 cmd1 None retry1 tr2
                   else \<lparr>tx_ret = ret, tx_cmd = cmd1, tx_comp = None, tx_trace = tr2,
                         tx_attempts = retry1\<rparr>)"
  by pat_completeness auto
termination
  by (relation "measure (\<lambda>(env, host_id, len, resp, timeout, cmd, cmpl, retry, tr).
        MM_MAX_COMMAND_RETRY - retry)") auto

declare cmd_tx_loop.simps [simp del]

text \<open>
  \<^verbatim>\<open>morse_cmd_tx\<close>. \<open>resp\<close> says whether the caller's response pointer is non-NULL, \<open>len\<close>
  is the argument \<^verbatim>\<open>length\<close>. The
  result holds the device state and the record of the loop; without a command queue
  nothing is sent.
\<close>

definition morse_cmd_tx ::
  "command_h \<Rightarrow> (nat \<Rightarrow> cmd_attempt) \<Rightarrow> 'd morse \<Rightarrow> bool \<Rightarrow> morse_cmd \<Rightarrow> u32 \<Rightarrow> u32 \<Rightarrow>
   'd morse \<times> cmd_tx_result" where
  "morse_cmd_tx H env mors resp cmd len timeout =
     (if \<not> cmd_q_present mors
      then (mors, \<lparr>tx_ret = - ENODEV, tx_cmd = cmd, tx_comp = cmd_comp mors, tx_trace = [],
                   tx_attempts = 0\<rparr>)
      else
        let cmd0 = cmd\<lparr>cmd_hdr := (cmd_hdr cmd)\<lparr>hdr_flags := MORSE_CMD_REQ H\<rparr>\<rparr>;
            seq0 = Suc (cmd_seq mors);
            seq = (if seq0 > MORSE_CMD_HOST_ID_SEQ_MAX H then 1 else seq0);
            host_id = (push_bit (MORSE_CMD_HOST_ID_SEQ_SHIFT H) (word_of_nat seq) :: u16);
            r = cmd_tx_loop env host_id len resp timeout cmd0 (cmd_comp mors) 0 [PS_DISABLE]
        in (mors\<lparr>cmd_seq := seq, cmd_comp := tx_comp r\<rparr>,
            r\<lparr>tx_trace := tx_trace r @ [PS_ENABLE]\<rparr>))"

text \<open>The frames handed to the transmit queue, in order.\<close>

fun sent_frames :: "cmd_io list \<Rightarrow> (morse_cmd_header \<times> u8 list) list" where
  "sent_frames [] = []"
| "sent_frames (SKB_TX h d # tr) = (h, d) # sent_frames tr"
| "sent_frames (_ # tr) = sent_frames tr"

subsection \<open>\<^verbatim>\<open>morse_cmd_resp_process\<close>\<close>

text \<open>
  The inbound control message: the header fields after \<^verbatim>\<open>le16_to_cpu\<close>, the status word,
  the value of the macro \<^verbatim>\<open>MORSE_CMD_IS_CFM\<close> on it, and the memory at \<^verbatim>\<open>skb->data\<close>, which
  \<^verbatim>\<open>memcpy\<close> reads: \<open>resp_bytes skb i\<close> is the byte at \<^verbatim>\<open>skb->data + i\<close>. The function never
  looks at \<^verbatim>\<open>skb->len\<close>, so the offsets are not bounded by the size of the message; behind
  the end of the message, \<open>resp_bytes\<close> gives whatever lies there.
\<close>

record morse_resp_skb =
  resp_is_cfm :: bool
  resp_message_id :: u16
  resp_len :: u16
  resp_host_id :: u16
  resp_status :: u32
  resp_bytes :: "nat \<Rightarrow> u8"

datatype resp_io =
  MAC_EVENT_RECV            \<comment> \<open>handed to \<^verbatim>\<open>morse_mac_event_recv\<close>\<close>
  | LOG_LATE_RESPONSE
  | LOG_RETRY_MISMATCH
  | COMPLETE                \<comment> \<open>\<^verbatim>\<open>complete(mors->cmd_comp)\<close>\<close>
  | KFREE_SKB               \<comment> \<open>\<^verbatim>\<open>dev_kfree_skb(skb)\<close>\<close>

text \<open>
  \<^verbatim>\<open>memcpy(dst, src, n)\<close> on the memory at the two addresses, given by offset: exactly the
  \<open>n\<close> bytes at the offsets below \<open>n\<close> are written, each with the byte of \<open>src\<close> at the same
  offset. The result is the memory at \<open>dst\<close> afterwards.
\<close>

definition memcpy :: "(nat \<Rightarrow> u8) \<Rightarrow> (nat \<Rightarrow> u8) \<Rightarrow> nat \<Rightarrow> (nat \<Rightarrow> u8)" where
  "memcpy dst src n = (\<lambda>i. if i < n then src i else dst i)"

text \<open>Conversion of an \<^verbatim>\<open>int\<close> to \<^verbatim>\<open>size_t\<close> (64 bits).\<close>

definition size_t_of_int :: "int \<Rightarrow> nat" where
  "size_t_of_int i = nat (i mod 2 ^ 64)"

text \<open>
  \<^verbatim>\<open>morse_cmd_resp_process\<close>. \<open>rm_hdr\<close> stands for
  \<^verbatim>\<open>morse_skb_remove_hdr_after_sent_to_chip\<close> and \<open>hdr_of\<close> reads the command header at
  \<^verbatim>\<open>cmd_skb->data\<close>. The function always returns 0; the model returns the device state
  and the calls made. \<^verbatim>\<open>int length = resp_cb->length\<close> reads the 32-bit field as a signed
  number, the comparison with \<^verbatim>\<open>sizeof\<close> and the \<^verbatim>\<open>memcpy\<close> count convert it to
  \<^verbatim>\<open>size_t\<close>, and \<^verbatim>\<open>min_t(int, ...)\<close> compares as \<^verbatim>\<open>int\<close>.
\<close>

definition morse_cmd_resp_process ::
  "command_h \<Rightarrow> ('d \<Rightarrow> 'd) \<Rightarrow> ('d \<Rightarrow> morse_cmd_header) \<Rightarrow> 'd morse \<Rightarrow> morse_resp_skb \<Rightarrow>
   'd morse \<times> resp_io list" where
  "morse_cmd_resp_process H rm_hdr hdr_of mors skb =
     (if \<not> resp_is_cfm skb then (mors, [MAC_EVENT_RECV, KFREE_SKB])
      else
        case tx_pending mors of
          None \<Rightarrow> (mors, [LOG_LATE_RESPONSE, KFREE_SKB])
        | Some cmd_skb0 \<Rightarrow>
            let cmd_skb = cmd_skb0\<lparr>skb_data := rm_hdr (skb_data cmd_skb0)\<rparr>;
                mors1 = mors\<lparr>tx_pending := Some cmd_skb\<rparr>;
                message_id = hdr_message_id (hdr_of (skb_data cmd_skb));
                host_id = hdr_host_id (hdr_of (skb_data cmd_skb))
            in if message_id \<noteq> resp_message_id skb \<or>
                  (host_id AND MORSE_CMD_HOST_ID_SEQ_MASK H) \<noteq>
                  (resp_host_id skb AND MORSE_CMD_HOST_ID_SEQ_MASK H)
               then (mors1, [LOG_LATE_RESPONSE, KFREE_SKB])
               else
                 let log = (if (host_id AND MORSE_CMD_HOST_ID_RETRY_MASK H) \<noteq>
                               (resp_host_id skb AND MORSE_CMD_HOST_ID_RETRY_MASK H)
                            then [LOG_RETRY_MISMATCH] else []);
                     resp_cb = skb_cb cmd_skb;
                     len0 = sint (cb_length resp_cb);
                     (ret, mem1) =
                       (case cb_dest_resp resp_cb of
                          Some dest_resp \<Rightarrow>
                            if size_t_of_int len0 \<ge> sizeof_morse_resp H
                            then
                              let len1 = min len0 (int (unat (resp_len skb) +
                                                        sizeof_morse_cmd_header H))
                              in (0, fun_upd (mem mors) dest_resp
                                       (memcpy (mem mors dest_resp) (resp_bytes skb)
                                          (size_t_of_int len1)))
                            else (sint (resp_status skb), mem mors)
                        | None \<Rightarrow> (sint (resp_status skb), mem mors));
                     cmd_skb1 = cmd_skb\<lparr>skb_cb := resp_cb\<lparr>cb_ret := ret\<rparr>\<rparr>;
                     mors2 = mors1\<lparr>tx_pending := Some cmd_skb1, mem := mem1\<rparr>
                 in (case cmd_comp mors2 of
                       Some n \<Rightarrow>
                         (mors2\<lparr>cmd_comp := Some (Suc n)\<rparr>, log @ [COMPLETE, KFREE_SKB])
                     | None \<Rightarrow> (mors2, log @ [KFREE_SKB])))"

text \<open>
  The matching rule in the words of the specification: there is a pending command, the
  message ids are equal and the sequence portions of the host ids are equal. The header
  of the pending command is the one the code reads, after the bus header is removed.
\<close>

definition resp_matches_pending ::
  "command_h \<Rightarrow> ('d \<Rightarrow> 'd) \<Rightarrow> ('d \<Rightarrow> morse_cmd_header) \<Rightarrow> 'd morse \<Rightarrow> morse_resp_skb \<Rightarrow> bool" where
  "resp_matches_pending H rm_hdr hdr_of mors skb =
     (case tx_pending mors of
        None \<Rightarrow> False
      | Some p \<Rightarrow>
          hdr_message_id (hdr_of (rm_hdr (skb_data p))) = resp_message_id skb \<and>
          hdr_host_id (hdr_of (rm_hdr (skb_data p))) AND MORSE_CMD_HOST_ID_SEQ_MASK H =
          resp_host_id skb AND MORSE_CMD_HOST_ID_SEQ_MASK H)"

subsection \<open>Concrete values used in examples\<close>

text \<open>
  The header has the five 16-bit fields the code reads and writes (\<^verbatim>\<open>flags\<close>,
  \<^verbatim>\<open>message_id\<close>, \<^verbatim>\<open>len\<close>, \<^verbatim>\<open>host_id\<close>, \<^verbatim>\<open>vif_id\<close>), so it has at least 10 bytes; the
  second value is a header with one more 16-bit field.
\<close>

definition ex_command_h :: command_h where
  "ex_command_h =
     \<lparr>MORSE_CMD_REQ = 1, MORSE_CMD_HOST_ID_SEQ_MAX = 0xFFF, MORSE_CMD_HOST_ID_SEQ_SHIFT = 4,
      MORSE_CMD_HOST_ID_SEQ_MASK = 0xFFF0, MORSE_CMD_HOST_ID_RETRY_MASK = 0xF,
      sizeof_morse_cmd_header = 10\<rparr>"

definition ex_command_h12 :: command_h where
  "ex_command_h12 = ex_command_h\<lparr>sizeof_morse_cmd_header := 12\<rparr>"

text \<open>Memory that holds 0 everywhere.\<close>

definition ex_mem :: "nat \<Rightarrow> nat \<Rightarrow> u8" where
  "ex_mem p i = 0"

text \<open>A pending command 5 with sequence number 2, first attempt, expecting 32 bytes at buffer 1.\<close>

definition ex_pending_hdr :: morse_cmd_header where
  "ex_pending_hdr =
     \<lparr>hdr_flags = 1, hdr_message_id = 5, hdr_len = 0, hdr_host_id = 0x20, hdr_vif_id = 0\<rparr>"

definition ex_morse :: "morse_cmd_header morse" where
  "ex_morse =
     \<lparr>cmd_q_present = True, cmd_seq = 2, cmd_comp = Some 0,
      tx_pending = Some \<lparr>skb_data = ex_pending_hdr,
                          skb_cb = \<lparr>cb_ret = 0, cb_length = 32, cb_dest_resp = Some 1\<rparr>\<rparr>,
      mem = ex_mem\<rparr>"

text \<open>The same pending command when the caller expects 12 bytes.\<close>

definition ex_morse12 :: "morse_cmd_header morse" where
  "ex_morse12 =
     ex_morse\<lparr>tx_pending := Some \<lparr>skb_data = ex_pending_hdr,
                  skb_cb = \<lparr>cb_ret = 0, cb_length = 12, cb_dest_resp = Some 1\<rparr>\<rparr>\<rparr>"

text \<open>
  A confirmation of command 5, sequence 2, retry 1, with the status 5, declaring 4 bytes
  after the header. The byte at offset \<open>i\<close> of the memory at \<^verbatim>\<open>skb->data\<close> is \<open>i + 1\<close>, as a
  mark of where it came from.
\<close>

definition ex_resp_bytes :: "nat \<Rightarrow> u8" where
  "ex_resp_bytes i = word_of_nat (Suc i)"

definition ex_cfm :: morse_resp_skb where
  "ex_cfm =
     \<lparr>resp_is_cfm = True, resp_message_id = 5, resp_len = 4, resp_host_id = 0x21,
      resp_status = 5, resp_bytes = ex_resp_bytes\<rparr>"

text \<open>The same confirmation with a declared length of 0: a header and nothing behind it.\<close>

definition ex_cfm0 :: morse_resp_skb where
  "ex_cfm0 = ex_cfm\<lparr>resp_len := 0\<rparr>"

text \<open>A confirmation of command 5 with sequence 3: not the pending command.\<close>

definition ex_late_cfm :: morse_resp_skb where
  "ex_late_cfm = ex_cfm\<lparr>resp_host_id := 0x30\<rparr>"

text \<open>A command 5 with two bytes of payload.\<close>

definition ex_cmd :: morse_cmd where
  "ex_cmd =
     \<lparr>cmd_hdr = \<lparr>hdr_flags = 0, hdr_message_id = 5, hdr_len = 2, hdr_host_id = 0, hdr_vif_id = 0\<rparr>,
      cmd_data = [0xAA, 0xBB]\<rparr>"

text \<open>Surroundings in which no confirmation ever arrives.\<close>

definition ex_env_silent :: "nat \<Rightarrow> cmd_attempt" where
  "ex_env_silent i =
     \<lparr>skb_alloc_ok = True, skbq_tx_ret = 0, wait_ret = 0, resp_status_read = 0, cb_ret_read = 0\<rparr>"

text \<open>
  Surroundings in which every wait is completed in time: the first confirmation carries
  the status word \<open>0xFFFFFF92\<close>, which is \<open>-110\<close> as an \<^verbatim>\<open>int\<close>, the second the status 0.
\<close>

definition ex_env_status :: "nat \<Rightarrow> cmd_attempt" where
  "ex_env_status i =
     \<lparr>skb_alloc_ok = True, skbq_tx_ret = 0, wait_ret = 1,
      resp_status_read = (if i = 0 then 0xFFFFFF92 else 0), cb_ret_read = 0\<rparr>"

section \<open>twt.c: negotiation engine and wake interval scheduler\<close>

subsection \<open>Constants\<close>

text \<open>The TWT bit fields of \<^verbatim>\<open>linux/ieee80211.h\<close>.\<close>

definition IEEE80211_TWT_CONTROL_WAKE_DUR_UNIT :: u8 where
  "IEEE80211_TWT_CONTROL_WAKE_DUR_UNIT = 0x20"

definition IEEE80211_TWT_REQTYPE_REQUEST :: u16 where
  "IEEE80211_TWT_REQTYPE_REQUEST = 0x0001"

definition IEEE80211_TWT_REQTYPE_SETUP_CMD :: u16 where
  "IEEE80211_TWT_REQTYPE_SETUP_CMD = 0x000E"

definition IEEE80211_TWT_REQTYPE_SETUP_CMD_OFFSET :: nat where
  "IEEE80211_TWT_REQTYPE_SETUP_CMD_OFFSET = 1"

definition IEEE80211_TWT_REQTYPE_WAKE_INT_EXP :: u16 where
  "IEEE80211_TWT_REQTYPE_WAKE_INT_EXP = 0x7C00"

definition IEEE80211_TWT_REQTYPE_WAKE_INT_EXP_OFFSET :: nat where
  "IEEE80211_TWT_REQTYPE_WAKE_INT_EXP_OFFSET = 10"

definition TWT_WAKE_DUR_UNIT_256 :: u32 where
  "TWT_WAKE_DUR_UNIT_256 = 256"

text \<open>
  Modelled from the spec: \<^verbatim>\<open>twt.h\<close> and \<^verbatim>\<open>utils.h\<close> are not among the sources. A station
  has one agreement slot per flow id, and the flow id field of a TWT element is three bits
  wide; the wake duration is counted in time units (TU) of 1024 microseconds when the
  \<^verbatim>\<open>WAKE_DUR_UNIT\<close> flag is set.
\<close>

definition MORSE_TWT_AGREEMENTS_MAX_PER_STA :: nat where
  "MORSE_TWT_AGREEMENTS_MAX_PER_STA = 8"

definition MORSE_US_TO_TU :: "u32 \<Rightarrow> u32" where
  "MORSE_US_TO_TU x = x div 1024"

definition EPERM :: int where "EPERM = 1"

subsection \<open>Data\<close>

type_synonym eth_addr = "48 word"

datatype ieee80211_twt_setup_cmd =
  TWT_SETUP_CMD_REQUEST
  | TWT_SETUP_CMD_SUGGEST
  | TWT_SETUP_CMD_DEMAND
  | TWT_SETUP_CMD_GROUPING
  | TWT_SETUP_CMD_ACCEPT
  | TWT_SETUP_CMD_ALTERNATE
  | TWT_SETUP_CMD_DICTATE
  | TWT_SETUP_CMD_REJECT

text \<open>The enumeration values, 0 to 7 in the order above, and the way back from three bits.\<close>

fun twt_setup_cmd_val :: "ieee80211_twt_setup_cmd \<Rightarrow> nat" where
  "twt_setup_cmd_val TWT_SETUP_CMD_REQUEST = 0"
| "twt_setup_cmd_val TWT_SETUP_CMD_SUGGEST = 1"
| "twt_setup_cmd_val TWT_SETUP_CMD_DEMAND = 2"
| "twt_setup_cmd_val TWT_SETUP_CMD_GROUPING = 3"
| "twt_setup_cmd_val TWT_SETUP_CMD_ACCEPT = 4"
| "twt_setup_cmd_val TWT_SETUP_CMD_ALTERNATE = 5"
| "twt_setup_cmd_val TWT_SETUP_CMD_DICTATE = 6"
| "twt_setup_cmd_val TWT_SETUP_CMD_REJECT = 7"

definition twt_setup_cmd_of :: "u16 \<Rightarrow> ieee80211_twt_setup_cmd" where
  "twt_setup_cmd_of v =
     (if v = 0 then TWT_SETUP_CMD_REQUEST
      else if v = 1 then TWT_SETUP_CMD_SUGGEST
      else if v = 2 then TWT_SETUP_CMD_DEMAND
      else if v = 3 then TWT_SETUP_CMD_GROUPING
      else if v = 4 then TWT_SETUP_CMD_ACCEPT
      else if v = 5 then TWT_SETUP_CMD_ALTERNATE
      else if v = 6 then TWT_SETUP_CMD_DICTATE
      else TWT_SETUP_CMD_REJECT)"

datatype morse_twt_state =
  MORSE_TWT_STATE_NO_AGREEMENT
  | MORSE_TWT_STATE_CONSIDER_REQUEST
  | MORSE_TWT_STATE_CONSIDER_SUGGEST
  | MORSE_TWT_STATE_CONSIDER_DEMAND
  | MORSE_TWT_STATE_CONSIDER_GROUPING
  | MORSE_TWT_STATE_AGREEMENT

datatype morse_twt_event_type = MORSE_TWT_EVENT_SETUP | MORSE_TWT_EVENT_TEARDOWN

datatype nl80211_iftype = NL80211_IFTYPE_STATION | NL80211_IFTYPE_AP | NL80211_IFTYPE_OTHER

text \<open>\<^verbatim>\<open>struct ieee80211_twt_params\<close>; the fields carry the prefix \<open>p_\<close>.\<close>

record ieee80211_twt_params =
  p_req_type :: u16
  p_twt :: u64
  p_min_twt_dur :: u8
  p_mantissa :: u16
  p_channel :: u8

record morse_twt_agreement_data =
  control :: u8
  wake_time_us :: u64
  wake_interval_us :: u64
  wake_duration_us :: u32
  params :: ieee80211_twt_params

text \<open>
  \<^verbatim>\<open>struct morse_twt_agreement\<close> without its list node: whether and where an agreement is
  linked into a wake interval list is read from the lists themselves (below).
\<close>

record morse_twt_agreement =
  agr_state :: morse_twt_state
  agr_data :: morse_twt_agreement_data

text \<open>
  \<^verbatim>\<open>struct morse_twt_sta\<close> without the array \<^verbatim>\<open>agreements[]\<close>, which lives in the agreement
  memory (below).
\<close>

record morse_twt_sta =
  sta_addr :: eth_addr
  dialog_token :: u8
  action_is_pending :: bool

text \<open>
  \<^verbatim>\<open>struct morse_twt_event\<close>. \<open>setup_agr_data\<close> is the pointer \<^verbatim>\<open>setup.agr_data\<close> with the
  data it points to, \<open>None\<close> when NULL.
\<close>

record morse_twt_event =
  ev_type :: morse_twt_event_type
  ev_addr :: eth_addr
  ev_flow_id :: u8
  setup_cmd :: ieee80211_twt_setup_cmd
  setup_agr_data :: "morse_twt_agreement_data option"
  teardown :: bool

text \<open>
  An agreement is addressed by the pointer to its station and its index in
  \<^verbatim>\<open>agreements[]\<close>: \<open>(p, i)\<close> stands for \<^verbatim>\<open>&p->agreements[i]\<close>.
\<close>

type_synonym agr_ref = "nat \<times> nat"

text \<open>
  An action frame that \<^verbatim>\<open>morse_mac_send_twt_action_frame\<close> has handed on for transmission:
  the event it carries, destination, dialog token, setup flag, and whether it is a
  protected frame (sent through \<^verbatim>\<open>MORSE_IEEE80211_TX_STATUS\<close> instead of the management
  queue).
\<close>

record twt_action_frame =
  af_event :: morse_twt_event
  af_dest_addr :: eth_addr
  af_dialog_token :: u8
  af_is_twt_setup :: bool
  af_protected :: bool

text \<open>
  What \<^verbatim>\<open>morse_mac_send_twt_action_frame\<close> finds in its surroundings when it sends a frame:
  whether the interface pointer \<^verbatim>\<open>vif\<close> is non-NULL, whether \<^verbatim>\<open>morse_skbq_alloc_skb\<close>
  returns a buffer, whether \<^verbatim>\<open>ieee80211_find_sta_by_ifaddr\<close> finds the destination, the
  flag \<^verbatim>\<open>sta->mfp\<close> of the station found, the value of \<^verbatim>\<open>is_sw_crypto_mode()\<close>, and the
  return value of \<^verbatim>\<open>morse_skbq_skb_tx\<close>.
\<close>

record action_frame_env =
  af_vif_present :: bool
  af_skb_alloc_ok :: bool
  af_sta_found :: bool
  af_sta_mfp :: bool
  af_sw_crypto_mode :: bool
  af_skbq_tx_ret :: int

text \<open>
  \<^verbatim>\<open>struct morse_twt\<close> with the memory its pointers refer to.
  \<^item> \<open>stas\<close> is the station list as the list of station pointers, \<open>sta_mem\<close> and \<open>agr_mem\<close>
    hold the structures behind the pointers (memory that was never allocated or was freed
    holds whatever it holds).
  \<^item> \<open>wake_intervals\<close> is the list of \<^verbatim>\<open>struct morse_twt_wake_interval\<close>, each given by its
    list of agreements, in list order. An agreement is linked into a list
    (\<^verbatim>\<open>!list_empty(&agr->list)\<close>) when its reference occurs in one of them. Being doubly
    linked intrusive lists, they hold any agreement at most once.
  \<^item> \<open>events\<close>, \<open>tx\<close> and \<open>to_install_uninstall\<close> are the three event queues.
  \<^item> \<open>action_frames\<close> records the frames that \<^verbatim>\<open>morse_mac_send_twt_action_frame\<close> has handed
    on for transmission and \<open>freed_events\<close> the events released by
    \<^verbatim>\<open>morse_twt_purge_event\<close>, in order.
  \<^item> \<open>frame_env\<close> is the part of the device and of mac80211 that decides whether an action
    frame to a destination can be sent.
\<close>

record morse_twt =
  stas :: "nat list"
  sta_mem :: "nat \<Rightarrow> morse_twt_sta"
  agr_mem :: "agr_ref \<Rightarrow> morse_twt_agreement"
  wake_intervals :: "agr_ref list list"
  events :: "morse_twt_event list"
  tx :: "morse_twt_event list"
  to_install_uninstall :: "morse_twt_event list"
  active_agreement_bitmap :: u64
  vif_type :: nl80211_iftype
  action_frames :: "twt_action_frame list"
  freed_events :: "morse_twt_event list"
  frame_env :: "eth_addr \<Rightarrow> action_frame_env"

subsection \<open>Setup command and parameters\<close>

definition morse_twt_get_command :: "u16 \<Rightarrow> ieee80211_twt_setup_cmd" where
  "morse_twt_get_command req =
     twt_setup_cmd_of (drop_bit IEEE80211_TWT_REQTYPE_SETUP_CMD_OFFSET
                         (req AND IEEE80211_TWT_REQTYPE_SETUP_CMD))"

text \<open>\<^verbatim>\<open>((u8)cmd & BIT(2)) == 0\<close>\<close>

definition morse_twt_cmd_is_req :: "ieee80211_twt_setup_cmd \<Rightarrow> bool" where
  "morse_twt_cmd_is_req cmd = ((word_of_nat (twt_setup_cmd_val cmd) :: u8) AND 4 = 0)"

definition morse_twt_set_command :: "u16 \<Rightarrow> ieee80211_twt_setup_cmd \<Rightarrow> u16" where
  "morse_twt_set_command req_type_le cmd =
     (let req0 = req_type_le AND NOT IEEE80211_TWT_REQTYPE_SETUP_CMD;
          req1 = (if morse_twt_cmd_is_req cmd then req0 OR IEEE80211_TWT_REQTYPE_REQUEST
                  else req0 AND NOT IEEE80211_TWT_REQTYPE_REQUEST)
      in req1 OR push_bit IEEE80211_TWT_REQTYPE_SETUP_CMD_OFFSET
                   (word_of_nat (twt_setup_cmd_val cmd)))"

text \<open>
  \<^verbatim>\<open>morse_twt_update_params\<close>. \<^verbatim>\<open>div_u64\<close> divides by \<^verbatim>\<open>1 << exp\<close> with \<open>exp \<le> 31\<close>; the
  quotient is cut to 16 bits and the duration to 8 bits by the assignments.
\<close>

definition morse_twt_update_params ::
  "ieee80211_twt_params \<Rightarrow> u8 \<Rightarrow> u64 \<Rightarrow> u64 \<Rightarrow> u32 \<Rightarrow> ieee80211_twt_params" where
  "morse_twt_update_params prm ctrl wake_time wake_interval wake_duration =
     (let exp = unat (drop_bit IEEE80211_TWT_REQTYPE_WAKE_INT_EXP_OFFSET
                        (p_req_type prm AND IEEE80211_TWT_REQTYPE_WAKE_INT_EXP));
          m = (ucast (wake_interval div push_bit exp 1) :: u16)
      in prm\<lparr>p_twt := wake_time, p_mantissa := m,
              p_min_twt_dur :=
                (if ctrl AND IEEE80211_TWT_CONTROL_WAKE_DUR_UNIT \<noteq> 0
                 then ucast (MORSE_US_TO_TU wake_duration)
                 else ucast (wake_duration div TWT_WAKE_DUR_UNIT_256))\<rparr>)"

subsection \<open>Events and queues\<close>

text \<open>
  \<^verbatim>\<open>morse_twt_purge_event\<close> unlinks the event from the list it is on and frees it. Where the
  model calls it, the event has been taken off its queue before; events removed from a
  queue are handled by \<open>morse_twt_queue_purge\<close>.
\<close>

definition morse_twt_purge_event :: "morse_twt \<Rightarrow> morse_twt_event \<Rightarrow> morse_twt" where
  "morse_twt_purge_event tw event = tw\<lparr>freed_events := freed_events tw @ [event]\<rparr>"

text \<open>The flag \<^verbatim>\<open>remove\<close> of the loop in \<^verbatim>\<open>morse_twt_queue_purge\<close>; a NULL filter is \<open>None\<close>.\<close>

definition purge_remove :: "eth_addr option \<Rightarrow> u8 option \<Rightarrow> morse_twt_event \<Rightarrow> bool" where
  "purge_remove addr flow_id event =
     ((case addr of None \<Rightarrow> True | Some a \<Rightarrow> ev_addr event = a) \<and>
      (case flow_id of None \<Rightarrow> True | Some f \<Rightarrow> f = ev_flow_id event))"

text \<open>\<^verbatim>\<open>morse_twt_queue_purge\<close> on one queue: the events that stay and the events purged.\<close>

definition morse_twt_queue_purge ::
  "morse_twt_event list \<Rightarrow> eth_addr option \<Rightarrow> u8 option \<Rightarrow>
   morse_twt_event list \<times> morse_twt_event list" where
  "morse_twt_queue_purge q addr flow_id =
     (if addr = None \<and> flow_id = None then (q, [])
      else (filter (\<lambda>e. \<not> purge_remove addr flow_id e) q,
            filter (purge_remove addr flow_id) q))"

definition morse_twt_tx_queue_purge :: "morse_twt \<Rightarrow> eth_addr option \<Rightarrow> morse_twt" where
  "morse_twt_tx_queue_purge tw addr =
     (let (kept, purged) = morse_twt_queue_purge (tx tw) addr None
      in tw\<lparr>tx := kept, freed_events := freed_events tw @ purged\<rparr>)"

definition morse_twt_to_install_queue_purge :: "morse_twt \<Rightarrow> eth_addr option \<Rightarrow> morse_twt" where
  "morse_twt_to_install_queue_purge tw addr =
     (let (kept, purged) = morse_twt_queue_purge (to_install_uninstall tw) addr None
      in tw\<lparr>to_install_uninstall := kept, freed_events := freed_events tw @ purged\<rparr>)"

definition morse_twt_queue_event :: "morse_twt \<Rightarrow> morse_twt_event \<Rightarrow> morse_twt" where
  "morse_twt_queue_event tw event =
     (let (kept, purged) =
            morse_twt_queue_purge (events tw) (Some (ev_addr event)) (Some (ev_flow_id event))
      in tw\<lparr>events := kept @ [event], freed_events := freed_events tw @ purged\<rparr>)"

text \<open>The address and flow id of an event.\<close>

definition ev_key :: "morse_twt_event \<Rightarrow> eth_addr \<times> u8" where
  "ev_key e = (ev_addr e, ev_flow_id e)"

subsection \<open>Stations and agreements\<close>

definition morse_twt_get_sta :: "morse_twt \<Rightarrow> eth_addr \<Rightarrow> nat option" where
  "morse_twt_get_sta tw addr = find (\<lambda>p. sta_addr (sta_mem tw p) = addr) (stas tw)"

text \<open>
  \<^verbatim>\<open>list_del_init(&agr->list)\<close> followed by the removal of the wake interval whose list has
  become empty: the agreement leaves the list that holds it.
\<close>

fun wi_unlink :: "agr_ref \<Rightarrow> agr_ref list list \<Rightarrow> agr_ref list list" where
  "wi_unlink agr [] = []"
| "wi_unlink agr (wi # rest) =
     (if agr \<in> set wi
      then (if remove1 agr wi = [] then rest else remove1 agr wi # rest)
      else wi # wi_unlink agr rest)"

definition morse_twt_agreement_remove :: "morse_twt \<Rightarrow> agr_ref \<Rightarrow> int \<times> morse_twt" where
  "morse_twt_agreement_remove tw agr =
     (if agr \<notin> set (concat (wake_intervals tw)) then (0, tw)
      else (0, tw\<lparr>wake_intervals := wi_unlink agr (wake_intervals tw)\<rparr>))"

definition morse_twt_sta_remove :: "morse_twt \<Rightarrow> nat option \<Rightarrow> int \<times> morse_twt" where
  "morse_twt_sta_remove tw sta =
     (case sta of
        None \<Rightarrow> (- ENODEV, tw)
      | Some p \<Rightarrow>
          let tw1 = fold (\<lambda>i t. snd (morse_twt_agreement_remove t (p, i)))
                      [0 ..< MORSE_TWT_AGREEMENTS_MAX_PER_STA] tw;
              addr = sta_addr (sta_mem tw1 p);
              tw2 = (if vif_type tw1 = NL80211_IFTYPE_STATION
                     then morse_twt_to_install_queue_purge
                            (tw1\<lparr>active_agreement_bitmap := 0\<rparr>) (Some addr)
                     else tw1);
              tw3 = morse_twt_tx_queue_purge tw2 (Some addr)
          in (0, tw3\<lparr>stas := remove1 p (stas tw3)\<rparr>))"

definition morse_twt_sta_agreement_remove ::
  "morse_twt \<Rightarrow> nat option \<Rightarrow> u8 \<Rightarrow> int \<times> morse_twt" where
  "morse_twt_sta_agreement_remove tw sta flow_id =
     (case sta of
        None \<Rightarrow> (- EINVAL, tw)
      | Some p \<Rightarrow>
          if unat flow_id \<ge> MORSE_TWT_AGREEMENTS_MAX_PER_STA then (- EINVAL, tw)
          else
            let tw1 = snd (morse_twt_agreement_remove tw (p, unat flow_id))
            in if list_ex (\<lambda>i. agr_state (agr_mem tw1 (p, i)) \<noteq> MORSE_TWT_STATE_NO_AGREEMENT)
                    [0 ..< MORSE_TWT_AGREEMENTS_MAX_PER_STA]
               then (0, tw1)
               else morse_twt_sta_remove tw1 (Some p))"

definition morse_twt_sta_agreement_add ::
  "morse_twt \<Rightarrow> nat option \<Rightarrow> u8 \<Rightarrow> morse_twt_agreement_data option \<Rightarrow> int \<times> morse_twt" where
  "morse_twt_sta_agreement_add tw sta flow_id data =
     (case (sta, data) of
        (Some p, Some d) \<Rightarrow>
          if unat flow_id \<ge> MORSE_TWT_AGREEMENTS_MAX_PER_STA then (- EINVAL, tw)
          else (0, tw\<lparr>agr_mem := (agr_mem tw)
                  ((p, unat flow_id) := (agr_mem tw (p, unat flow_id))\<lparr>agr_data := d\<rparr>)\<rparr>)
      | _ \<Rightarrow> (- EINVAL, tw))"

subsection \<open>Wake interval lists\<close>

text \<open>
  The loop of \<^verbatim>\<open>morse_twt_agreement_wake_interval_get\<close> over a non-empty list of wake
  intervals. \<open>kmalloc_ok\<close> says whether the allocation of a new wake interval succeeds. The
  result is the position of the wake interval returned, with the list as it is then;
  \<open>None\<close> is the return value NULL.
\<close>

fun wake_interval_get_loop ::
  "(agr_ref \<Rightarrow> morse_twt_agreement) \<Rightarrow> u64 \<Rightarrow> bool \<Rightarrow> agr_ref list list \<Rightarrow>
   (nat \<times> agr_ref list list) option" where
  "wake_interval_get_loop am us kmalloc_ok [] = None"
| "wake_interval_get_loop am us kmalloc_ok (wi # rest) =
     (case wi of
        [] \<Rightarrow> None
      | agr # _ \<Rightarrow>
          let wi_us = wake_interval_us (agr_data (am agr))
          in if wi_us = us then Some (0, wi # rest)
             else if wi_us > us then (if kmalloc_ok then Some (0, [] # wi # rest) else None)
             else if rest = [] then (if kmalloc_ok then Some (1, [wi, []]) else None)
             else map_option (\<lambda>(i, l). (Suc i, wi # l))
                    (wake_interval_get_loop am us kmalloc_ok rest))"

definition morse_twt_agreement_wake_interval_get ::
  "morse_twt \<Rightarrow> u64 \<Rightarrow> bool \<Rightarrow> (nat \<times> agr_ref list list) option" where
  "morse_twt_agreement_wake_interval_get tw us kmalloc_ok =
     (if wake_intervals tw = [] then (if kmalloc_ok then Some (0, [[]]) else None)
      else wake_interval_get_loop (agr_mem tw) us kmalloc_ok (wake_intervals tw))"

text \<open>
  The value of the local variable \<^verbatim>\<open>unalloc_dur_us\<close> in the loop of
  \<^verbatim>\<open>morse_twt_agreement_wake_interval_add\<close> for an agreement \<open>ptr\<close> and its successor
  \<open>ptr_next\<close>: the gap between the two consecutive service periods, in 64-bit arithmetic. It
  is computed after the two calls of \<^verbatim>\<open>div64_u64_rem\<close>, so only for wake intervals other
  than zero.
\<close>

definition unalloc_dur_us ::
  "(agr_ref \<Rightarrow> morse_twt_agreement) \<Rightarrow> agr_ref \<Rightarrow> agr_ref \<Rightarrow> u64" where
  "unalloc_dur_us am ptr ptr_next =
     (let cur_next_wake_offset_us =
            wake_time_us (agr_data (am ptr)) mod wake_interval_us (agr_data (am ptr));
          next0 =
            wake_time_us (agr_data (am ptr_next)) mod
            wake_interval_us (agr_data (am ptr_next));
          next_next_wake_offset_us =
            (if cur_next_wake_offset_us > next0
             then next0 + wake_interval_us (agr_data (am ptr)) else next0)
      in next_next_wake_offset_us -
         (cur_next_wake_offset_us + ucast (wake_duration_us (agr_data (am ptr)))))"

text \<open>
  The \<^verbatim>\<open>list_for_each_entry\<close> loop of \<^verbatim>\<open>morse_twt_agreement_wake_interval_add\<close> over the
  agreements of one wake interval. It either finds the wake time and the place of the new
  agreement, or runs off the end of the list (the \<^verbatim>\<open>return -EBADSLT\<close> after the loop), or
  divides by a wake interval of zero in \<^verbatim>\<open>div64_u64_rem\<close>, where the kernel traps.
\<close>

datatype wi_place = WI_PLACED u64 "agr_ref list" | WI_NO_SLOT | WI_DIV_ZERO

fun wake_interval_add_loop ::
  "(agr_ref \<Rightarrow> morse_twt_agreement) \<Rightarrow> agr_ref \<Rightarrow> agr_ref list \<Rightarrow> wi_place" where
  "wake_interval_add_loop am agr [] = WI_NO_SLOT"
| "wake_interval_add_loop am agr [ptr] =
     WI_PLACED (wake_time_us (agr_data (am ptr)) + ucast (wake_duration_us (agr_data (am ptr))))
       [ptr, agr]"
| "wake_interval_add_loop am agr (ptr # ptr_next # rest) =
     (if wake_interval_us (agr_data (am ptr)) = 0 \<or>
         wake_interval_us (agr_data (am ptr_next)) = 0
      then WI_DIV_ZERO
      else if unalloc_dur_us am ptr ptr_next \<ge> ucast (wake_duration_us (agr_data (am agr)))
      then WI_PLACED
             (wake_time_us (agr_data (am ptr)) + ucast (wake_duration_us (agr_data (am ptr))))
             (ptr # agr # ptr_next # rest)
      else (case wake_interval_add_loop am agr (ptr_next # rest) of
              WI_PLACED t l \<Rightarrow> WI_PLACED t (ptr # l)
            | WI_NO_SLOT \<Rightarrow> WI_NO_SLOT
            | WI_DIV_ZERO \<Rightarrow> WI_DIV_ZERO))"

definition set_wake_time_us :: "morse_twt \<Rightarrow> agr_ref \<Rightarrow> u64 \<Rightarrow> morse_twt" where
  "set_wake_time_us tw agr t =
     tw\<lparr>agr_mem := (agr_mem tw)
          (agr := (agr_mem tw agr)\<lparr>agr_data := (agr_data (agr_mem tw agr))\<lparr>wake_time_us := t\<rparr>\<rparr>)\<rparr>"

text \<open>
  \<^verbatim>\<open>morse_twt_agreement_wake_interval_add\<close>. The result is the return value and the state,
  or \<open>None\<close> when the kernel traps on a division by zero.
\<close>

definition morse_twt_agreement_wake_interval_add ::
  "morse_twt \<Rightarrow> agr_ref \<Rightarrow> bool \<Rightarrow> (int \<times> morse_twt) option" where
  "morse_twt_agreement_wake_interval_add tw agr kmalloc_ok =
     (let a = agr_mem tw agr
      in if agr_state a = MORSE_TWT_STATE_NO_AGREEMENT \<or> agr_state a = MORSE_TWT_STATE_AGREEMENT
         then Some (- EINVAL, tw)
         else
           case morse_twt_agreement_wake_interval_get tw (wake_interval_us (agr_data a))
                  kmalloc_ok of
             None \<Rightarrow> Some (- EINVAL, tw)
           | Some (i, wis) \<Rightarrow>
               if wis ! i = []
               then Some (0, set_wake_time_us (tw\<lparr>wake_intervals := wis[i := [agr]]\<rparr>) agr 0)
               else if morse_twt_get_command (p_req_type (params (agr_data a))) =
                       TWT_SETUP_CMD_DEMAND
               then Some (0, tw\<lparr>wake_intervals := wis[i := wis ! i @ [agr]]\<rparr>)
               else
                 (case wake_interval_add_loop (agr_mem tw) agr (wis ! i) of
                    WI_PLACED t l \<Rightarrow>
                      Some (0, set_wake_time_us (tw\<lparr>wake_intervals := wis[i := l]\<rparr>) agr t)
                  | WI_NO_SLOT \<Rightarrow> Some (- EBADSLT, tw\<lparr>wake_intervals := wis\<rparr>)
                  | WI_DIV_ZERO \<Rightarrow> None))"


text \<open>
  The place of a new agreement in the words of the specification: walking the agreements of
  the wake interval in order, it goes behind the first one whose gap to its successor is at
  least the wake duration of the new agreement, and behind the last one when no gap is large
  enough. \<open>first_fit\<close> is the position in the list of the agreement it goes behind.
\<close>

definition first_fit ::
  "(agr_ref \<Rightarrow> morse_twt_agreement) \<Rightarrow> agr_ref \<Rightarrow> agr_ref list \<Rightarrow> nat" where
  "first_fit am agr l =
     (case List.find
             (\<lambda>j. unalloc_dur_us am (l ! j) (l ! Suc j) \<ge>
                    ucast (wake_duration_us (agr_data (am agr))))
             [0..<length l - 1] of
        Some j \<Rightarrow> j
      | None \<Rightarrow> length l - 1)"

text \<open>
  Modelled from the spec: the service windows of an agreement, which the firmware derives
  from the wake time and the wake interval. The wake interval is the period between service
  windows, the wake time the absolute anchor offset and the wake duration the window length:
  the first window starts at the wake time, each lasts for the wake duration, and they
  repeat every wake interval. \<open>in_service_period d t\<close> says that the time \<open>t\<close> (in us) lies
  in a service window of the agreement with the data \<open>d\<close>.
\<close>

definition in_service_period :: "morse_twt_agreement_data \<Rightarrow> nat \<Rightarrow> bool" where
  "in_service_period d t =
     (unat (wake_time_us d) \<le> t \<and>
      (t - unat (wake_time_us d)) mod unat (wake_interval_us d) < unat (wake_duration_us d))"
subsection \<open>State machine\<close>

definition morse_twt_enter_state_no_agreement ::
  "morse_twt \<Rightarrow> nat option \<Rightarrow> morse_twt_event \<Rightarrow> int \<times> morse_twt" where
  "morse_twt_enter_state_no_agreement tw sta event =
     morse_twt_sta_agreement_remove tw sta (ev_flow_id event)"

definition morse_twt_enter_state_agreement ::
  "morse_twt \<Rightarrow> nat option \<Rightarrow> morse_twt_event \<Rightarrow> int \<times> morse_twt" where
  "morse_twt_enter_state_agreement tw sta event =
     morse_twt_sta_agreement_add tw sta (ev_flow_id event) (setup_agr_data event)"

text \<open>
  \<^verbatim>\<open>morse_mac_send_twt_action_frame\<close>: the return value and the state. The frame is handed on
  on two paths, for a station with management frame protection through
  \<^verbatim>\<open>MORSE_IEEE80211_TX_STATUS\<close> and otherwise through \<^verbatim>\<open>morse_skbq_skb_tx\<close>; on the five
  other paths the function returns an error and no frame is sent.
\<close>

definition morse_mac_send_twt_action_frame ::
  "morse_twt \<Rightarrow> morse_twt_event \<Rightarrow> eth_addr \<Rightarrow> u8 \<Rightarrow> bool \<Rightarrow> int \<times> morse_twt" where
  "morse_mac_send_twt_action_frame tw twt_tx dest_addr tok is_twt_setup =
     (let env = frame_env tw dest_addr;
          frame = \<lparr>af_event = twt_tx, af_dest_addr = dest_addr, af_dialog_token = tok,
                   af_is_twt_setup = is_twt_setup, af_protected = af_sta_mfp env\<rparr>
      in if \<not> af_vif_present env then (- EINVAL, tw)
         else if \<not> af_skb_alloc_ok env then (- ENOMEM, tw)
         else if \<not> af_sta_found env then (- EINVAL, tw)
         else if af_sta_mfp env
         then (if af_sw_crypto_mode env then (- EINVAL, tw)
               else (0, tw\<lparr>action_frames := action_frames tw @ [frame]\<rparr>))
         else if af_skbq_tx_ret env \<noteq> 0 then (af_skbq_tx_ret env, tw)
         else (0, tw\<lparr>action_frames := action_frames tw @ [frame]\<rparr>))"

text \<open>Whether an action frame to \<open>dest_addr\<close> is handed on.\<close>

definition action_frame_goes_out :: "morse_twt \<Rightarrow> eth_addr \<Rightarrow> bool" where
  "action_frame_goes_out tw dest_addr =
     (let env = frame_env tw dest_addr
      in af_vif_present env \<and> af_skb_alloc_ok env \<and> af_sta_found env \<and>
         (if af_sta_mfp env then \<not> af_sw_crypto_mode env else af_skbq_tx_ret env = 0))"

text \<open>
  \<^verbatim>\<open>morse_twt_enter_state\<close>, \<^verbatim>\<open>morse_twt_send_accept\<close> and \<^verbatim>\<open>morse_twt_send_reject\<close> call each
  other. The station pointer is \<open>None\<close> when NULL, \<open>kmalloc_ok\<close> is passed on to the wake
  interval lookup, and \<open>None\<close> as a result is the trap of the scheduler.
  \<^verbatim>\<open>morse_twt_enter_state\<close> returns 0 whatever the function of the state returns, and
  \<^verbatim>\<open>send_accept\<close> and \<^verbatim>\<open>send_reject\<close> do not look at the return value of
  \<^verbatim>\<open>morse_mac_send_twt_action_frame\<close>. The
  functions \<^verbatim>\<open>morse_twt_enter_state_consider_*\<close> are the calls of \<^verbatim>\<open>send_accept\<close> and
  \<^verbatim>\<open>send_reject\<close> in the four middle equations. An event passed in has been taken off its
  queue; \<^verbatim>\<open>send_reject\<close> reads \<^verbatim>\<open>event->setup.agr_data\<close> without a check, so for a NULL
  pointer there the kernel traps as well.
\<close>

function (sequential) morse_twt_enter_state ::
    "morse_twt \<Rightarrow> nat option \<Rightarrow> morse_twt_event \<Rightarrow> morse_twt_state \<Rightarrow> bool \<Rightarrow>
     (int \<times> morse_twt) option"
  and morse_twt_send_accept ::
    "morse_twt \<Rightarrow> nat option \<Rightarrow> morse_twt_event \<Rightarrow> bool \<Rightarrow> (int \<times> morse_twt) option"
  and morse_twt_send_reject ::
    "morse_twt \<Rightarrow> nat option \<Rightarrow> morse_twt_event \<Rightarrow> bool \<Rightarrow> (int \<times> morse_twt) option"
where
  "morse_twt_enter_state tw None event st kmalloc_ok = Some (- EINVAL, tw)"
| "morse_twt_enter_state tw (Some p) event MORSE_TWT_STATE_NO_AGREEMENT kmalloc_ok =
     (let agr = (p, unat (ev_flow_id event));
          tw1 = tw\<lparr>agr_mem := (agr_mem tw)
                  (agr := (agr_mem tw agr)\<lparr>agr_state := MORSE_TWT_STATE_NO_AGREEMENT\<rparr>)\<rparr>
      in Some (0, snd (morse_twt_enter_state_no_agreement tw1 (Some p) event)))"
| "morse_twt_enter_state tw (Some p) event MORSE_TWT_STATE_AGREEMENT kmalloc_ok =
     (let agr = (p, unat (ev_flow_id event));
          tw1 = tw\<lparr>agr_mem := (agr_mem tw)
                  (agr := (agr_mem tw agr)\<lparr>agr_state := MORSE_TWT_STATE_AGREEMENT\<rparr>)\<rparr>
      in Some (0, snd (morse_twt_enter_state_agreement tw1 (Some p) event)))"
| "morse_twt_enter_state tw (Some p) event MORSE_TWT_STATE_CONSIDER_REQUEST kmalloc_ok =
     (let agr = (p, unat (ev_flow_id event));
          tw1 = tw\<lparr>agr_mem := (agr_mem tw)
                  (agr := (agr_mem tw agr)\<lparr>agr_state := MORSE_TWT_STATE_CONSIDER_REQUEST\<rparr>)\<rparr>
      in map_option (\<lambda>(ret, t). (0, t)) (morse_twt_send_accept tw1 (Some p) event kmalloc_ok))"
| "morse_twt_enter_state tw (Some p) event MORSE_TWT_STATE_CONSIDER_SUGGEST kmalloc_ok =
     (let agr = (p, unat (ev_flow_id event));
          tw1 = tw\<lparr>agr_mem := (agr_mem tw)
                  (agr := (agr_mem tw agr)\<lparr>agr_state := MORSE_TWT_STATE_CONSIDER_SUGGEST\<rparr>)\<rparr>
      in map_option (\<lambda>(ret, t). (0, t)) (morse_twt_send_accept tw1 (Some p) event kmalloc_ok))"
| "morse_twt_enter_state tw (Some p) event MORSE_TWT_STATE_CONSIDER_DEMAND kmalloc_ok =
     (let agr = (p, unat (ev_flow_id event));
          tw1 = tw\<lparr>agr_mem := (agr_mem tw)
                  (agr := (agr_mem tw agr)\<lparr>agr_state := MORSE_TWT_STATE_CONSIDER_DEMAND\<rparr>)\<rparr>
      in map_option (\<lambda>(ret, t). (0, t)) (morse_twt_send_reject tw1 (Some p) event kmalloc_ok))"
| "morse_twt_enter_state tw (Some p) event MORSE_TWT_STATE_CONSIDER_GROUPING kmalloc_ok =
     (let agr = (p, unat (ev_flow_id event));
          tw1 = tw\<lparr>agr_mem := (agr_mem tw)
                  (agr := (agr_mem tw agr)\<lparr>agr_state := MORSE_TWT_STATE_CONSIDER_GROUPING\<rparr>)\<rparr>
      in map_option (\<lambda>(ret, t). (0, t)) (morse_twt_send_reject tw1 (Some p) event kmalloc_ok))"
| "morse_twt_send_accept tw None event kmalloc_ok = Some (- EINVAL, tw)"
| "morse_twt_send_accept tw (Some p) event kmalloc_ok =
     (case setup_agr_data event of
        None \<Rightarrow> Some (- EINVAL, tw)
      | Some event_agr_data \<Rightarrow>
          let sta_agr = (p, unat (ev_flow_id event));
              tw1 = tw\<lparr>agr_mem := (agr_mem tw)
                      (sta_agr := (agr_mem tw sta_agr)\<lparr>agr_data := event_agr_data\<rparr>)\<rparr>
          in (case morse_twt_agreement_wake_interval_add tw1 sta_agr kmalloc_ok of
               None \<Rightarrow> None
             | Some (ret_add, tw2) \<Rightarrow>
                 let d = agr_data (agr_mem tw2 sta_agr);
                     prm = (params d)\<lparr>p_req_type :=
                              morse_twt_set_command (p_req_type (params d)) TWT_SETUP_CMD_ACCEPT\<rparr>;
                     d1 = d\<lparr>params := morse_twt_update_params prm (control d) (wake_time_us d)
                                         (wake_interval_us d) (wake_duration_us d)\<rparr>;
                     tw3 = tw2\<lparr>agr_mem := (agr_mem tw2)
                             (sta_agr := (agr_mem tw2 sta_agr)\<lparr>agr_data := d1\<rparr>)\<rparr>;
                     event1 = event\<lparr>setup_cmd := TWT_SETUP_CMD_ACCEPT,
                                    setup_agr_data := Some d1\<rparr>
                 in if action_is_pending (sta_mem tw3 p)
                    then
                      let tw4 = snd (morse_mac_send_twt_action_frame tw3 event1
                                       (sta_addr (sta_mem tw3 p)) (dialog_token (sta_mem tw3 p))
                                       True);
                          tw5 = tw4\<lparr>sta_mem := (sta_mem tw4)
                                  (p := (sta_mem tw4 p)\<lparr>action_is_pending := False\<rparr>)\<rparr>
                      in (case morse_twt_enter_state tw5 (Some p) event1
                                 MORSE_TWT_STATE_AGREEMENT kmalloc_ok of
                            None \<Rightarrow> None
                          | Some (ret_enter, tw6) \<Rightarrow> Some (0, morse_twt_purge_event tw6 event1))
                    else Some (0, tw3\<lparr>tx := tx tw3 @ [event1]\<rparr>)))"
| "morse_twt_send_reject tw None event kmalloc_ok = Some (- EINVAL, tw)"
| "morse_twt_send_reject tw (Some p) event kmalloc_ok =
     (case setup_agr_data event of
        None \<Rightarrow> None
      | Some d \<Rightarrow>
          let d1 = d\<lparr>params := (params d)\<lparr>p_req_type :=
                      morse_twt_set_command (p_req_type (params d)) TWT_SETUP_CMD_REJECT\<rparr>\<rparr>;
              event1 = event\<lparr>setup_cmd := TWT_SETUP_CMD_REJECT, setup_agr_data := Some d1\<rparr>
          in if action_is_pending (sta_mem tw p)
             then
               let tw1 = snd (morse_mac_send_twt_action_frame tw event1
                                (sta_addr (sta_mem tw p)) (dialog_token (sta_mem tw p)) True);
                   tw2 = tw1\<lparr>sta_mem := (sta_mem tw1)
                           (p := (sta_mem tw1 p)\<lparr>action_is_pending := False\<rparr>)\<rparr>
               in (case morse_twt_enter_state tw2 (Some p) event1
                          MORSE_TWT_STATE_NO_AGREEMENT kmalloc_ok of
                     None \<Rightarrow> None
                   | Some (ret_enter, tw3) \<Rightarrow> Some (0, morse_twt_purge_event tw3 event1))
             else Some (0, tw\<lparr>tx := tx tw @ [event1]\<rparr>))"
  by pat_completeness auto
termination
  by (relation "measure (\<lambda>x. case x of
        Inl (tw, sta, event, st, k) \<Rightarrow>
          (if st = MORSE_TWT_STATE_NO_AGREEMENT \<or> st = MORSE_TWT_STATE_AGREEMENT then 0 else 2)
      | Inr _ \<Rightarrow> 1)") auto

declare morse_twt_enter_state.simps [simp del]
declare morse_twt_send_accept.simps [simp del]
declare morse_twt_send_reject.simps [simp del]

text \<open>
  \<^verbatim>\<open>morse_twt_handle_event_in_no_agreement\<close>. A GROUPING command enters the state
  \<^verbatim>\<open>CONSIDER_DEMAND\<close>, as in the source.
\<close>

definition morse_twt_handle_event_in_no_agreement ::
  "morse_twt \<Rightarrow> nat option \<Rightarrow> morse_twt_event \<Rightarrow> bool \<Rightarrow> (int \<times> morse_twt) option" where
  "morse_twt_handle_event_in_no_agreement tw sta event kmalloc_ok =
     (if sta = None then Some (- EINVAL, morse_twt_purge_event tw event)
      else if ev_type event \<noteq> MORSE_TWT_EVENT_SETUP
      then Some (- EINVAL, morse_twt_purge_event tw event)
      else
        case setup_cmd event of
          TWT_SETUP_CMD_REQUEST \<Rightarrow>
            map_option (\<lambda>(ret, t). (0, t))
              (morse_twt_enter_state tw sta event MORSE_TWT_STATE_CONSIDER_REQUEST kmalloc_ok)
        | TWT_SETUP_CMD_SUGGEST \<Rightarrow>
            map_option (\<lambda>(ret, t). (0, t))
              (morse_twt_enter_state tw sta event MORSE_TWT_STATE_CONSIDER_SUGGEST kmalloc_ok)
        | TWT_SETUP_CMD_DEMAND \<Rightarrow>
            map_option (\<lambda>(ret, t). (0, t))
              (morse_twt_enter_state tw sta event MORSE_TWT_STATE_CONSIDER_DEMAND kmalloc_ok)
        | TWT_SETUP_CMD_GROUPING \<Rightarrow>
            map_option (\<lambda>(ret, t). (0, t))
              (morse_twt_enter_state tw sta event MORSE_TWT_STATE_CONSIDER_DEMAND kmalloc_ok)
        | _ \<Rightarrow> Some (- EINVAL, morse_twt_purge_event tw event))"

text \<open>
  \<^verbatim>\<open>morse_twt_dequeue_tx_response\<close>. \<open>tx_event\<close> is the response at the head of its way out;
  it is still on the \<open>tx\<close> queue while this function runs.
\<close>

definition morse_twt_dequeue_tx_response ::
  "morse_twt \<Rightarrow> morse_twt_event \<Rightarrow> (int \<times> morse_twt) option" where
  "morse_twt_dequeue_tx_response tw tx_event =
     (case morse_twt_get_sta tw (ev_addr tx_event) of
        None \<Rightarrow> Some (- ENODEV, tw)
      | Some p \<Rightarrow>
          let st = agr_state (agr_mem tw (p, unat (ev_flow_id tx_event)))
          in if st = MORSE_TWT_STATE_NO_AGREEMENT \<or> st = MORSE_TWT_STATE_AGREEMENT
             then Some (- EINVAL, tw)
             else if setup_cmd tx_event = TWT_SETUP_CMD_ACCEPT
             then morse_twt_enter_state tw (Some p) tx_event MORSE_TWT_STATE_AGREEMENT True
             else if setup_cmd tx_event = TWT_SETUP_CMD_REJECT
             then morse_twt_enter_state tw (Some p) tx_event MORSE_TWT_STATE_NO_AGREEMENT True
             else Some (0, tw))"

text \<open>
  \<^verbatim>\<open>morse_twt_dequeue_tx\<close>, called when a response on the \<open>tx\<close> queue has gone out. After the
  state transition the event is purged: \<^verbatim>\<open>list_del\<close> takes it off the \<open>tx\<close> queue and it is
  freed. When the transition has removed the station, \<^verbatim>\<open>morse_twt_sta_remove\<close> has purged
  the \<open>tx\<close> queue of that station already, the event among them; then nothing is left to
  take off the queue and the event is freed a second time, which shows in \<open>freed_events\<close>.
\<close>

definition morse_twt_dequeue_tx ::
  "morse_twt \<Rightarrow> morse_twt_event \<Rightarrow> (int \<times> morse_twt) option" where
  "morse_twt_dequeue_tx tw tx_event =
     (case (if ev_type tx_event = MORSE_TWT_EVENT_SETUP \<and>
               (setup_cmd tx_event = TWT_SETUP_CMD_ACCEPT \<or>
                setup_cmd tx_event = TWT_SETUP_CMD_ALTERNATE \<or>
                setup_cmd tx_event = TWT_SETUP_CMD_DICTATE \<or>
                setup_cmd tx_event = TWT_SETUP_CMD_REJECT)
            then morse_twt_dequeue_tx_response tw tx_event
            else Some (0, tw)) of
        None \<Rightarrow> None
      | Some (ret, tw1) \<Rightarrow>
          Some (ret, morse_twt_purge_event (tw1\<lparr>tx := remove1 tx_event (tx tw1)\<rparr>) tx_event))"

text \<open>
  What the peer reads in a response event: the setup command in the request type of the
  parameters that go on the wire, and, in an accept, the target wake time.
\<close>

definition twt_wire_response :: "morse_twt_event \<Rightarrow> ieee80211_twt_setup_cmd \<Rightarrow> bool" where
  "twt_wire_response e cmd =
     (case setup_agr_data e of
        None \<Rightarrow> False
      | Some d \<Rightarrow>
          setup_cmd e = cmd \<and>
          morse_twt_get_command (p_req_type (params d)) = cmd \<and>
          (if cmd = TWT_SETUP_CMD_ACCEPT then p_twt (params d) = wake_time_us d else True))"

text \<open>
  The reading of ``a response with command \<open>cmd\<close> is produced and the flow reaches state
  \<open>st\<close> once the response is delivered'' for the result \<open>res\<close> of handling \<open>event\<close> of the
  station at \<open>p\<close> in state \<open>tw\<close>. If the setup came in an action frame, the response is an
  action frame to the station, the last one sent, and the flow is in state \<open>st\<close> at once.
  Otherwise the response is the event put last on the \<open>tx\<close> queue, and
  \<^verbatim>\<open>morse_twt_dequeue_tx\<close> on it, which runs when the response has gone out, returns 0 and
  leaves the flow in state \<open>st\<close>.
\<close>

definition twt_responded ::
  "morse_twt \<Rightarrow> nat \<Rightarrow> morse_twt_event \<Rightarrow> ieee80211_twt_setup_cmd \<Rightarrow> morse_twt_state \<Rightarrow>
   (int \<times> morse_twt) option \<Rightarrow> bool" where
  "twt_responded tw p event cmd st res =
     (case res of
        None \<Rightarrow> False
      | Some (ret, tw1) \<Rightarrow>
          ret = 0 \<and>
          (if action_is_pending (sta_mem tw p)
           then action_frames tw1 \<noteq> [] \<and>
                butlast (action_frames tw1) = action_frames tw \<and>
                twt_wire_response (af_event (last (action_frames tw1))) cmd \<and>
                ev_key (af_event (last (action_frames tw1))) = ev_key event \<and>
                af_dest_addr (last (action_frames tw1)) = sta_addr (sta_mem tw p) \<and>
                af_dialog_token (last (action_frames tw1)) = dialog_token (sta_mem tw p) \<and>
                af_is_twt_setup (last (action_frames tw1)) \<and>
                agr_state (agr_mem tw1 (p, unat (ev_flow_id event))) = st
           else tx tw1 \<noteq> [] \<and>
                butlast (tx tw1) = tx tw \<and>
                twt_wire_response (last (tx tw1)) cmd \<and>
                ev_key (last (tx tw1)) = ev_key event \<and>
                (case morse_twt_dequeue_tx tw1 (last (tx tw1)) of
                   None \<Rightarrow> False
                 | Some (ret2, tw2) \<Rightarrow>
                     ret2 = 0 \<and>
                     agr_state (agr_mem tw2 (p, unat (ev_flow_id event))) = st)))"

subsection \<open>Auxiliary notions and concrete values used in examples\<close>

text \<open>The wake interval lists after the agreements \<open>(p, i)\<close> for the indices \<open>ixs\<close> have left.\<close>

definition wi_unlink_all :: "nat \<Rightarrow> nat list \<Rightarrow> agr_ref list list \<Rightarrow> agr_ref list list" where
  "wi_unlink_all p ixs wis = fold (\<lambda>i. wi_unlink (p, i)) ixs wis"

text \<open>
  A request for flow 2 with a wake interval of 100000 us (mantissa 50000, exponent 1) and a
  wake duration of 8000 us.
\<close>

definition ex_params :: ieee80211_twt_params where
  "ex_params =
     \<lparr>p_req_type = 0x0521, p_twt = 0, p_min_twt_dur = 31, p_mantissa = 50000, p_channel = 0\<rparr>"

definition ex_data :: morse_twt_agreement_data where
  "ex_data =
     \<lparr>control = 0, wake_time_us = 0, wake_interval_us = 100000, wake_duration_us = 8000,
      params = ex_params\<rparr>"

definition ex_idle :: morse_twt_agreement where
  "ex_idle = \<lparr>agr_state = MORSE_TWT_STATE_NO_AGREEMENT, agr_data = ex_data\<rparr>"

definition ex_sta :: "eth_addr \<Rightarrow> morse_twt_sta" where
  "ex_sta a = \<lparr>sta_addr = a, dialog_token = 0, action_is_pending = False\<rparr>"

text \<open>
  Surroundings in which every action frame goes out, and surroundings in which no buffer
  for a frame can be allocated.
\<close>

definition ex_frame_env :: "eth_addr \<Rightarrow> action_frame_env" where
  "ex_frame_env a =
     \<lparr>af_vif_present = True, af_skb_alloc_ok = True, af_sta_found = True, af_sta_mfp = False,
      af_sw_crypto_mode = False, af_skbq_tx_ret = 0\<rparr>"

definition ex_frame_env_nomem :: "eth_addr \<Rightarrow> action_frame_env" where
  "ex_frame_env_nomem a = (ex_frame_env a)\<lparr>af_skb_alloc_ok := False\<rparr>"

text \<open>An access point with the stations 1, 2 and 3 and no agreement.\<close>

definition ex_sta_mem :: "nat \<Rightarrow> morse_twt_sta" where
  "ex_sta_mem p = ex_sta (word_of_nat p)"

definition ex_agr_mem0 :: "agr_ref \<Rightarrow> morse_twt_agreement" where
  "ex_agr_mem0 r = ex_idle"

definition ex_twt0 :: morse_twt where
  "ex_twt0 =
     \<lparr>stas = [1, 2, 3], sta_mem = ex_sta_mem, agr_mem = ex_agr_mem0, wake_intervals = [],
      events = [], tx = [], to_install_uninstall = [], active_agreement_bitmap = 0,
      vif_type = NL80211_IFTYPE_AP, action_frames = [], freed_events = [],
      frame_env = ex_frame_env\<rparr>"

text \<open>A setup event and a teardown event of station \<open>p\<close> for flow 2.\<close>

definition ex_setup :: "nat \<Rightarrow> ieee80211_twt_setup_cmd \<Rightarrow> morse_twt_event" where
  "ex_setup p cmd =
     \<lparr>ev_type = MORSE_TWT_EVENT_SETUP, ev_addr = word_of_nat p, ev_flow_id = 2,
      setup_cmd = cmd, setup_agr_data = Some ex_data, teardown = False\<rparr>"

definition ex_teardown :: "nat \<Rightarrow> morse_twt_event" where
  "ex_teardown p =
     \<lparr>ev_type = MORSE_TWT_EVENT_TEARDOWN, ev_addr = word_of_nat p, ev_flow_id = 2,
      setup_cmd = TWT_SETUP_CMD_REQUEST, setup_agr_data = None, teardown = True\<rparr>"

text \<open>
  Station 1 holds an agreement for flow 2, anchored at 0; in the second state station 2
  holds one as well, anchored at 8000, and station 3 is considering a request for a wake
  duration of 95000 us.
\<close>

definition ex_agr_mem1 :: "agr_ref \<Rightarrow> morse_twt_agreement" where
  "ex_agr_mem1 r =
     (if r = (1, 2) then \<lparr>agr_state = MORSE_TWT_STATE_AGREEMENT, agr_data = ex_data\<rparr>
      else ex_idle)"

definition ex_twt1 :: morse_twt where
  "ex_twt1 = ex_twt0\<lparr>agr_mem := ex_agr_mem1, wake_intervals := [[(1, 2)]]\<rparr>"

definition ex_agr_mem2 :: "agr_ref \<Rightarrow> morse_twt_agreement" where
  "ex_agr_mem2 r =
     (if r = (1, 2) then \<lparr>agr_state = MORSE_TWT_STATE_AGREEMENT, agr_data = ex_data\<rparr>
      else if r = (2, 2)
      then \<lparr>agr_state = MORSE_TWT_STATE_AGREEMENT, agr_data = ex_data\<lparr>wake_time_us := 8000\<rparr>\<rparr>
      else if r = (3, 2)
      then \<lparr>agr_state = MORSE_TWT_STATE_CONSIDER_REQUEST,
            agr_data = ex_data\<lparr>wake_duration_us := 95000\<rparr>\<rparr>
      else ex_idle)"

definition ex_twt2 :: morse_twt where
  "ex_twt2 = ex_twt0\<lparr>agr_mem := ex_agr_mem2, wake_intervals := [[(1, 2), (2, 2)]]\<rparr>"

text \<open>The access point with a request of station 1 for flow 2 waiting in the event queue.\<close>

definition ex_twt_q :: morse_twt where
  "ex_twt_q = ex_twt0\<lparr>events := [ex_setup 1 TWT_SETUP_CMD_REQUEST]\<rparr>"

text \<open>
  What an example looks at in a result: the return value, the station list, the wake
  interval lists, and the state and wake time of one agreement.
\<close>

definition twt_view ::
  "agr_ref \<Rightarrow> (int \<times> morse_twt) option \<Rightarrow>
   (int \<times> nat list \<times> agr_ref list list \<times> morse_twt_state \<times> u64) option" where
  "twt_view r x =
     map_option (\<lambda>(ret, t). (ret, stas t, wake_intervals t, agr_state (agr_mem t r),
                              wake_time_us (agr_data (agr_mem t r)))) x"

text \<open>
  The two steps of the scenario with two stations asking for the same wake interval: first
  station 1 is considering a request while no wake interval exists, then station 2 is
  considering one while the agreement of station 1 is anchored at 0. The requests arrive
  with a target wake time of 777.
\<close>

definition ex_agr_mem0c :: "agr_ref \<Rightarrow> morse_twt_agreement" where
  "ex_agr_mem0c r =
     (if r = (1, 2)
      then \<lparr>agr_state = MORSE_TWT_STATE_CONSIDER_REQUEST,
            agr_data = ex_data\<lparr>wake_time_us := 777\<rparr>\<rparr>
      else ex_idle)"

definition ex_twt0c :: morse_twt where
  "ex_twt0c = ex_twt0\<lparr>agr_mem := ex_agr_mem0c\<rparr>"

definition ex_agr_mem1c :: "agr_ref \<Rightarrow> morse_twt_agreement" where
  "ex_agr_mem1c r =
     (if r = (1, 2) then \<lparr>agr_state = MORSE_TWT_STATE_AGREEMENT, agr_data = ex_data\<rparr>
      else if r = (2, 2)
      then \<lparr>agr_state = MORSE_TWT_STATE_CONSIDER_REQUEST,
            agr_data = ex_data\<lparr>wake_time_us := 777\<rparr>\<rparr>
      else ex_idle)"

definition ex_twt1c :: morse_twt where
  "ex_twt1c = ex_twt1\<lparr>agr_mem := ex_agr_mem1c\<rparr>"

text \<open>
  The state \<open>ex_twt1\<close> while the setup of a station is being handled out of an action frame
  (\<open>action_is_pending\<close> set), and what an example looks at after a setup event was handled:
  the return value, the commands on the \<open>tx\<close> queue, the commands of the action frames
  sent, and the state of one agreement.
\<close>

definition ex_sta_mem_pending :: "nat \<Rightarrow> morse_twt_sta" where
  "ex_sta_mem_pending p = (ex_sta (word_of_nat p))\<lparr>action_is_pending := True\<rparr>"

definition ex_twt1p :: morse_twt where
  "ex_twt1p = ex_twt1\<lparr>sta_mem := ex_sta_mem_pending\<rparr>"

definition twt_resp_view ::
  "agr_ref \<Rightarrow> (int \<times> morse_twt) option \<Rightarrow>
   (int \<times> ieee80211_twt_setup_cmd list \<times> ieee80211_twt_setup_cmd list \<times> morse_twt_state) option"
  where
  "twt_resp_view r x =
     map_option (\<lambda>(ret, t). (ret, map setup_cmd (tx t),
                              map (\<lambda>f. setup_cmd (af_event f)) (action_frames t),
                              agr_state (agr_mem t r))) x"

text \<open>
  A request of station \<open>p\<close> for flow 2 with a mantissa of 0 on the wire, as
  \<^verbatim>\<open>morse_twt_parse_ie\<close> hands it on: the wake interval is 0 and the wake duration is
  \<open>31 * 256\<close> us. \<open>ex_admit0\<close> is the admission of such a request (the event is handled for
  the station with its address, and the response on the \<open>tx\<close> queue is delivered through
  \<^verbatim>\<open>morse_twt_dequeue_tx\<close>), \<open>ex_handle0\<close> is the first half of it.
\<close>

definition ex_setup0 :: "nat \<Rightarrow> morse_twt_event" where
  "ex_setup0 p =
     (ex_setup p TWT_SETUP_CMD_REQUEST)
       \<lparr>setup_agr_data :=
          Some \<lparr>control = 0, wake_time_us = 0, wake_interval_us = 0, wake_duration_us = 7936,
                params = ex_params\<lparr>p_mantissa := 0\<rparr>\<rparr>\<rparr>"

definition ex_handle0 :: "nat \<Rightarrow> (int \<times> morse_twt) option \<Rightarrow> (int \<times> morse_twt) option" where
  "ex_handle0 p r =
     (case r of
        None \<Rightarrow> None
      | Some (ret, tw) \<Rightarrow>
          morse_twt_handle_event_in_no_agreement tw
            (morse_twt_get_sta tw (ev_addr (ex_setup0 p))) (ex_setup0 p) True)"

definition ex_admit0 :: "nat \<Rightarrow> (int \<times> morse_twt) option \<Rightarrow> (int \<times> morse_twt) option" where
  "ex_admit0 p r =
     (case ex_handle0 p r of
        None \<Rightarrow> None
      | Some (ret, tw) \<Rightarrow> morse_twt_dequeue_tx tw (last (tx tw)))"

text \<open>
  A setup event of station \<open>p\<close> for flow 2 as \<^verbatim>\<open>morse_twt_parse_ie\<close> hands it on, with the
  command also in the request type of its parameters; the handling of an event for the
  station with its address; the delivery of the response that is last on the \<open>tx\<close> queue;
  and the reject that answers a demand of station \<open>p\<close>.
\<close>

definition ex_setup_of :: "nat \<Rightarrow> ieee80211_twt_setup_cmd \<Rightarrow> morse_twt_event" where
  "ex_setup_of p cmd =
     (ex_setup p cmd)
       \<lparr>setup_agr_data :=
          Some (ex_data\<lparr>params :=
                  ex_params\<lparr>p_req_type := morse_twt_set_command (p_req_type ex_params) cmd\<rparr>\<rparr>)\<rparr>"

definition ex_answer :: "morse_twt_event \<Rightarrow> morse_twt \<Rightarrow> (int \<times> morse_twt) option" where
  "ex_answer e tw =
     morse_twt_handle_event_in_no_agreement tw (morse_twt_get_sta tw (ev_addr e)) e True"

definition ex_deliver :: "(int \<times> morse_twt) option \<Rightarrow> (int \<times> morse_twt) option" where
  "ex_deliver r =
     (case r of None \<Rightarrow> None | Some (ret, tw) \<Rightarrow> morse_twt_dequeue_tx tw (last (tx tw)))"

definition ex_reject :: "nat \<Rightarrow> morse_twt_event" where
  "ex_reject p =
     (ex_setup p TWT_SETUP_CMD_REJECT)
       \<lparr>setup_agr_data := Some (ex_data\<lparr>params := ex_params\<lparr>p_req_type := 0x052E\<rparr>\<rparr>)\<rparr>"

text \<open>The wake interval of the agreement \<open>r\<close> in the state of a result.\<close>

definition twt_interval_view :: "agr_ref \<Rightarrow> (int \<times> morse_twt) option \<Rightarrow> u64 option" where
  "twt_interval_view r x = map_option (\<lambda>(ret, t). wake_interval_us (agr_data (agr_mem t r))) x"

text \<open>
  What an example looks at after responses were delivered: the return value, the \<open>tx\<close>
  queue, the events freed, and the station list.
\<close>

definition twt_free_view ::
  "(int \<times> morse_twt) option \<Rightarrow>
   (int \<times> morse_twt_event list \<times> morse_twt_event list \<times> nat list) option" where
  "twt_free_view x = map_option (\<lambda>(ret, t). (ret, tx t, freed_events t, stas t)) x"

text \<open>
  The state \<open>ex_twt1\<close> with surroundings in which no action frame can be sent, while a setup
  of a station is being handled out of an action frame.
\<close>

definition ex_twt1n :: morse_twt where
  "ex_twt1n = ex_twt1p\<lparr>frame_env := ex_frame_env_nomem\<rparr>"

text \<open>
  Station 1 and station 2 hold agreements for flow 2 with a wake interval of 100000 us,
  anchored at 0 and at 50000 and 8000 us long, and station 3 is considering a request for a
  wake duration of 8000 us.
\<close>

definition ex_agr_mem2g :: "agr_ref \<Rightarrow> morse_twt_agreement" where
  "ex_agr_mem2g r =
     (if r = (1, 2) then \<lparr>agr_state = MORSE_TWT_STATE_AGREEMENT, agr_data = ex_data\<rparr>
      else if r = (2, 2)
      then \<lparr>agr_state = MORSE_TWT_STATE_AGREEMENT, agr_data = ex_data\<lparr>wake_time_us := 50000\<rparr>\<rparr>
      else if r = (3, 2)
      then \<lparr>agr_state = MORSE_TWT_STATE_CONSIDER_REQUEST, agr_data = ex_data\<rparr>
      else ex_idle)"

definition ex_twt2g :: morse_twt where
  "ex_twt2g = ex_twt0\<lparr>agr_mem := ex_agr_mem2g, wake_intervals := [[(1, 2), (2, 2)]]\<rparr>"

text \<open>
  Station 1 holds an agreement of 8000 us anchored at 0, and station 2 is considering a
  request for a wake duration of 95000 us with the same wake interval of 100000 us.
\<close>

definition ex_agr_mem1w :: "agr_ref \<Rightarrow> morse_twt_agreement" where
  "ex_agr_mem1w r =
     (if r = (1, 2) then \<lparr>agr_state = MORSE_TWT_STATE_AGREEMENT, agr_data = ex_data\<rparr>
      else if r = (2, 2)
      then \<lparr>agr_state = MORSE_TWT_STATE_CONSIDER_REQUEST,
            agr_data = ex_data\<lparr>wake_duration_us := 95000\<rparr>\<rparr>
      else ex_idle)"

definition ex_twt1w :: morse_twt where
  "ex_twt1w = ex_twt1\<lparr>agr_mem := ex_agr_mem1w\<rparr>"

text \<open>
  Whether the time \<open>t\<close> lies in a service period of the agreement \<open>r\<close> in the state of a
  result.
\<close>

definition twt_service_view :: "agr_ref \<Rightarrow> nat \<Rightarrow> (int \<times> morse_twt) option \<Rightarrow> bool option" where
  "twt_service_view r t x =
     map_option (\<lambda>(ret, tw). in_service_period (agr_data (agr_mem tw r)) t) x"

section \<open>Round trip of the wake interval encoding\<close>



lemma unat_drop_bit_div:
  fixes w :: "'a::len word"
  shows "unat (drop_bit n w) = unat w div 2 ^ n"
  by (simp only: unat_drop_bit_eq drop_bit_eq_div [where ?'a = nat])

lemma unat_push_bit_mod:
  fixes w :: u64
  shows "unat (push_bit n w) = (unat w * 2 ^ n) mod 2 ^ 64"
  by (simp add: unsigned_push_bit_eq take_bit_eq_mod [where ?'a = nat]
      push_bit_eq_mult [where ?'a = nat])

lemma ucast_u16_u64_id:
  fixes m :: u64
  assumes "m \<le> 0xFFFF"
  shows "(ucast (ucast m :: u16) :: u64) = m"
proof -
  have "unat m \<le> 65535" using assms by (simp add: word_le_nat_alt)
  moreover have "unat (ucast (ucast m :: u16) :: u64) = (unat m mod 2 ^ 16) mod 2 ^ 64"
    by (simp add: unsigned_ucast_eq unsigned_take_bit_eq take_bit_eq_mod [where ?'a = nat])
  ultimately have "unat (ucast (ucast m :: u16) :: u64) = unat m" by simp
  then show ?thesis by (rule word_unat_eq_iff [THEN iffD2])
qed


lemma twt_fields_loop_inv:
  "twt_fields_loop m e = (m', e') \<Longrightarrow>
     e \<le> e' \<and> m' = drop_bit (nat (e' - e)) m \<and> m' \<le> 0xFFFF \<and>
     (\<forall>k < nat (e' - e). 0xFFFF < drop_bit k m)"
proof (induction m e rule: twt_fields_loop.induct)
  case (1 m e)
  show ?case
  proof (cases "0xFFFF < m")
    case False
    with "1.prems" show ?thesis by (simp add: twt_fields_loop.simps [of m e] not_less)
  next
    case True
    with "1.prems" have rec: "twt_fields_loop (drop_bit 1 m) (e + 1) = (m', e')"
      by (simp add: twt_fields_loop.simps [of m e])
    from "1.IH" [OF True rec]
    have le: "e + 1 \<le> e'" and eq: "m' = drop_bit (nat (e' - (e + 1))) (drop_bit 1 m)"
      and bd: "m' \<le> 0xFFFF"
      and all: "\<forall>k < nat (e' - (e + 1)). 0xFFFF < drop_bit k (drop_bit 1 m)"
      by blast+
    have n: "nat (e' - e) = Suc (nat (e' - (e + 1)))" using le by simp
    have "m' = drop_bit (nat (e' - e)) m"
      using eq n by simp
    moreover have "\<forall>k < nat (e' - e). 0xFFFF < drop_bit k m"
    proof (intro allI impI)
      fix k assume k: "k < nat (e' - e)"
      show "0xFFFF < drop_bit k m"
      proof (cases k)
        case 0 then show ?thesis using True by simp
      next
        case (Suc j)
        with k n have "j < nat (e' - (e + 1))" by simp
        with all have "0xFFFF < drop_bit j (drop_bit 1 m)" by blast
        then show ?thesis using Suc by simp
      qed
    qed
    ultimately show ?thesis using le bd by simp
  qed
qed

text \<open>
  Claim C7. Every interval that can be written as \<open>M * 2 ^ E\<close> with \<open>M \<le> 65535\<close>
  survives encoding by \<^verbatim>\<open>twt_calculate_wake_interval_fields\<close> followed by decoding with
  \<^verbatim>\<open>twt_calculate_wake_interval\<close>: the decoded value, which is also the value the encoder
  returns, is the interval itself. The exponent found lies in \<open>0..48\<close>, so the shift
  \<^verbatim>\<open>1UL << exponent\<close> is defined.
\<close>

theorem twt_wake_interval_roundtrip:
  assumes rep: "unat interval = M * 2 ^ E" and M: "M \<le> 65535"
  shows "case twt_calculate_wake_interval_fields interval of
           (r, mantissa, exponent) \<Rightarrow>
             twt_calculate_wake_interval mantissa exponent = interval \<and> r = interval \<and>
             0 \<le> exponent \<and> exponent \<le> 48"
proof -
  obtain m' e' where loop: "twt_fields_loop interval 0 = (m', e')"
    by (cases "twt_fields_loop interval 0")
  have inv: "0 \<le> e' \<and> m' = drop_bit (nat (e' - 0)) interval \<and> m' \<le> 0xFFFF \<and>
     (\<forall>k < nat (e' - 0). 0xFFFF < drop_bit k interval)"
    by (rule twt_fields_loop_inv [OF loop])
  have e0: "0 \<le> e'" using inv by blast
  have m': "m' = drop_bit (nat e') interval" using inv by simp
  have bd: "m' \<le> 0xFFFF" using inv by blast
  have all: "\<forall>k < nat e'. 0xFFFF < drop_bit k interval" using inv by simp
  define n where "n = nat e'"
  have lt64: "unat interval < 2 ^ 64" using unsigned_less [of interval, where ?'a = nat] by simp
  have nE: "n \<le> E"
  proof (rule ccontr)
    assume "\<not> n \<le> E"
    then have "0xFFFF < drop_bit E interval" using all n_def by simp
    then have "65535 < unat interval div 2 ^ E"
      by (simp add: word_less_nat_alt unat_drop_bit_div)
    then show False using rep M by simp
  qed
  have n48: "n \<le> 48"
  proof (rule ccontr)
    assume "\<not> n \<le> 48"
    then have "0xFFFF < drop_bit 48 interval" using all n_def by simp
    then have "65535 < unat interval div 2 ^ 48"
      by (simp add: word_less_nat_alt unat_drop_bit_div)
    moreover note lt64
    ultimately show False by simp
  qed
  have dvd: "2 ^ n dvd unat interval"
    using rep nE by (simp add: le_imp_power_dvd)
  have um: "unat m' = unat interval div 2 ^ n"
    using m' n_def by (simp add: unat_drop_bit_div)
  have "unat (m' * push_bit n 1) = unat interval"
  proof -
    have "m' * push_bit n 1 = push_bit n m'" by (simp add: push_bit_eq_mult)
    then have "unat (m' * push_bit n 1) = (unat m' * 2 ^ n) mod 2 ^ 64"
      by (simp only: unat_push_bit_mod)
    also have "unat m' * 2 ^ n = unat interval" using um dvd by simp
    also have "unat interval mod 2 ^ 64 = unat interval"
      using lt64 by simp
    finally show ?thesis .
  qed
  then have prod_eq: "m' * push_bit n 1 = interval"
    by (rule word_unat_eq_iff [THEN iffD2])
  have "twt_calculate_wake_interval (ucast m') e' = interval"
    using prod_eq bd by (simp add: twt_calculate_wake_interval_def ucast_u16_u64_id n_def)
  then show ?thesis
    using loop e0 n48 by (simp add: twt_calculate_wake_interval_fields_def n_def)
qed

text \<open>The interval \<open>3 * 2 ^ 16\<close> is encoded as mantissa 49152 and exponent 2.\<close>

theorem twt_wake_interval_roundtrip_witness:
  "unat (196608 :: u64) = 3 * 2 ^ 16 \<and> (3 :: nat) \<le> 65535 \<and>
   (case twt_calculate_wake_interval_fields 196608 of
           (r, mantissa, exponent) \<Rightarrow>
             twt_calculate_wake_interval mantissa exponent = 196608 \<and> r = 196608 \<and>
             0 \<le> exponent \<and> exponent \<le> 48)"
proof -
  have h1: "unat (196608 :: u64) = 3 * 2 ^ 16" by simp
  have h2: "(3 :: nat) \<le> 65535" by simp
  show ?thesis using twt_wake_interval_roundtrip [OF h1 h2] h1 by simp
qed

section \<open>The retry loop of the command transport\<close>



lemma bit_nat_less:
  fixes i :: nat
  assumes "i < 2 ^ s" and "bit i n"
  shows "n < s"
proof (rule ccontr)
  assume "\<not> n < s"
  then have "(2 :: nat) ^ s \<le> 2 ^ n" by simp
  with assms(1) have "i < 2 ^ n" by linarith
  then have "i div 2 ^ n = 0" by simp
  with assms(2) show False by (simp add: bit_iff_odd)
qed

lemma host_id_bits:
  fixes x :: u16
  assumes "i < 2 ^ s"
  shows "(push_bit s x OR word_of_nat i) AND NOT (mask s) = push_bit s x"
    and "(push_bit s x OR word_of_nat i) AND mask s = word_of_nat i"
proof -
  note b = bit_nat_less [OF assms]
  show "(push_bit s x OR word_of_nat i) AND NOT (mask s) = push_bit s x"
    by (rule bit_word_eqI) (auto simp: bit_simps dest: b)
  show "(push_bit s x OR word_of_nat i) AND mask s = word_of_nat i"
    by (rule bit_word_eqI) (auto simp: bit_simps dest: b)
qed


lemma sent_frames_append: "sent_frames (xs @ ys) = sent_frames xs @ sent_frames ys"
  by (induction xs rule: sent_frames.induct) simp_all

lemma cmd_tx_loop_from_0:
  fixes env :: "nat \<Rightarrow> cmd_attempt" and c :: morse_cmd and hid :: u16
    and len timeout :: u32 and resp :: bool and cmpl :: "nat option" and tr :: "cmd_io list"
  defines "r \<equiv> cmd_tx_loop env hid len resp timeout c cmpl 0 tr"
  assumes tr: "sent_frames tr = []"
  shows "tx_attempts r \<le> MM_MAX_COMMAND_RETRY"
    and "length (sent_frames (tx_trace r)) \<le> tx_attempts r"
    and "\<forall>i < length (sent_frames (tx_trace r)).
            sent_frames (tx_trace r) ! i =
              ((cmd_hdr c)\<lparr>hdr_host_id := hid OR word_of_nat i\<rparr>,
               take (unat (hdr_len (cmd_hdr c))) (cmd_data c))"
    and "tx_attempts r = 2 \<longleftrightarrow>
            skb_alloc_ok (env 0) \<and> skbq_tx_ret (env 0) = 0 \<and>
            (wait_ret (env 0) = 0 \<or>
             (if len \<noteq> 0 \<and> resp then sint (resp_status_read (env 0)) else cb_ret_read (env 0))
               = - ETIMEDOUT)"
    and "(\<forall>i < MM_MAX_COMMAND_RETRY.
              skb_alloc_ok (env i) \<and> skbq_tx_ret (env i) = 0 \<and> wait_ret (env i) = 0) \<longrightarrow>
            tx_ret r = - ETIMEDOUT \<and> length (sent_frames (tx_trace r)) = 2 \<and>
            tx_comp r = None"
  unfolding r_def using tr
  by (auto simp: cmd_tx_loop.simps Let_def MM_MAX_COMMAND_RETRY_def sent_frames_append
      less_Suc_eq nth_Cons' numeral_2_eq_2 split: if_splits)


text \<open>
  Claim C1, as amended. When the device has a command queue, \<^verbatim>\<open>morse_cmd_tx\<close> makes at
  most \<^verbatim>\<open>MM_MAX_COMMAND_RETRY\<close> (2) passes through its loop and hands at most one frame per
  pass to the transmit queue. The frame of pass \<open>i\<close> is the caller's command with the
  request flag set and \<^verbatim>\<open>host_id = (seq << shift) | i\<close>: the same payload and, under the
  layout of \<^verbatim>\<open>host_id\<close>, the same sequence bits, with the retry bits equal to \<open>i\<close>. A
  second pass is made exactly when the first pass got its frame out and ended with
  \<^verbatim>\<open>ret == -ETIMEDOUT\<close>: the wait timed out, or the wait was completed and the status read
  back is \<open>-ETIMEDOUT\<close>. An allocation failure or a transmit error ends the loop at once.
  If both passes send their frame and time out, the call returns \<open>-ETIMEDOUT\<close> after two
  frames, with \<^verbatim>\<open>mors->cmd_comp\<close> cleared.
\<close>

theorem morse_cmd_tx_retry:
  fixes H :: command_h and env :: "nat \<Rightarrow> cmd_attempt" and mors :: "'d morse"
    and resp :: bool and cmd :: morse_cmd and len timeout :: u32
  defines "r \<equiv> snd (morse_cmd_tx H env mors resp cmd len timeout)"
    and "seq \<equiv> (if Suc (cmd_seq mors) > MORSE_CMD_HOST_ID_SEQ_MAX H then 1 else Suc (cmd_seq mors))"
  defines "hid \<equiv> (push_bit (MORSE_CMD_HOST_ID_SEQ_SHIFT H) (word_of_nat seq) :: u16)"
  assumes q: "cmd_q_present mors" and ok: "host_id_layout_ok H"
  shows "tx_attempts r \<le> MM_MAX_COMMAND_RETRY \<and>
         length (sent_frames (tx_trace r)) \<le> tx_attempts r \<and>
         (\<forall>i < length (sent_frames (tx_trace r)).
            sent_frames (tx_trace r) ! i =
              ((cmd_hdr cmd)\<lparr>hdr_flags := MORSE_CMD_REQ H, hdr_host_id := hid OR word_of_nat i\<rparr>,
               take (unat (hdr_len (cmd_hdr cmd))) (cmd_data cmd)) \<and>
            (hid OR word_of_nat i) AND MORSE_CMD_HOST_ID_SEQ_MASK H = hid \<and>
            (hid OR word_of_nat i) AND MORSE_CMD_HOST_ID_RETRY_MASK H = word_of_nat i) \<and>
         (tx_attempts r = 2 \<longleftrightarrow>
            skb_alloc_ok (env 0) \<and> skbq_tx_ret (env 0) = 0 \<and>
            (wait_ret (env 0) = 0 \<or>
             (if len \<noteq> 0 \<and> resp then sint (resp_status_read (env 0)) else cb_ret_read (env 0))
               = - ETIMEDOUT)) \<and>
         ((\<forall>i < MM_MAX_COMMAND_RETRY.
              skb_alloc_ok (env i) \<and> skbq_tx_ret (env i) = 0 \<and> wait_ret (env i) = 0) \<longrightarrow>
            tx_ret r = - ETIMEDOUT \<and> length (sent_frames (tx_trace r)) = 2 \<and>
            tx_comp r = None)"
proof -
  define c0 where "c0 = cmd\<lparr>cmd_hdr := (cmd_hdr cmd)\<lparr>hdr_flags := MORSE_CMD_REQ H\<rparr>\<rparr>"
  define l where "l = cmd_tx_loop env hid len resp timeout c0 (cmd_comp mors) 0 [PS_DISABLE]"
  have r: "r = l\<lparr>tx_trace := tx_trace l @ [PS_ENABLE]\<rparr>"
    using q by (simp add: r_def morse_cmd_tx_def Let_def l_def c0_def hid_def seq_def)
  have fr: "sent_frames (tx_trace r) = sent_frames (tx_trace l)"
    by (simp add: r sent_frames_append)
  have tr: "sent_frames [PS_DISABLE] = []" by simp
  note L = cmd_tx_loop_from_0 [OF tr, of env hid len resp timeout c0 "cmd_comp mors",
      folded l_def]
  have bits: "\<And>i. i < length (sent_frames (tx_trace l)) \<Longrightarrow>
      (hid OR word_of_nat i) AND MORSE_CMD_HOST_ID_SEQ_MASK H = hid \<and>
      (hid OR word_of_nat i) AND MORSE_CMD_HOST_ID_RETRY_MASK H = word_of_nat i"
  proof -
    fix i assume "i < length (sent_frames (tx_trace l))"
    with L(1,2) have "i < MM_MAX_COMMAND_RETRY" by linarith
    with ok have "i < 2 ^ MORSE_CMD_HOST_ID_SEQ_SHIFT H"
      by (simp add: host_id_layout_ok_def)
    from host_id_bits [OF this, of "word_of_nat seq"] ok
    show "(hid OR word_of_nat i) AND MORSE_CMD_HOST_ID_SEQ_MASK H = hid \<and>
      (hid OR word_of_nat i) AND MORSE_CMD_HOST_ID_RETRY_MASK H = word_of_nat i"
      by (simp add: host_id_layout_ok_def hid_def)
  qed
  have c0: "cmd_hdr c0 = (cmd_hdr cmd)\<lparr>hdr_flags := MORSE_CMD_REQ H\<rparr>" "cmd_data c0 = cmd_data cmd"
    by (simp_all add: c0_def)
  have a: "tx_attempts r \<le> MM_MAX_COMMAND_RETRY" using L(1) by (simp add: r)
  have b: "length (sent_frames (tx_trace r)) \<le> tx_attempts r" using L(2) unfolding fr by (simp add: r)
  have c: "\<forall>i < length (sent_frames (tx_trace r)).
            sent_frames (tx_trace r) ! i =
              ((cmd_hdr cmd)\<lparr>hdr_flags := MORSE_CMD_REQ H, hdr_host_id := hid OR word_of_nat i\<rparr>,
               take (unat (hdr_len (cmd_hdr cmd))) (cmd_data cmd)) \<and>
            (hid OR word_of_nat i) AND MORSE_CMD_HOST_ID_SEQ_MASK H = hid \<and>
            (hid OR word_of_nat i) AND MORSE_CMD_HOST_ID_RETRY_MASK H = word_of_nat i"
    using L(3) bits unfolding fr by (simp add: c0)
  have d: "tx_attempts r = 2 \<longleftrightarrow>
            skb_alloc_ok (env 0) \<and> skbq_tx_ret (env 0) = 0 \<and>
            (wait_ret (env 0) = 0 \<or>
             (if len \<noteq> 0 \<and> resp then sint (resp_status_read (env 0)) else cb_ret_read (env 0))
               = - ETIMEDOUT)"
    using L(4) by (simp add: r)
  have e: "(\<forall>i < MM_MAX_COMMAND_RETRY.
              skb_alloc_ok (env i) \<and> skbq_tx_ret (env i) = 0 \<and> wait_ret (env i) = 0) \<longrightarrow>
            tx_ret r = - ETIMEDOUT \<and> length (sent_frames (tx_trace r)) = 2 \<and>
            tx_comp r = None"
    using L(5) unfolding fr by (simp add: r)
  from a b c d e show ?thesis by blast
qed


text \<open>
  Claim C1 as stated says that a retry happens only after a timeout. Here both waits are
  completed in time, the first confirmation carries the status \<open>0xFFFFFF92\<close> (\<open>-110\<close>, the
  value of \<open>-ETIMEDOUT\<close>), and the command is sent a second time.
\<close>

theorem morse_cmd_tx_retry_counterexample:
  "cmd_q_present ex_morse \<and> host_id_layout_ok ex_command_h \<and>
   wait_ret (ex_env_status 0) \<noteq> 0 \<and> wait_ret (ex_env_status 1) \<noteq> 0 \<and>
   tx_attempts (snd (morse_cmd_tx ex_command_h ex_env_status ex_morse True ex_cmd 12 0)) = 2 \<and>
   length (sent_frames (tx_trace
     (snd (morse_cmd_tx ex_command_h ex_env_status ex_morse True ex_cmd 12 0)))) = 2 \<and>
   tx_ret (snd (morse_cmd_tx ex_command_h ex_env_status ex_morse True ex_cmd 12 0)) = 0"
  by (simp add: morse_cmd_tx_def cmd_tx_loop.simps Let_def ex_morse_def ex_command_h_def
      ex_env_status_def ex_cmd_def host_id_layout_ok_def MM_MAX_COMMAND_RETRY_def ETIMEDOUT_def
      mask_eq_exp_minus_1)

text \<open>With no confirmation at all, two frames are sent and the call returns \<open>-ETIMEDOUT\<close>.\<close>

theorem morse_cmd_tx_retry_witness:
  "cmd_q_present ex_morse \<and> host_id_layout_ok ex_command_h \<and>
   tx_ret (snd (morse_cmd_tx ex_command_h ex_env_silent ex_morse True ex_cmd 12 0)) = - ETIMEDOUT \<and>
   length (sent_frames (tx_trace
     (snd (morse_cmd_tx ex_command_h ex_env_silent ex_morse True ex_cmd 12 0)))) = 2"
proof -
  have q: "cmd_q_present ex_morse" by (simp add: ex_morse_def)
  have ok: "host_id_layout_ok ex_command_h"
    by (simp add: host_id_layout_ok_def ex_command_h_def MM_MAX_COMMAND_RETRY_def
        mask_eq_exp_minus_1)
  have s: "\<forall>i < MM_MAX_COMMAND_RETRY.
      skb_alloc_ok (ex_env_silent i) \<and> skbq_tx_ret (ex_env_silent i) = 0 \<and>
      wait_ret (ex_env_silent i) = 0"
    by (simp add: ex_env_silent_def)
  show ?thesis
    using morse_cmd_tx_retry [OF q ok, of ex_env_silent True ex_cmd 12 0] q ok s
    by blast
qed

section \<open>Matching confirmations to the pending command\<close>


text \<open>
  Claim C2. For a confirmation, \<^verbatim>\<open>morse_cmd_resp_process\<close> takes the late-response exit
  exactly when the matching rule fails: the message is treated as matching if and only if
  there is a pending command, the message ids are equal and the sequence bits of the host
  ids are equal. The waiter's completion is signalled exactly for a matching message (when
  a completion is registered), once. The retry bits of the inbound host id have no effect on
  the resulting state: two confirmations that agree in the sequence bits leave the same state,
  so a retry mismatch only adds a log line.
\<close>

theorem resp_process_match_iff:
  assumes cfm: "resp_is_cfm skb"
  shows "(LOG_LATE_RESPONSE \<notin> set (snd (morse_cmd_resp_process H rm_hdr hdr_of mors skb))) =
           resp_matches_pending H rm_hdr hdr_of mors skb \<and>
         (COMPLETE \<in> set (snd (morse_cmd_resp_process H rm_hdr hdr_of mors skb))) =
           (resp_matches_pending H rm_hdr hdr_of mors skb \<and> cmd_comp mors \<noteq> None) \<and>
         (\<forall>n. cmd_comp mors = Some n \<longrightarrow>
            cmd_comp (fst (morse_cmd_resp_process H rm_hdr hdr_of mors skb)) =
              Some (if resp_matches_pending H rm_hdr hdr_of mors skb then Suc n else n)) \<and>
         (\<forall>h. h AND MORSE_CMD_HOST_ID_SEQ_MASK H =
                resp_host_id skb AND MORSE_CMD_HOST_ID_SEQ_MASK H \<longrightarrow>
            fst (morse_cmd_resp_process H rm_hdr hdr_of mors (skb\<lparr>resp_host_id := h\<rparr>)) =
            fst (morse_cmd_resp_process H rm_hdr hdr_of mors skb))"
  using cfm
  by (auto simp: morse_cmd_resp_process_def resp_matches_pending_def Let_def
      split: option.splits prod.splits if_splits)

text \<open>A confirmation with retry counter 1 for a pending command sent with retry counter 0.\<close>

theorem resp_process_match_iff_witness:
  "resp_is_cfm ex_cfm \<and>
   resp_matches_pending ex_command_h id id ex_morse ex_cfm \<and>
   hdr_host_id ex_pending_hdr AND MORSE_CMD_HOST_ID_RETRY_MASK ex_command_h \<noteq>
     resp_host_id ex_cfm AND MORSE_CMD_HOST_ID_RETRY_MASK ex_command_h \<and>
   LOG_LATE_RESPONSE \<notin> set (snd (morse_cmd_resp_process ex_command_h id id ex_morse ex_cfm)) \<and>
   COMPLETE \<in> set (snd (morse_cmd_resp_process ex_command_h id id ex_morse ex_cfm)) \<and>
   cmd_comp (fst (morse_cmd_resp_process ex_command_h id id ex_morse ex_cfm)) = Some 1"
proof -
  have cfm: "resp_is_cfm ex_cfm" by (simp add: ex_cfm_def)
  have m: "resp_matches_pending ex_command_h id id ex_morse ex_cfm"
    by (simp add: resp_matches_pending_def ex_morse_def ex_cfm_def ex_pending_hdr_def
        ex_command_h_def)
  have c: "cmd_comp ex_morse = Some 0" by (simp add: ex_morse_def)
  have r: "hdr_host_id ex_pending_hdr AND MORSE_CMD_HOST_ID_RETRY_MASK ex_command_h \<noteq>
     resp_host_id ex_cfm AND MORSE_CMD_HOST_ID_RETRY_MASK ex_command_h"
    by (simp add: ex_cfm_def ex_pending_hdr_def ex_command_h_def)
  show ?thesis
    using resp_process_match_iff [OF cfm, of ex_command_h id id ex_morse] cfm m c r
    by simp
qed

text \<open>
  Claim C3. A confirmation that does not match the pending command (none pending, another
  message id, or other sequence bits) is logged as late and its buffer is freed; no
  completion is signalled, no byte of any destination buffer is written, and the control
  block of the pending command (result, expected length, destination) is unchanged. The
  only change to the state is that the bus header of the pending command skb has been
  removed, which the function does before it compares.
\<close>

theorem resp_process_late:
  assumes cfm: "resp_is_cfm skb"
    and late: "\<not> resp_matches_pending H rm_hdr hdr_of mors skb"
  shows "snd (morse_cmd_resp_process H rm_hdr hdr_of mors skb) = [LOG_LATE_RESPONSE, KFREE_SKB] \<and>
         cmd_comp (fst (morse_cmd_resp_process H rm_hdr hdr_of mors skb)) = cmd_comp mors \<and>
         mem (fst (morse_cmd_resp_process H rm_hdr hdr_of mors skb)) = mem mors \<and>
         map_option skb_cb (tx_pending (fst (morse_cmd_resp_process H rm_hdr hdr_of mors skb))) =
           map_option skb_cb (tx_pending mors) \<and>
         fst (morse_cmd_resp_process H rm_hdr hdr_of mors skb) =
           mors\<lparr>tx_pending :=
                  map_option (\<lambda>p. p\<lparr>skb_data := rm_hdr (skb_data p)\<rparr>) (tx_pending mors)\<rparr>"
  using cfm late
  by (auto simp: morse_cmd_resp_process_def resp_matches_pending_def Let_def
      split: option.splits prod.splits if_splits)

text \<open>A confirmation with another sequence number leaves the example state as it is.\<close>

theorem resp_process_late_witness:
  "resp_is_cfm ex_late_cfm \<and>
   \<not> resp_matches_pending ex_command_h id id ex_morse ex_late_cfm \<and>
   snd (morse_cmd_resp_process ex_command_h id id ex_morse ex_late_cfm) =
     [LOG_LATE_RESPONSE, KFREE_SKB] \<and>
   fst (morse_cmd_resp_process ex_command_h id id ex_morse ex_late_cfm) = ex_morse"
proof -
  have cfm: "resp_is_cfm ex_late_cfm" by (simp add: ex_late_cfm_def ex_cfm_def)
  have late: "\<not> resp_matches_pending ex_command_h id id ex_morse ex_late_cfm"
    by (simp add: resp_matches_pending_def ex_morse_def ex_late_cfm_def ex_cfm_def
        ex_pending_hdr_def ex_command_h_def)
  have "fst (morse_cmd_resp_process ex_command_h id id ex_morse ex_late_cfm) =
        ex_morse\<lparr>tx_pending :=
                  map_option (\<lambda>p. p\<lparr>skb_data := id (skb_data p)\<rparr>) (tx_pending ex_morse)\<rparr>"
    using resp_process_late [OF cfm late] by blast
  also have "\<dots> = ex_morse" by (simp add: ex_morse_def)
  finally show ?thesis
    using resp_process_late [OF cfm late] cfm late by simp
qed

section \<open>Copying a matched confirmation\<close>


lemma size_t_of_int_nat: "size_t_of_int (int n) = n mod 2 ^ 64"
  by (simp add: size_t_of_int_def nat_mod_distrib nat_power_eq flip: zmod_int)

lemma sint_u32_small:
  fixes w :: u32
  assumes "unat w < 2 ^ 31"
  shows "sint w = int (unat w)"
proof -
  have "int (unat w) < int (2 ^ 31)" using assms by (simp only: of_nat_less_iff)
  then have lt: "uint w < 2 ^ 31" by simp
  have ge: "- (2 ^ 31) \<le> uint w"
    by (rule order_trans [of _ 0]) simp_all
  have "signed_take_bit 31 (uint w) = uint w"
    using ge lt by (rule signed_take_bit_int_eq_self)
  then show ?thesis by (simp add: sint_uint uint_nat del: of_nat_unat)
qed

text \<open>
  Claim C8 as stated has the copy take \<open>min (declared length, expected length)\<close> bytes and
  has the status recorded as the result. Here the declared length is 4 and the expected
  length is 32. With a header of 10 bytes, \<^verbatim>\<open>sizeof(struct morse_resp)\<close> is 14 and 14 bytes
  are copied, not 4 (what a copy of \<open>min (4, 32)\<close> bytes would leave is shown for
  comparison); with a header of 12 bytes 16 bytes are copied. In both cases the result
  recorded in the control block is 0 although the status of the message is 5.
\<close>

theorem resp_process_copy_counterexample:
  "resp_is_cfm ex_cfm \<and> resp_matches_pending ex_command_h id id ex_morse ex_cfm \<and>
   map_option (cb_dest_resp \<circ> skb_cb) (tx_pending ex_morse) = Some (Some 1) \<and>
   map_option (unat \<circ> cb_length \<circ> skb_cb) (tx_pending ex_morse) = Some 32 \<and>
   unat (resp_len ex_cfm) = 4 \<and> sint (resp_status ex_cfm) = 5 \<and>
   sizeof_morse_resp ex_command_h = 14 \<and>
   map (mem (fst (morse_cmd_resp_process ex_command_h id id ex_morse ex_cfm)) 1) [0..<20] =
     [1, 2, 3, 4, 5, 6, 7, 8, 9, 10, 11, 12, 13, 14, 0, 0, 0, 0, 0, 0] \<and>
   map (memcpy (mem ex_morse 1) (resp_bytes ex_cfm) (min (unat (resp_len ex_cfm)) 32)) [0..<20] =
     [1, 2, 3, 4, 0, 0, 0, 0, 0, 0, 0, 0, 0, 0, 0, 0, 0, 0, 0, 0] \<and>
   map_option (cb_ret \<circ> skb_cb)
     (tx_pending (fst (morse_cmd_resp_process ex_command_h id id ex_morse ex_cfm))) = Some 0 \<and>
   sizeof_morse_resp ex_command_h12 = 16 \<and>
   map (mem (fst (morse_cmd_resp_process ex_command_h12 id id ex_morse ex_cfm)) 1) [0..<20] =
     [1, 2, 3, 4, 5, 6, 7, 8, 9, 10, 11, 12, 13, 14, 15, 16, 0, 0, 0, 0] \<and>
   map_option (cb_ret \<circ> skb_cb)
     (tx_pending (fst (morse_cmd_resp_process ex_command_h12 id id ex_morse ex_cfm))) = Some 0"
  by (simp add: morse_cmd_resp_process_def resp_matches_pending_def ex_morse_def ex_cfm_def
      ex_pending_hdr_def ex_command_h_def ex_command_h12_def ex_mem_def ex_resp_bytes_def
      memcpy_def size_t_of_int_def sizeof_morse_resp_def upt_rec)

text \<open>
  Claim C8, as amended. For a matching confirmation whose expected length is below \<open>2^31\<close>:
  with a destination buffer and an expected length of at least
  \<^verbatim>\<open>sizeof(struct morse_resp)\<close>, exactly
  \<open>min (expected length, declared length + sizeof(struct morse_cmd_header))\<close> bytes are
  copied from the start of the inbound message (\<^verbatim>\<open>skb->data\<close>) to the start of the
  destination buffer: the bytes of the buffer below that count are those at the same offset
  from \<^verbatim>\<open>skb->data\<close>, every other byte of memory is as before, and the result recorded in
  the control block is 0. The count is at most the size the message declares for itself,
  header and declared length; the code does not compare it with \<^verbatim>\<open>skb->len\<close>. Without a
  buffer, or with a shorter expected length, nothing is copied and the recorded result is
  the status word of the message read as a signed number.
\<close>

theorem resp_process_copy:
  assumes cfm: "resp_is_cfm skb"
    and match: "resp_matches_pending H rm_hdr hdr_of mors skb"
    and pend: "tx_pending mors = Some p"
    and small: "unat (cb_length (skb_cb p)) < 2 ^ 31"
  shows "(\<forall>d. cb_dest_resp (skb_cb p) = Some d \<and>
              sizeof_morse_resp H \<le> unat (cb_length (skb_cb p)) \<longrightarrow>
            (\<forall>i. mem (fst (morse_cmd_resp_process H rm_hdr hdr_of mors skb)) d i =
                   (if i < min (unat (cb_length (skb_cb p)))
                               (unat (resp_len skb) + sizeof_morse_cmd_header H)
                    then resp_bytes skb i else mem mors d i)) \<and>
            (\<forall>q. q \<noteq> d \<longrightarrow>
               mem (fst (morse_cmd_resp_process H rm_hdr hdr_of mors skb)) q = mem mors q) \<and>
            map_option (cb_ret \<circ> skb_cb)
              (tx_pending (fst (morse_cmd_resp_process H rm_hdr hdr_of mors skb))) = Some 0) \<and>
         (cb_dest_resp (skb_cb p) = None \<or>
              unat (cb_length (skb_cb p)) < sizeof_morse_resp H \<longrightarrow>
            mem (fst (morse_cmd_resp_process H rm_hdr hdr_of mors skb)) = mem mors \<and>
            map_option (cb_ret \<circ> skb_cb)
              (tx_pending (fst (morse_cmd_resp_process H rm_hdr hdr_of mors skb))) =
              Some (sint (resp_status skb)))"
proof -
  let ?n = "unat (cb_length (skb_cb p))"
  have s: "sint (cb_length (skb_cb p)) = int ?n"
    by (rule sint_u32_small [OF small])
  have n64: "?n mod 2 ^ 64 = ?n" using small by simp
  have sz: "size_t_of_int (int ?n) = ?n"
    by (simp only: size_t_of_int_nat n64)
  have mn: "\<And>k. size_t_of_int (min (int ?n) (int k)) = min ?n k"
  proof -
    fix k
    have "min (int ?n) (int k) = int (min ?n k)" by (simp only: of_nat_min)
    moreover have "min ?n k mod 2 ^ 64 = min ?n k" using small by simp
    ultimately show "size_t_of_int (min (int ?n) (int k)) = min ?n k"
      by (simp only: size_t_of_int_nat)
  qed
  show ?thesis
    using cfm match pend
    by (auto simp: morse_cmd_resp_process_def resp_matches_pending_def Let_def s sz mn memcpy_def
        simp del: of_nat_add of_nat_unat
        split: option.splits prod.splits if_splits)
qed

text \<open>
  The example confirmation with a header of 10 bytes: 14 bytes go to buffer 1. With a
  declared length of 0 only the 10 bytes of the header are copied. When the caller expects
  12 bytes, less than \<^verbatim>\<open>sizeof(struct morse_resp)\<close>, nothing is copied and the status 5 is
  recorded.
\<close>

theorem resp_process_copy_witness:
  "resp_is_cfm ex_cfm \<and> resp_matches_pending ex_command_h id id ex_morse ex_cfm \<and>
   unat (32 :: u32) < 2 ^ 31 \<and> sizeof_morse_resp ex_command_h \<le> unat (32 :: u32) \<and>
   map (mem (fst (morse_cmd_resp_process ex_command_h id id ex_morse ex_cfm)) 1) [0..<20] =
     [1, 2, 3, 4, 5, 6, 7, 8, 9, 10, 11, 12, 13, 14, 0, 0, 0, 0, 0, 0] \<and>
   mem (fst (morse_cmd_resp_process ex_command_h id id ex_morse ex_cfm)) 2 = mem ex_morse 2 \<and>
   map (mem (fst (morse_cmd_resp_process ex_command_h id id ex_morse ex_cfm0)) 1) [0..<20] =
     [1, 2, 3, 4, 5, 6, 7, 8, 9, 10, 0, 0, 0, 0, 0, 0, 0, 0, 0, 0] \<and>
   unat (12 :: u32) < sizeof_morse_resp ex_command_h \<and>
   mem (fst (morse_cmd_resp_process ex_command_h id id ex_morse12 ex_cfm)) = mem ex_morse12 \<and>
   map_option (cb_ret \<circ> skb_cb)
     (tx_pending (fst (morse_cmd_resp_process ex_command_h id id ex_morse12 ex_cfm))) = Some 5"
proof -
  have cfm: "resp_is_cfm ex_cfm" "resp_is_cfm ex_cfm0"
    by (simp_all add: ex_cfm_def ex_cfm0_def)
  have m: "resp_matches_pending ex_command_h id id ex_morse ex_cfm"
    "resp_matches_pending ex_command_h id id ex_morse ex_cfm0"
    "resp_matches_pending ex_command_h id id ex_morse12 ex_cfm"
    by (simp_all add: resp_matches_pending_def ex_morse_def ex_morse12_def ex_cfm_def ex_cfm0_def
        ex_pending_hdr_def ex_command_h_def)
  have p: "tx_pending ex_morse =
             Some \<lparr>skb_data = ex_pending_hdr,
                   skb_cb = \<lparr>cb_ret = 0, cb_length = 32, cb_dest_resp = Some 1\<rparr>\<rparr>"
    and p12: "tx_pending ex_morse12 =
             Some \<lparr>skb_data = ex_pending_hdr,
                   skb_cb = \<lparr>cb_ret = 0, cb_length = 12, cb_dest_resp = Some 1\<rparr>\<rparr>"
    by (simp_all add: ex_morse_def ex_morse12_def)
  have small: "unat (cb_length (skb_cb \<lparr>skb_data = ex_pending_hdr,
                   skb_cb = \<lparr>cb_ret = 0, cb_length = 32, cb_dest_resp = Some 1\<rparr>\<rparr>)) < 2 ^ 31"
    and small12: "unat (cb_length (skb_cb \<lparr>skb_data = ex_pending_hdr,
                   skb_cb = \<lparr>cb_ret = 0, cb_length = 12, cb_dest_resp = Some 1\<rparr>\<rparr>)) < 2 ^ 31"
    by simp_all
  have a: "map (mem (fst (morse_cmd_resp_process ex_command_h id id ex_morse ex_cfm)) 1) [0..<20] =
     [1, 2, 3, 4, 5, 6, 7, 8, 9, 10, 11, 12, 13, 14, 0, 0, 0, 0, 0, 0]"
    and a2: "mem (fst (morse_cmd_resp_process ex_command_h id id ex_morse ex_cfm)) 2 =
      mem ex_morse 2"
    using resp_process_copy [OF cfm(1) m(1) p small]
    by (simp_all add: sizeof_morse_resp_def ex_command_h_def ex_cfm_def ex_morse_def ex_mem_def
        ex_resp_bytes_def upt_rec)
  have b: "map (mem (fst (morse_cmd_resp_process ex_command_h id id ex_morse ex_cfm0)) 1) [0..<20] =
     [1, 2, 3, 4, 5, 6, 7, 8, 9, 10, 0, 0, 0, 0, 0, 0, 0, 0, 0, 0]"
    using resp_process_copy [OF cfm(2) m(2) p small]
    by (simp add: sizeof_morse_resp_def ex_command_h_def ex_cfm_def ex_cfm0_def ex_morse_def
        ex_mem_def ex_resp_bytes_def upt_rec)
  have c: "mem (fst (morse_cmd_resp_process ex_command_h id id ex_morse12 ex_cfm)) = mem ex_morse12"
    "map_option (cb_ret \<circ> skb_cb)
     (tx_pending (fst (morse_cmd_resp_process ex_command_h id id ex_morse12 ex_cfm))) = Some 5"
    using resp_process_copy [OF cfm(1) m(3) p12 small12]
    by (simp_all add: sizeof_morse_resp_def ex_command_h_def ex_cfm_def)
  have n: "unat (32 :: u32) < 2 ^ 31" "sizeof_morse_resp ex_command_h \<le> unat (32 :: u32)"
    "unat (12 :: u32) < sizeof_morse_resp ex_command_h"
    by (simp_all add: sizeof_morse_resp_def ex_command_h_def)
  from cfm(1) m(1) n(1,2) a a2 b n(3) c show ?thesis by (intro conjI)
qed

section \<open>The event queue\<close>


lemma purge_remove_key:
  "purge_remove (Some (ev_addr ev)) (Some (ev_flow_id ev)) = (\<lambda>e. ev_key e = ev_key ev)"
  by (auto simp: purge_remove_def ev_key_def fun_eq_iff)

lemma queue_event_events:
  "events (morse_twt_queue_event tw ev) =
     filter (\<lambda>e. ev_key e \<noteq> ev_key ev) (events tw) @ [ev]"
  by (simp add: morse_twt_queue_event_def morse_twt_queue_purge_def purge_remove_key)

lemma queue_event_freed:
  "freed_events (morse_twt_queue_event tw ev) =
     freed_events tw @ filter (\<lambda>e. ev_key e = ev_key ev) (events tw)"
  by (simp add: morse_twt_queue_event_def morse_twt_queue_purge_def purge_remove_key)

lemma queue_event_distinct:
  assumes "distinct (map ev_key (events tw))"
  shows "distinct (map ev_key (events (morse_twt_queue_event tw ev)))"
proof -
  have "distinct (map ev_key (filter (\<lambda>e. ev_key e \<noteq> ev_key ev) (events tw)))"
    using assms by (rule distinct_map_filter)
  then show ?thesis by (auto simp: queue_event_events)
qed

lemma queue_events_distinct:
  "distinct (map ev_key (events tw)) \<Longrightarrow>
   distinct (map ev_key (events (foldl morse_twt_queue_event tw evs)))"
  by (induction evs arbitrary: tw) (simp_all add: queue_event_distinct)

text \<open>
  Claim C10. \<^verbatim>\<open>morse_twt_queue_event\<close> removes from the event queue every event with the
  address and flow id of the new event, frees them, and appends the new event. So a queue
  that holds at most one event per address and flow id still does so afterwards, any
  sequence of calls starting from the empty queue leaves such a queue, and an event that was
  waiting for the same address and flow id is dropped unprocessed.
\<close>

theorem queue_event_one_per_flow:
  "events (morse_twt_queue_event tw ev) =
     filter (\<lambda>e. ev_key e \<noteq> ev_key ev) (events tw) @ [ev] \<and>
   freed_events (morse_twt_queue_event tw ev) =
     freed_events tw @ filter (\<lambda>e. ev_key e = ev_key ev) (events tw) \<and>
   (distinct (map ev_key (events tw)) \<longrightarrow>
      distinct (map ev_key (events (morse_twt_queue_event tw ev)))) \<and>
   (events tw = [] \<longrightarrow>
      distinct (map ev_key (events (foldl morse_twt_queue_event tw evs)))) \<and>
   (\<forall>e \<in> set (events tw). ev_key e = ev_key ev \<and> e \<noteq> ev \<longrightarrow>
      e \<notin> set (events (morse_twt_queue_event tw ev)) \<and>
      e \<in> set (freed_events (morse_twt_queue_event tw ev)))"
proof -
  have a: "distinct (map ev_key (events tw)) \<longrightarrow>
      distinct (map ev_key (events (morse_twt_queue_event tw ev)))"
    by (simp add: queue_event_distinct)
  have b: "events tw = [] \<longrightarrow>
      distinct (map ev_key (events (foldl morse_twt_queue_event tw evs)))"
    using queue_events_distinct [of tw evs] by simp
  have c: "\<forall>e \<in> set (events tw). ev_key e = ev_key ev \<and> e \<noteq> ev \<longrightarrow>
      e \<notin> set (events (morse_twt_queue_event tw ev)) \<and>
      e \<in> set (freed_events (morse_twt_queue_event tw ev))"
    by (simp add: queue_event_events queue_event_freed)
  from a b c show ?thesis
    by (simp only: queue_event_events queue_event_freed simp_thms)
qed


text \<open>A teardown for flow 2 of station 1 replaces the request that was waiting.\<close>

theorem queue_event_one_per_flow_witness:
  "distinct (map ev_key (events ex_twt_q)) \<and>
   ex_setup 1 TWT_SETUP_CMD_REQUEST \<in> set (events ex_twt_q) \<and>
   ev_key (ex_setup 1 TWT_SETUP_CMD_REQUEST) = ev_key (ex_teardown 1) \<and>
   ex_setup 1 TWT_SETUP_CMD_REQUEST \<noteq> ex_teardown 1 \<and>
   events (morse_twt_queue_event ex_twt_q (ex_teardown 1)) = [ex_teardown 1] \<and>
   ex_setup 1 TWT_SETUP_CMD_REQUEST \<in>
     set (freed_events (morse_twt_queue_event ex_twt_q (ex_teardown 1))) \<and>
   distinct (map ev_key (events (morse_twt_queue_event ex_twt_q (ex_teardown 1))))"
proof -
  have e: "events ex_twt_q = [ex_setup 1 TWT_SETUP_CMD_REQUEST]"
    by (simp add: ex_twt_q_def)
  have k: "ev_key (ex_setup 1 TWT_SETUP_CMD_REQUEST) = ev_key (ex_teardown 1)"
    by (simp add: ev_key_def ex_setup_def ex_teardown_def)
  have n: "ex_setup 1 TWT_SETUP_CMD_REQUEST \<noteq> ex_teardown 1"
    by (simp add: ex_setup_def ex_teardown_def)
  show ?thesis
    using queue_event_one_per_flow [of ex_twt_q "ex_teardown 1" "[]"] e k n
    by simp
qed

section \<open>Leaving an agreement\<close>


lemma wi_unlink_absent: "agr \<notin> set (concat wis) \<Longrightarrow> wi_unlink agr wis = wis"
  by (induction wis) auto

lemma wi_unlink_subset: "set (concat (wi_unlink agr wis)) \<subseteq> set (concat wis)"
proof (induction wis)
  case Nil
  then show ?case by simp
next
  case (Cons wi rest)
  have "set (remove1 agr wi) \<subseteq> set wi" by (rule set_remove1_subset)
  with Cons show ?case by auto
qed

lemma wi_unlink_no_empty: "[] \<notin> set wis \<Longrightarrow> [] \<notin> set (wi_unlink agr wis)"
  by (induction wis) auto

lemma wi_unlink_distinct:
  "distinct (concat wis) \<Longrightarrow> distinct (concat (wi_unlink agr wis))"
proof (induction wis)
  case Nil
  then show ?case by simp
next
  case (Cons wi rest)
  have sub: "set (remove1 agr wi) \<subseteq> set wi" by (rule set_remove1_subset)
  have sub2: "set (concat (wi_unlink agr rest)) \<subseteq> set (concat rest)"
    by (rule wi_unlink_subset)
  from Cons.prems have d: "distinct wi" "distinct (concat rest)"
    and dj: "set wi \<inter> set (concat rest) = {}" by auto
  have dj1: "set (remove1 agr wi) \<inter> set (concat rest) = {}" using dj sub by blast
  have dj2: "set wi \<inter> set (concat (wi_unlink agr rest)) = {}" using dj sub2 by blast
  show ?case
  proof (cases "agr \<in> set wi")
    case True
    then show ?thesis using d dj1 by simp
  next
    case False
    then show ?thesis using d dj2 Cons.IH by simp
  qed
qed

lemma wi_unlink_gone:
  "distinct (concat wis) \<Longrightarrow> agr \<notin> set (concat (wi_unlink agr wis))"
proof (induction wis)
  case Nil
  then show ?case by simp
next
  case (Cons wi rest)
  from Cons.prems have d: "distinct wi" "distinct (concat rest)"
    and dj: "set wi \<inter> set (concat rest) = {}" by auto
  show ?case
  proof (cases "agr \<in> set wi")
    case True
    then have "agr \<notin> set (concat rest)" using dj by auto
    moreover have "agr \<notin> set (remove1 agr wi)" using d by simp
    ultimately show ?thesis using True by simp
  next
    case False
    then show ?thesis using Cons.IH d by simp
  qed
qed

lemma wi_unlink_eq:
  "distinct (concat wis) \<Longrightarrow> [] \<notin> set wis \<Longrightarrow>
   wi_unlink agr wis = filter (\<lambda>wi. wi \<noteq> []) (map (removeAll agr) wis)"
proof (induction wis)
  case Nil
  then show ?case by simp
next
  case (Cons wi rest)
  from Cons.prems have d: "distinct wi" "distinct (concat rest)"
    and dj: "set wi \<inter> set (concat rest) = {}" and ne: "wi \<noteq> []" "[] \<notin> set rest" by auto
  have r1: "remove1 agr wi = removeAll agr wi" using d by (simp add: distinct_remove1_removeAll)
  show ?case
  proof (cases "agr \<in> set wi")
    case True
    then have "agr \<notin> set (concat rest)" using dj by auto
    then have "\<forall>b \<in> set rest. removeAll agr b = b" by auto
    then have "map (removeAll agr) rest = rest" by (simp add: map_idI)
    moreover have "filter (\<lambda>wi. wi \<noteq> []) rest = rest" using ne by (auto intro: filter_True)
    ultimately show ?thesis using True r1 by simp
  next
    case False
    then have "removeAll agr wi = wi" by simp
    then show ?thesis using False Cons.IH d ne by simp
  qed
qed


lemma agreement_remove_eq:
  "morse_twt_agreement_remove tw agr =
     (0, tw\<lparr>wake_intervals := wi_unlink agr (wake_intervals tw)\<rparr>)"
  by (simp add: morse_twt_agreement_remove_def wi_unlink_absent)

lemma fold_agreement_remove:
  "fold (\<lambda>i t. snd (morse_twt_agreement_remove t (p, i))) ixs tw =
     tw\<lparr>wake_intervals := wi_unlink_all p ixs (wake_intervals tw)\<rparr>"
  by (induction ixs arbitrary: tw) (simp_all add: wi_unlink_all_def agreement_remove_eq)

lemma wi_unlink_all_props:
  "distinct (concat wis) \<Longrightarrow> [] \<notin> set wis \<Longrightarrow>
   distinct (concat (wi_unlink_all p ixs wis)) \<and>
   [] \<notin> set (wi_unlink_all p ixs wis) \<and>
   set (concat (wi_unlink_all p ixs wis)) \<subseteq> set (concat wis) \<and>
   (\<forall>i \<in> set ixs. (p, i) \<notin> set (concat (wi_unlink_all p ixs wis)))"
proof (induction ixs arbitrary: wis)
  case Nil
  then show ?case by (simp add: wi_unlink_all_def)
next
  case (Cons i ixs)
  let ?w = "wi_unlink (p, i) wis"
  have step: "wi_unlink_all p (i # ixs) wis = wi_unlink_all p ixs ?w"
    by (simp add: wi_unlink_all_def)
  have d: "distinct (concat ?w)" using Cons.prems(1) by (rule wi_unlink_distinct)
  have n: "[] \<notin> set ?w" using Cons.prems(2) by (rule wi_unlink_no_empty)
  have g: "(p, i) \<notin> set (concat ?w)" using Cons.prems(1) by (rule wi_unlink_gone)
  have s: "set (concat ?w) \<subseteq> set (concat wis)" by (rule wi_unlink_subset)
  from Cons.IH [OF d n]
  have ih1: "distinct (concat (wi_unlink_all p ixs ?w))"
    and ih2: "[] \<notin> set (wi_unlink_all p ixs ?w)"
    and ih3: "set (concat (wi_unlink_all p ixs ?w)) \<subseteq> set (concat ?w)"
    and ih4: "\<forall>j \<in> set ixs. (p, j) \<notin> set (concat (wi_unlink_all p ixs ?w))"
    by blast+
  have "(p, i) \<notin> set (concat (wi_unlink_all p ixs ?w))" using g ih3 by blast
  moreover have "set (concat (wi_unlink_all p ixs ?w)) \<subseteq> set (concat wis)"
    using ih3 s by blast
  ultimately show ?case using ih1 ih2 ih4 unfolding step by simp
qed


lemma wi_unlink_keeps:
  "r \<noteq> agr \<Longrightarrow> r \<in> set (concat wis) \<Longrightarrow> r \<in> set (concat (wi_unlink agr wis))"
proof (induction wis)
  case Nil
  then show ?case by simp
next
  case (Cons wi rest)
  show ?case
  proof (cases "r \<in> set wi")
    case True
    then have m: "r \<in> set (remove1 agr wi)" using Cons.prems(1) by simp
    then have "remove1 agr wi \<noteq> []" by auto
    then show ?thesis using True m by simp
  next
    case False
    then have "r \<in> set (concat rest)" using Cons.prems(2) by simp
    then have ih: "r \<in> set (concat (wi_unlink agr rest))"
      using Cons.IH Cons.prems(1) by blast
    show ?thesis
    proof (cases "agr \<in> set wi")
      case True
      then have "agr \<notin> set (concat rest) \<or> True" by simp
      show ?thesis
      proof (cases "remove1 agr wi = []")
        case True
        with \<open>agr \<in> set wi\<close> \<open>r \<in> set (concat rest)\<close> show ?thesis by simp
      next
        case False
        with \<open>agr \<in> set wi\<close> \<open>r \<in> set (concat rest)\<close> show ?thesis by simp
      qed
    next
      case False
      with ih show ?thesis by simp
    qed
  qed
qed

lemma wi_unlink_all_keeps:
  "fst r \<noteq> p \<Longrightarrow> r \<in> set (concat wis) \<Longrightarrow> r \<in> set (concat (wi_unlink_all p ixs wis))"
proof (induction ixs arbitrary: wis)
  case Nil
  then show ?case by (simp add: wi_unlink_all_def)
next
  case (Cons i ixs)
  have "r \<noteq> (p, i)" using Cons.prems(1) by auto
  then have "r \<in> set (concat (wi_unlink (p, i) wis))"
    using Cons.prems(2) by (rule wi_unlink_keeps)
  from Cons.IH [OF Cons.prems(1) this] show ?case by (simp add: wi_unlink_all_def)
qed

lemma sta_remove_fields:
  "fst (morse_twt_sta_remove tw (Some p)) = 0"
  "wake_intervals (snd (morse_twt_sta_remove tw (Some p))) =
     wi_unlink_all p [0 ..< MORSE_TWT_AGREEMENTS_MAX_PER_STA] (wake_intervals tw)"
  "stas (snd (morse_twt_sta_remove tw (Some p))) = remove1 p (stas tw)"
  "agr_mem (snd (morse_twt_sta_remove tw (Some p))) = agr_mem tw"
  "sta_mem (snd (morse_twt_sta_remove tw (Some p))) = sta_mem tw"
  by (simp_all add: morse_twt_sta_remove_def Let_def fold_agreement_remove
      morse_twt_tx_queue_purge_def morse_twt_to_install_queue_purge_def split_def)

lemma list_ex_upt: "list_ex P [0 ..< n] = (\<exists>i < n. P i)"
  by (auto simp: list_ex_iff)

lemma enter_no_agreement_eq:
  assumes f: "unat (ev_flow_id event) < MORSE_TWT_AGREEMENTS_MAX_PER_STA"
  shows "morse_twt_enter_state tw (Some p) event MORSE_TWT_STATE_NO_AGREEMENT k =
     Some (0,
       if (\<exists>i < MORSE_TWT_AGREEMENTS_MAX_PER_STA.
             agr_state (((agr_mem tw)((p, unat (ev_flow_id event)) :=
               (agr_mem tw (p, unat (ev_flow_id event)))
                 \<lparr>agr_state := MORSE_TWT_STATE_NO_AGREEMENT\<rparr>)) (p, i)) \<noteq>
             MORSE_TWT_STATE_NO_AGREEMENT)
       then tw\<lparr>agr_mem := (agr_mem tw)((p, unat (ev_flow_id event)) :=
               (agr_mem tw (p, unat (ev_flow_id event)))
                 \<lparr>agr_state := MORSE_TWT_STATE_NO_AGREEMENT\<rparr>),
              wake_intervals := wi_unlink (p, unat (ev_flow_id event)) (wake_intervals tw)\<rparr>
       else snd (morse_twt_sta_remove
              (tw\<lparr>agr_mem := (agr_mem tw)((p, unat (ev_flow_id event)) :=
               (agr_mem tw (p, unat (ev_flow_id event)))
                 \<lparr>agr_state := MORSE_TWT_STATE_NO_AGREEMENT\<rparr>),
              wake_intervals := wi_unlink (p, unat (ev_flow_id event)) (wake_intervals tw)\<rparr>)
              (Some p)))"
proof -
  have nf: "\<not> MORSE_TWT_AGREEMENTS_MAX_PER_STA \<le> unat (ev_flow_id event)"
    using f by simp
  show ?thesis
    unfolding morse_twt_enter_state.simps morse_twt_enter_state_no_agreement_def
      morse_twt_sta_agreement_remove_def Let_def agreement_remove_eq list_ex_upt
    by (simp add: nf del: fun_upd_apply) blast
qed

text \<open>
  Claim C9. When a flow of a station enters \<^verbatim>\<open>NO_AGREEMENT\<close> through
  \<^verbatim>\<open>morse_twt_enter_state\<close>, with wake interval lists that hold no agreement twice and no
  empty list: the agreement is in no wake interval list afterwards, no list is left empty
  (a list that lost its last member is destroyed), the agreements of other stations stay
  where they are, and the station is taken off the station list exactly when all of its
  flows are then in state \<^verbatim>\<open>NO_AGREEMENT\<close>. If the station stays, the lists are the old
  ones without this agreement and without the list it emptied.
\<close>

theorem enter_no_agreement_removes:
  assumes f: "unat (ev_flow_id event) < MORSE_TWT_AGREEMENTS_MAX_PER_STA"
    and d: "distinct (concat (wake_intervals tw))"
    and n: "[] \<notin> set (wake_intervals tw)"
  shows "case morse_twt_enter_state tw (Some p) event MORSE_TWT_STATE_NO_AGREEMENT k of
           None \<Rightarrow> False
         | Some (ret, tw') \<Rightarrow>
             ret = 0 \<and>
             agr_state (agr_mem tw' (p, unat (ev_flow_id event))) = MORSE_TWT_STATE_NO_AGREEMENT \<and>
             (p, unat (ev_flow_id event)) \<notin> set (concat (wake_intervals tw')) \<and>
             [] \<notin> set (wake_intervals tw') \<and>
             distinct (concat (wake_intervals tw')) \<and>
             (\<forall>r \<in> set (concat (wake_intervals tw)).
                fst r \<noteq> p \<longrightarrow> r \<in> set (concat (wake_intervals tw'))) \<and>
             (if \<forall>i < MORSE_TWT_AGREEMENTS_MAX_PER_STA.
                   agr_state (agr_mem tw' (p, i)) = MORSE_TWT_STATE_NO_AGREEMENT
              then stas tw' = remove1 p (stas tw) \<and>
                   (\<forall>i < MORSE_TWT_AGREEMENTS_MAX_PER_STA.
                      (p, i) \<notin> set (concat (wake_intervals tw')))
              else stas tw' = stas tw \<and>
                   wake_intervals tw' =
                     filter (\<lambda>wi. wi \<noteq> [])
                       (map (removeAll (p, unat (ev_flow_id event))) (wake_intervals tw)))"
proof -
  let ?f = "unat (ev_flow_id event)"
  let ?M = "MORSE_TWT_AGREEMENTS_MAX_PER_STA"
  let ?am = "(agr_mem tw)((p, ?f) := (agr_mem tw (p, ?f))\<lparr>agr_state := MORSE_TWT_STATE_NO_AGREEMENT\<rparr>)"
  let ?w1 = "wi_unlink (p, ?f) (wake_intervals tw)"
  define tw1 where "tw1 = tw\<lparr>agr_mem := ?am, wake_intervals := ?w1\<rparr>"
  have d1: "distinct (concat ?w1)" using d by (rule wi_unlink_distinct)
  have n1: "[] \<notin> set ?w1" using n by (rule wi_unlink_no_empty)
  have g1: "(p, ?f) \<notin> set (concat ?w1)" using d by (rule wi_unlink_gone)
  have e1: "?w1 = filter (\<lambda>wi. wi \<noteq> []) (map (removeAll (p, ?f)) (wake_intervals tw))"
    using d n by (rule wi_unlink_eq)
  have k1: "\<forall>r \<in> set (concat (wake_intervals tw)). fst r \<noteq> p \<longrightarrow> r \<in> set (concat ?w1)"
  proof (intro ballI impI)
    fix r assume "r \<in> set (concat (wake_intervals tw))" and "fst r \<noteq> p"
    then show "r \<in> set (concat ?w1)" by (intro wi_unlink_keeps) auto
  qed
  have flds: "agr_mem tw1 = ?am" "wake_intervals tw1 = ?w1" "stas tw1 = stas tw"
    by (simp_all add: tw1_def)
  have st: "agr_state (?am (p, ?f)) = MORSE_TWT_STATE_NO_AGREEMENT" by simp
  show ?thesis
  proof (cases "\<exists>i < ?M. agr_state (?am (p, i)) \<noteq> MORSE_TWT_STATE_NO_AGREEMENT")
    case True
    have r: "morse_twt_enter_state tw (Some p) event MORSE_TWT_STATE_NO_AGREEMENT k =
        Some (0, tw1)"
      unfolding tw1_def enter_no_agreement_eq [OF f] by (simp only: if_P [OF True])
    have c: "\<not> (\<forall>i < ?M. agr_state (agr_mem tw1 (p, i)) = MORSE_TWT_STATE_NO_AGREEMENT)"
      unfolding flds using True by blast
    have K: "agr_state (agr_mem tw1 (p, ?f)) = MORSE_TWT_STATE_NO_AGREEMENT \<and>
          (p, ?f) \<notin> set (concat (wake_intervals tw1)) \<and>
          [] \<notin> set (wake_intervals tw1) \<and>
          distinct (concat (wake_intervals tw1)) \<and>
          (\<forall>r \<in> set (concat (wake_intervals tw)).
             fst r \<noteq> p \<longrightarrow> r \<in> set (concat (wake_intervals tw1))) \<and>
          stas tw1 = stas tw \<and>
          wake_intervals tw1 =
            filter (\<lambda>wi. wi \<noteq> []) (map (removeAll (p, ?f)) (wake_intervals tw))"
      unfolding flds by (intro conjI st g1 n1 d1 k1 e1 refl)
    show ?thesis
      unfolding r by (simp only: option.case prod.case if_not_P [OF c]) (rule conjI [OF refl K])
  next
    case False
    let ?w2 = "wi_unlink_all p [0 ..< ?M] ?w1"
    define tw2 where "tw2 = snd (morse_twt_sta_remove tw1 (Some p))"
    have r: "morse_twt_enter_state tw (Some p) event MORSE_TWT_STATE_NO_AGREEMENT k =
        Some (0, tw2)"
      unfolding tw2_def tw1_def enter_no_agreement_eq [OF f] by (simp only: if_not_P [OF False])
    have flds2: "agr_mem tw2 = ?am" "wake_intervals tw2 = ?w2" "stas tw2 = remove1 p (stas tw)"
      by (simp_all add: tw2_def sta_remove_fields flds)
    from wi_unlink_all_props [OF d1 n1, of p "[0 ..< ?M]"]
    have p1: "distinct (concat ?w2)" and p2: "[] \<notin> set ?w2"
      and p3: "set (concat ?w2) \<subseteq> set (concat ?w1)"
      and p4: "\<forall>i \<in> set [0 ..< ?M]. (p, i) \<notin> set (concat ?w2)"
      by blast+
    have p4': "\<forall>i < ?M. (p, i) \<notin> set (concat ?w2)" using p4 by simp
    have g2: "(p, ?f) \<notin> set (concat ?w2)" using g1 p3 by blast
    have k2: "\<forall>r \<in> set (concat (wake_intervals tw)). fst r \<noteq> p \<longrightarrow> r \<in> set (concat ?w2)"
    proof (intro ballI impI)
      fix r assume "r \<in> set (concat (wake_intervals tw))" and np: "fst r \<noteq> p"
      then have "r \<in> set (concat ?w1)" using k1 by blast
      with np show "r \<in> set (concat ?w2)" by (rule wi_unlink_all_keeps)
    qed
    have c: "\<forall>i < ?M. agr_state (agr_mem tw2 (p, i)) = MORSE_TWT_STATE_NO_AGREEMENT"
      unfolding flds2 using False by blast
    have K: "agr_state (agr_mem tw2 (p, ?f)) = MORSE_TWT_STATE_NO_AGREEMENT \<and>
          (p, ?f) \<notin> set (concat (wake_intervals tw2)) \<and>
          [] \<notin> set (wake_intervals tw2) \<and>
          distinct (concat (wake_intervals tw2)) \<and>
          (\<forall>r \<in> set (concat (wake_intervals tw)).
             fst r \<noteq> p \<longrightarrow> r \<in> set (concat (wake_intervals tw2))) \<and>
          stas tw2 = remove1 p (stas tw) \<and>
          (\<forall>i < ?M. (p, i) \<notin> set (concat (wake_intervals tw2)))"
      unfolding flds2 by (intro conjI st g2 p2 p1 k2 p4' refl)
    show ?thesis
      unfolding r by (simp only: option.case prod.case if_P [OF c]) (rule conjI [OF refl K])
  qed
qed


lemma ex_teardown_evaluated:
  "map_option (\<lambda>(r, t). (r, stas t, wake_intervals t))
     (morse_twt_enter_state ex_twt1 (Some 1) (ex_teardown 1) MORSE_TWT_STATE_NO_AGREEMENT True) =
   Some (0, [2, 3], [])"
  by code_simp

text \<open>
  Station 1 holds the only agreement: the teardown of flow 2 destroys the wake interval and
  removes the station.
\<close>

theorem enter_no_agreement_removes_witness:
  "unat (ev_flow_id (ex_teardown 1)) < MORSE_TWT_AGREEMENTS_MAX_PER_STA \<and>
   distinct (concat (wake_intervals ex_twt1)) \<and> [] \<notin> set (wake_intervals ex_twt1) \<and>
   wake_intervals ex_twt1 = [[(1, 2)]] \<and> stas ex_twt1 = [1, 2, 3] \<and>
   map_option (\<lambda>(r, t). (r, stas t, wake_intervals t))
     (morse_twt_enter_state ex_twt1 (Some 1) (ex_teardown 1) MORSE_TWT_STATE_NO_AGREEMENT True) =
   Some (0, [2, 3], []) \<and>
   (case morse_twt_enter_state ex_twt1 (Some 1) (ex_teardown 1) MORSE_TWT_STATE_NO_AGREEMENT True of
           None \<Rightarrow> False
         | Some (ret, tw') \<Rightarrow>
             ret = 0 \<and>
             agr_state (agr_mem tw' (1, unat (ev_flow_id (ex_teardown 1)))) = MORSE_TWT_STATE_NO_AGREEMENT \<and>
             (1, unat (ev_flow_id (ex_teardown 1))) \<notin> set (concat (wake_intervals tw')) \<and>
             [] \<notin> set (wake_intervals tw') \<and>
             distinct (concat (wake_intervals tw')) \<and>
             (\<forall>r \<in> set (concat (wake_intervals ex_twt1)).
                fst r \<noteq> 1 \<longrightarrow> r \<in> set (concat (wake_intervals tw'))) \<and>
             (if \<forall>i < MORSE_TWT_AGREEMENTS_MAX_PER_STA.
                   agr_state (agr_mem tw' (1, i)) = MORSE_TWT_STATE_NO_AGREEMENT
              then stas tw' = remove1 1 (stas ex_twt1) \<and>
                   (\<forall>i < MORSE_TWT_AGREEMENTS_MAX_PER_STA.
                      (1, i) \<notin> set (concat (wake_intervals tw')))
              else stas tw' = stas ex_twt1 \<and>
                   wake_intervals tw' =
                     filter (\<lambda>wi. wi \<noteq> [])
                       (map (removeAll (1, unat (ev_flow_id (ex_teardown 1)))) (wake_intervals ex_twt1))))"
proof -
  have f: "unat (ev_flow_id (ex_teardown 1)) < MORSE_TWT_AGREEMENTS_MAX_PER_STA"
    by (simp add: ex_teardown_def MORSE_TWT_AGREEMENTS_MAX_PER_STA_def)
  have w: "wake_intervals ex_twt1 = [[(1, 2)]]" "stas ex_twt1 = [1, 2, 3]"
    by (simp_all add: ex_twt1_def ex_twt0_def)
  have d: "distinct (concat (wake_intervals ex_twt1))" by (simp add: w)
  have n: "[] \<notin> set (wake_intervals ex_twt1)" by (simp add: w)
  note t = enter_no_agreement_removes [OF f d n, of 1 True]
  from f d n w ex_teardown_evaluated t show ?thesis by (intro conjI)
qed

section \<open>Placing an agreement into a wake interval\<close>


lemma find_map_index:
  "List.find P (map f xs) = map_option f (List.find (\<lambda>x. P (f x)) xs)"
  by (induction xs) simp_all

lemma find_upt_Suc:
  "List.find P [0..<Suc n] =
     (if P 0 then Some 0 else map_option Suc (List.find (\<lambda>j. P (Suc j)) [0..<n]))"
proof -
  have "[0..<Suc n] = 0 # map Suc [0..<n]"
    by (simp add: upt_conv_Cons map_Suc_upt del: upt_Suc)
  then show ?thesis by (simp add: find_map_index del: upt_Suc)
qed

text \<open>The position \<open>first_fit\<close> along the list, as the loop walks it.\<close>

lemma first_fit_single: "first_fit am agr [ptr] = 0"
  by (simp add: first_fit_def)

lemma first_fit_Cons:
  "first_fit am agr (ptr # ptr_next # rest) =
     (if unalloc_dur_us am ptr ptr_next \<ge> ucast (wake_duration_us (agr_data (am agr)))
      then 0 else Suc (first_fit am agr (ptr_next # rest)))"
  by (simp add: first_fit_def find_upt_Suc del: upt_Suc split: option.splits)

lemma first_fit_props:
  assumes "l \<noteq> []"
  shows "first_fit am agr l < length l"
    and "\<forall>j < first_fit am agr l.
           unalloc_dur_us am (l ! j) (l ! Suc j) < ucast (wake_duration_us (agr_data (am agr)))"
    and "Suc (first_fit am agr l) < length l \<longrightarrow>
           ucast (wake_duration_us (agr_data (am agr))) \<le>
           unalloc_dur_us am (l ! first_fit am agr l) (l ! Suc (first_fit am agr l))"
proof -
  let ?P = "\<lambda>j. unalloc_dur_us am (l ! j) (l ! Suc j) \<ge>
                 ucast (wake_duration_us (agr_data (am agr)))"
  show "first_fit am agr l < length l"
    using assms
    by (auto simp: first_fit_def find_Some_iff split: option.splits)
  show "\<forall>j < first_fit am agr l.
           unalloc_dur_us am (l ! j) (l ! Suc j) < ucast (wake_duration_us (agr_data (am agr)))"
  proof (cases "List.find ?P [0..<length l - 1]")
    case None
    then have "\<forall>j < length l - 1. \<not> ?P j" by (auto simp: find_None_iff)
    with None show ?thesis by (simp add: first_fit_def not_le)
  next
    case (Some n)
    then have "\<forall>j < n. \<not> ?P j"
      by (auto simp: find_Some_iff)
    with Some show ?thesis by (simp add: first_fit_def not_le)
  qed
  show "Suc (first_fit am agr l) < length l \<longrightarrow>
           ucast (wake_duration_us (agr_data (am agr))) \<le>
           unalloc_dur_us am (l ! first_fit am agr l) (l ! Suc (first_fit am agr l))"
  proof (cases "List.find ?P [0..<length l - 1]")
    case None
    have "\<not> Suc (length l - 1) < length l" using assms by simp
    with None show ?thesis by (simp add: first_fit_def)
  next
    case (Some n)
    then have "?P n" by (auto simp: find_Some_iff)
    with Some show ?thesis by (simp add: first_fit_def)
  qed
qed

lemma first_fit_no_gap:
  assumes "\<forall>j. Suc j < length l \<longrightarrow>
             unalloc_dur_us am (l ! j) (l ! Suc j) < ucast (wake_duration_us (agr_data (am agr)))"
  shows "first_fit am agr l = length l - 1"
proof -
  have "List.find (\<lambda>j. unalloc_dur_us am (l ! j) (l ! Suc j) \<ge>
                 ucast (wake_duration_us (agr_data (am agr)))) [0..<length l - 1] = None"
    using assms by (auto simp: find_None_iff not_le)
  then show ?thesis by (simp add: first_fit_def)
qed

text \<open>
  The loop puts the new agreement behind the agreement at the position \<open>first_fit\<close> and
  anchors it at the end of the service period of that agreement.
\<close>

lemma add_loop_first_fit:
  "l \<noteq> [] \<Longrightarrow> \<forall>r \<in> set l. wake_interval_us (agr_data (am r)) \<noteq> 0 \<Longrightarrow>
   wake_interval_add_loop am agr l =
     WI_PLACED (wake_time_us (agr_data (am (l ! first_fit am agr l))) +
                ucast (wake_duration_us (agr_data (am (l ! first_fit am agr l)))))
       (take (Suc (first_fit am agr l)) l @ agr # drop (Suc (first_fit am agr l)) l)"
proof (induction am agr l rule: wake_interval_add_loop.induct)
  case (1 am agr)
  then show ?case by simp
next
  case (2 am agr ptr)
  show ?case by (simp add: first_fit_single)
next
  case (3 am agr ptr ptr_next rest)
  let ?fits = "unalloc_dur_us am ptr ptr_next \<ge> ucast (wake_duration_us (agr_data (am agr)))"
  from "3.prems" have nz: "\<not> (wake_interval_us (agr_data (am ptr)) = 0 \<or>
      wake_interval_us (agr_data (am ptr_next)) = 0)"
    and nzr: "\<forall>r \<in> set (ptr_next # rest). wake_interval_us (agr_data (am r)) \<noteq> 0"
    by simp_all
  show ?case
  proof (cases ?fits)
    case True
    then show ?thesis using nz by (simp add: first_fit_Cons)
  next
    case False
    have ih: "wake_interval_add_loop am agr (ptr_next # rest) =
      WI_PLACED (wake_time_us (agr_data (am ((ptr_next # rest) ! first_fit am agr (ptr_next # rest)))) +
                ucast (wake_duration_us
                  (agr_data (am ((ptr_next # rest) ! first_fit am agr (ptr_next # rest))))))
       (take (Suc (first_fit am agr (ptr_next # rest))) (ptr_next # rest) @
        agr # drop (Suc (first_fit am agr (ptr_next # rest))) (ptr_next # rest))"
      by (rule "3.IH" [OF nz False _ nzr]) simp
    have step: "wake_interval_add_loop am agr (ptr # ptr_next # rest) =
        (case wake_interval_add_loop am agr (ptr_next # rest) of
           WI_PLACED t l \<Rightarrow> WI_PLACED t (ptr # l)
         | WI_NO_SLOT \<Rightarrow> WI_NO_SLOT
         | WI_DIV_ZERO \<Rightarrow> WI_DIV_ZERO)"
      using nz False by simp
    have ff: "first_fit am agr (ptr # ptr_next # rest) = Suc (first_fit am agr (ptr_next # rest))"
      using False by (simp add: first_fit_Cons)
    show ?thesis
      unfolding step ih ff by simp
  qed
qed

lemma get_loop_result:
  "wake_interval_get_loop am us k wis = Some (i, wis') \<Longrightarrow>
   i < length wis' \<and>
   (wis' ! i \<noteq> [] \<longrightarrow> wis' = wis) \<and>
   (wis' ! i = [] \<longrightarrow> k \<and> wis' = take i wis @ [] # drop i wis)"
proof (induction wis arbitrary: i wis')
  case Nil
  then show ?case by simp
next
  case (Cons wi rest)
  note prems = Cons.prems and IH = Cons.IH
  show ?case
  proof (cases wi)
    case Nil
    with prems show ?thesis by simp
  next
    case wi: (Cons agr tl)
    let ?w = "wake_interval_us (agr_data (am agr))"
    consider (eq) "?w = us" | (gt) "?w \<noteq> us" "?w > us"
      | (last) "?w \<noteq> us" "\<not> ?w > us" "rest = []"
      | (rec) "?w \<noteq> us" "\<not> ?w > us" "rest \<noteq> []"
      by blast
    then show ?thesis
    proof cases
      case eq
      with prems wi show ?thesis by auto
    next
      case gt
      with prems wi show ?thesis by (auto split: if_splits)
    next
      case last
      with prems wi show ?thesis by (auto split: if_splits)
    next
      case rec
      with prems wi obtain j l where
        r: "wake_interval_get_loop am us k rest = Some (j, l)" and i: "i = Suc j"
        and w: "wis' = wi # l"
        by (auto simp: Let_def)
      from IH [OF r]
      have "j < length l" and a: "l ! j \<noteq> [] \<longrightarrow> l = rest"
        and b: "l ! j = [] \<longrightarrow> k \<and> l = take j rest @ [] # drop j rest"
        by blast+
      then show ?thesis using i w by simp
    qed
  qed
qed

lemma get_result:
  assumes "morse_twt_agreement_wake_interval_get tw us k = Some (i, wis')"
  shows "i < length wis' \<and>
   (wis' ! i \<noteq> [] \<longrightarrow> wis' = wake_intervals tw) \<and>
   (wis' ! i = [] \<longrightarrow>
      k \<and> wis' = take i (wake_intervals tw) @ [] # drop i (wake_intervals tw))"
proof (cases "wake_intervals tw = []")
  case True
  with assms show ?thesis
    by (auto simp: morse_twt_agreement_wake_interval_get_def split: if_splits)
next
  case False
  with assms have "wake_interval_get_loop (agr_mem tw) us k (wake_intervals tw) = Some (i, wis')"
    by (simp add: morse_twt_agreement_wake_interval_get_def)
  then show ?thesis by (rule get_loop_result)
qed


text \<open>
  Claim C4 as stated has the placement fail with \<open>-EBADSLT\<close> when no gap between
  consecutive service periods is large enough. Here the wake interval of 100000 us holds
  two agreements, at 0 and at 8000, each 8000 us long, so the only gap is 0; a request for
  95000 us is appended behind the last agreement, anchored at 16000, and the function
  returns 0.
\<close>

theorem wake_interval_add_counterexample:
  "twt_view (1, 2) (Some (0, ex_twt2)) =
     Some (0, [1, 2, 3], [[(1, 2), (2, 2)]], MORSE_TWT_STATE_AGREEMENT, 0) \<and>
   twt_view (2, 2) (Some (0, ex_twt2)) =
     Some (0, [1, 2, 3], [[(1, 2), (2, 2)]], MORSE_TWT_STATE_AGREEMENT, 8000) \<and>
   wake_duration_us (agr_data (agr_mem ex_twt2 (1, 2))) = 8000 \<and>
   wake_duration_us (agr_data (agr_mem ex_twt2 (2, 2))) = 8000 \<and>
   wake_duration_us (agr_data (agr_mem ex_twt2 (3, 2))) = 95000 \<and>
   morse_twt_get_command (p_req_type (params (agr_data (agr_mem ex_twt2 (3, 2))))) =
     TWT_SETUP_CMD_REQUEST \<and>
   twt_view (3, 2) (morse_twt_agreement_wake_interval_add ex_twt2 (3, 2) True) =
     Some (0, [1, 2, 3], [[(1, 2), (2, 2), (3, 2)]], MORSE_TWT_STATE_CONSIDER_REQUEST, 16000) \<and>
   (0 :: int) \<noteq> - EBADSLT"
  by code_simp

text \<open>
  Claim C4, as amended. When an agreement in a \<^verbatim>\<open>CONSIDER\<close> state whose command is not
  DEMAND is placed into a non-empty wake interval all of whose agreements have a wake
  interval other than zero, \<^verbatim>\<open>morse_twt_agreement_wake_interval_add\<close> returns 0, never
  \<open>-EBADSLT\<close>. The new agreement is inserted directly behind the first agreement of the list
  whose gap to its successor (\<^verbatim>\<open>unalloc_dur_us\<close>) is at least the wake duration of the new
  agreement: no earlier gap is large enough and this one is. If no gap is large enough, it
  is appended behind the last agreement. In both cases it is anchored at the end of the
  service period of the agreement it follows (that agreement's wake time plus its wake
  duration). The other agreements keep their place, their order and their data, the other
  wake intervals are untouched, and of the new agreement only the wake time changes.
\<close>

theorem wake_interval_add_never_no_slot:
  assumes st: "agr_state (agr_mem tw agr) \<noteq> MORSE_TWT_STATE_NO_AGREEMENT"
      "agr_state (agr_mem tw agr) \<noteq> MORSE_TWT_STATE_AGREEMENT"
    and cmd: "morse_twt_get_command (p_req_type (params (agr_data (agr_mem tw agr)))) \<noteq>
                TWT_SETUP_CMD_DEMAND"
    and get: "morse_twt_agreement_wake_interval_get tw
                (wake_interval_us (agr_data (agr_mem tw agr))) k = Some (i, wis)"
    and ne: "wis ! i \<noteq> []"
    and nz: "\<forall>r \<in> set (wis ! i). wake_interval_us (agr_data (agr_mem tw r)) \<noteq> 0"
  shows "case morse_twt_agreement_wake_interval_add tw agr k of
           None \<Rightarrow> False
         | Some (ret, tw') \<Rightarrow>
             ret = 0 \<and> ret \<noteq> - EBADSLT \<and>
             (\<forall>r. r \<noteq> agr \<longrightarrow> agr_mem tw' r = agr_mem tw r) \<and>
             agr_state (agr_mem tw' agr) = agr_state (agr_mem tw agr) \<and>
             agr_mem tw' agr =
               (agr_mem tw agr)\<lparr>agr_data := (agr_data (agr_mem tw agr))
                  \<lparr>wake_time_us := wake_time_us (agr_data (agr_mem tw' agr))\<rparr>\<rparr> \<and>
             wis = wake_intervals tw \<and>
             (let l = wake_intervals tw ! i;
                  n = first_fit (agr_mem tw) agr l;
                  d = ucast (wake_duration_us (agr_data (agr_mem tw agr)))
              in n < length l \<and>
                 (\<forall>j < n. unalloc_dur_us (agr_mem tw) (l ! j) (l ! Suc j) < d) \<and>
                 (Suc n < length l \<longrightarrow> d \<le> unalloc_dur_us (agr_mem tw) (l ! n) (l ! Suc n)) \<and>
                 wake_intervals tw' =
                   (wake_intervals tw)[i := take (Suc n) l @ agr # drop (Suc n) l] \<and>
                 wake_time_us (agr_data (agr_mem tw' agr)) =
                   wake_time_us (agr_data (agr_mem tw (l ! n))) +
                   ucast (wake_duration_us (agr_data (agr_mem tw (l ! n)))) \<and>
                 ((\<forall>j. Suc j < length l \<longrightarrow>
                       unalloc_dur_us (agr_mem tw) (l ! j) (l ! Suc j) < d) \<longrightarrow>
                  wake_intervals tw' = (wake_intervals tw)[i := l @ [agr]] \<and>
                  wake_time_us (agr_data (agr_mem tw' agr)) =
                    wake_time_us (agr_data (agr_mem tw (last l))) +
                    ucast (wake_duration_us (agr_data (agr_mem tw (last l))))))"
proof -
  from get_result [OF get] ne have w: "wis = wake_intervals tw" by blast
  define l where "l = wake_intervals tw ! i"
  define n where "n = first_fit (agr_mem tw) agr l"
  define d :: u64 where "d = ucast (wake_duration_us (agr_data (agr_mem tw agr)))"
  have lne: "l \<noteq> []" using ne by (simp add: l_def w)
  have lnz: "\<forall>r \<in> set l. wake_interval_us (agr_data (agr_mem tw r)) \<noteq> 0"
    using nz by (simp add: l_def w)
  let ?t = "wake_time_us (agr_data (agr_mem tw (l ! n))) +
            ucast (wake_duration_us (agr_data (agr_mem tw (l ! n))))"
  let ?l' = "take (Suc n) l @ agr # drop (Suc n) l"
  have lp: "wake_interval_add_loop (agr_mem tw) agr (wis ! i) = WI_PLACED ?t ?l'"
    using add_loop_first_fit [OF lne lnz, of agr] by (simp add: n_def l_def w)
  define tw' where "tw' = set_wake_time_us (tw\<lparr>wake_intervals := wis[i := ?l']\<rparr>) agr ?t"
  have r: "morse_twt_agreement_wake_interval_add tw agr k = Some (0, tw')"
    using st cmd get ne lp
    by (simp add: morse_twt_agreement_wake_interval_add_def Let_def tw'_def)
  have e: "EBADSLT = 57" by (simp add: EBADSLT_def)
  note ff = first_fit_props [OF lne, of "agr_mem tw" agr, folded n_def d_def]
  have p1: "(0 :: int) \<noteq> - EBADSLT" by (simp add: e)
  have p2: "\<forall>r. r \<noteq> agr \<longrightarrow> agr_mem tw' r = agr_mem tw r"
    by (simp add: tw'_def set_wake_time_us_def)
  have p3: "agr_state (agr_mem tw' agr) = agr_state (agr_mem tw agr)"
    by (simp add: tw'_def set_wake_time_us_def)
  have p4: "agr_mem tw' agr =
               (agr_mem tw agr)\<lparr>agr_data := (agr_data (agr_mem tw agr))
                  \<lparr>wake_time_us := wake_time_us (agr_data (agr_mem tw' agr))\<rparr>\<rparr>"
    by (simp add: tw'_def set_wake_time_us_def)
  have p5: "wake_intervals tw' = (wake_intervals tw)[i := ?l']"
    by (simp add: tw'_def set_wake_time_us_def w)
  have p6: "wake_time_us (agr_data (agr_mem tw' agr)) = ?t"
    by (simp add: tw'_def set_wake_time_us_def)
  have p7: "(\<forall>j. Suc j < length l \<longrightarrow> unalloc_dur_us (agr_mem tw) (l ! j) (l ! Suc j) < d) \<longrightarrow>
        wake_intervals tw' = (wake_intervals tw)[i := l @ [agr]] \<and>
        wake_time_us (agr_data (agr_mem tw' agr)) =
          wake_time_us (agr_data (agr_mem tw (last l))) +
          ucast (wake_duration_us (agr_data (agr_mem tw (last l))))"
  proof
    assume a: "\<forall>j. Suc j < length l \<longrightarrow> unalloc_dur_us (agr_mem tw) (l ! j) (l ! Suc j) < d"
    have nl: "n = length l - 1"
      unfolding n_def by (rule first_fit_no_gap) (use a in \<open>simp add: d_def\<close>)
    have "l ! n = last l" using lne by (simp add: nl last_conv_nth)
    moreover have "take (Suc n) l @ agr # drop (Suc n) l = l @ [agr]"
      using lne by (simp add: nl)
    ultimately show "wake_intervals tw' = (wake_intervals tw)[i := l @ [agr]] \<and>
        wake_time_us (agr_data (agr_mem tw' agr)) =
          wake_time_us (agr_data (agr_mem tw (last l))) +
          ucast (wake_duration_us (agr_data (agr_mem tw (last l))))"
      using p5 p6 by simp
  qed
  have K: "(0 :: int) \<noteq> - EBADSLT \<and>
        (\<forall>r. r \<noteq> agr \<longrightarrow> agr_mem tw' r = agr_mem tw r) \<and>
        agr_state (agr_mem tw' agr) = agr_state (agr_mem tw agr) \<and>
        agr_mem tw' agr =
          (agr_mem tw agr)\<lparr>agr_data := (agr_data (agr_mem tw agr))
             \<lparr>wake_time_us := wake_time_us (agr_data (agr_mem tw' agr))\<rparr>\<rparr> \<and>
        wis = wake_intervals tw \<and>
        (let l = wake_intervals tw ! i;
             n = first_fit (agr_mem tw) agr l;
             d = ucast (wake_duration_us (agr_data (agr_mem tw agr)))
         in n < length l \<and>
            (\<forall>j < n. unalloc_dur_us (agr_mem tw) (l ! j) (l ! Suc j) < d) \<and>
            (Suc n < length l \<longrightarrow> d \<le> unalloc_dur_us (agr_mem tw) (l ! n) (l ! Suc n)) \<and>
            wake_intervals tw' =
              (wake_intervals tw)[i := take (Suc n) l @ agr # drop (Suc n) l] \<and>
            wake_time_us (agr_data (agr_mem tw' agr)) =
              wake_time_us (agr_data (agr_mem tw (l ! n))) +
              ucast (wake_duration_us (agr_data (agr_mem tw (l ! n)))) \<and>
            ((\<forall>j. Suc j < length l \<longrightarrow>
                  unalloc_dur_us (agr_mem tw) (l ! j) (l ! Suc j) < d) \<longrightarrow>
             wake_intervals tw' = (wake_intervals tw)[i := l @ [agr]] \<and>
             wake_time_us (agr_data (agr_mem tw' agr)) =
               wake_time_us (agr_data (agr_mem tw (last l))) +
               ucast (wake_duration_us (agr_data (agr_mem tw (last l))))))"
    unfolding Let_def l_def [symmetric] n_def [symmetric] d_def [symmetric]
    by (intro conjI p1 p2 p3 p4 w ff p5 p6 p7)
  show ?thesis
    unfolding r by (simp only: option.case prod.case) (rule conjI [OF refl K])
qed

text \<open>
  The example above, where no gap is large enough and the request is appended, and an
  example with a gap: the agreements are anchored at 0 and at 50000, each 8000 us long, so
  the gap behind the first is 42000 us; a request for 8000 us goes between the two and is
  anchored at 8000.
\<close>

theorem wake_interval_add_never_no_slot_witness:
  "agr_state (agr_mem ex_twt2 (3, 2)) = MORSE_TWT_STATE_CONSIDER_REQUEST \<and>
   morse_twt_get_command (p_req_type (params (agr_data (agr_mem ex_twt2 (3, 2))))) =
     TWT_SETUP_CMD_REQUEST \<and>
   morse_twt_agreement_wake_interval_get ex_twt2
     (wake_interval_us (agr_data (agr_mem ex_twt2 (3, 2)))) True =
     Some (0, [[(1, 2), (2, 2)]]) \<and>
   wake_interval_us (agr_data (agr_mem ex_twt2 (1, 2))) = 100000 \<and>
   wake_interval_us (agr_data (agr_mem ex_twt2 (2, 2))) = 100000 \<and>
   unalloc_dur_us (agr_mem ex_twt2) (1, 2) (2, 2) = 0 \<and>
   first_fit (agr_mem ex_twt2) (3, 2) [(1, 2), (2, 2)] = 1 \<and>
   morse_twt_agreement_wake_interval_add ex_twt2 (3, 2) True \<noteq> None \<and>
   twt_view (3, 2) (morse_twt_agreement_wake_interval_add ex_twt2 (3, 2) True) =
     Some (0, [1, 2, 3], [[(1, 2), (2, 2), (3, 2)]], MORSE_TWT_STATE_CONSIDER_REQUEST, 16000) \<and>
   agr_state (agr_mem ex_twt2g (3, 2)) = MORSE_TWT_STATE_CONSIDER_REQUEST \<and>
   morse_twt_agreement_wake_interval_get ex_twt2g
     (wake_interval_us (agr_data (agr_mem ex_twt2g (3, 2)))) True =
     Some (0, [[(1, 2), (2, 2)]]) \<and>
   unalloc_dur_us (agr_mem ex_twt2g) (1, 2) (2, 2) = 42000 \<and>
   first_fit (agr_mem ex_twt2g) (3, 2) [(1, 2), (2, 2)] = 0 \<and>
   morse_twt_agreement_wake_interval_add ex_twt2g (3, 2) True \<noteq> None \<and>
   twt_view (3, 2) (morse_twt_agreement_wake_interval_add ex_twt2g (3, 2) True) =
     Some (0, [1, 2, 3], [[(1, 2), (3, 2), (2, 2)]], MORSE_TWT_STATE_CONSIDER_REQUEST, 8000)"
proof -
  have st: "agr_state (agr_mem ex_twt2 (3, 2)) = MORSE_TWT_STATE_CONSIDER_REQUEST"
    "agr_state (agr_mem ex_twt2g (3, 2)) = MORSE_TWT_STATE_CONSIDER_REQUEST"
    by code_simp+
  have cmd: "morse_twt_get_command (p_req_type (params (agr_data (agr_mem ex_twt2 (3, 2))))) =
     TWT_SETUP_CMD_REQUEST"
    "morse_twt_get_command (p_req_type (params (agr_data (agr_mem ex_twt2g (3, 2))))) =
     TWT_SETUP_CMD_REQUEST"
    by code_simp+
  have get: "morse_twt_agreement_wake_interval_get ex_twt2
     (wake_interval_us (agr_data (agr_mem ex_twt2 (3, 2)))) True =
     Some (0, [[(1, 2), (2, 2)]])"
    and getg: "morse_twt_agreement_wake_interval_get ex_twt2g
     (wake_interval_us (agr_data (agr_mem ex_twt2g (3, 2)))) True =
     Some (0, [[(1, 2), (2, 2)]])"
    by code_simp+
  have i1: "wake_interval_us (agr_data (agr_mem ex_twt2 (1, 2))) = 100000"
    and i2: "wake_interval_us (agr_data (agr_mem ex_twt2 (2, 2))) = 100000"
    and j1: "wake_interval_us (agr_data (agr_mem ex_twt2g (1, 2))) = 100000"
    and j2: "wake_interval_us (agr_data (agr_mem ex_twt2g (2, 2))) = 100000"
    by code_simp+
  have u: "unalloc_dur_us (agr_mem ex_twt2) (1, 2) (2, 2) = 0"
    and ug: "unalloc_dur_us (agr_mem ex_twt2g) (1, 2) (2, 2) = 42000"
    by code_simp+
  have f: "first_fit (agr_mem ex_twt2) (3, 2) [(1, 2), (2, 2)] = 1"
    and fg: "first_fit (agr_mem ex_twt2g) (3, 2) [(1, 2), (2, 2)] = 0"
    by code_simp+
  have v: "twt_view (3, 2) (morse_twt_agreement_wake_interval_add ex_twt2 (3, 2) True) =
     Some (0, [1, 2, 3], [[(1, 2), (2, 2), (3, 2)]], MORSE_TWT_STATE_CONSIDER_REQUEST, 16000)"
    and vg: "twt_view (3, 2) (morse_twt_agreement_wake_interval_add ex_twt2g (3, 2) True) =
     Some (0, [1, 2, 3], [[(1, 2), (3, 2), (2, 2)]], MORSE_TWT_STATE_CONSIDER_REQUEST, 8000)"
    by code_simp+
  have st1: "agr_state (agr_mem ex_twt2 (3, 2)) \<noteq> MORSE_TWT_STATE_NO_AGREEMENT"
    and st2: "agr_state (agr_mem ex_twt2 (3, 2)) \<noteq> MORSE_TWT_STATE_AGREEMENT"
    and sg1: "agr_state (agr_mem ex_twt2g (3, 2)) \<noteq> MORSE_TWT_STATE_NO_AGREEMENT"
    and sg2: "agr_state (agr_mem ex_twt2g (3, 2)) \<noteq> MORSE_TWT_STATE_AGREEMENT"
    by (simp_all add: st)
  have c: "morse_twt_get_command (p_req_type (params (agr_data (agr_mem ex_twt2 (3, 2))))) \<noteq>
     TWT_SETUP_CMD_DEMAND"
    and cg: "morse_twt_get_command (p_req_type (params (agr_data (agr_mem ex_twt2g (3, 2))))) \<noteq>
     TWT_SETUP_CMD_DEMAND"
    by (simp_all add: cmd)
  have ne: "[[(1, 2), (2, 2)]] ! 0 \<noteq> ([] :: agr_ref list)" by simp
  have nz: "\<forall>r \<in> set ([[(1, 2), (2, 2)]] ! 0).
      wake_interval_us (agr_data (agr_mem ex_twt2 r)) \<noteq> 0"
    using i1 i2 by simp
  have nzg: "\<forall>r \<in> set ([[(1, 2), (2, 2)]] ! 0).
      wake_interval_us (agr_data (agr_mem ex_twt2g r)) \<noteq> 0"
    using j1 j2 by simp
  have n: "morse_twt_agreement_wake_interval_add ex_twt2 (3, 2) True \<noteq> None"
    using wake_interval_add_never_no_slot [OF st1 st2 c get ne nz]
    by (auto split: option.splits)
  have ng: "morse_twt_agreement_wake_interval_add ex_twt2g (3, 2) True \<noteq> None"
    using wake_interval_add_never_no_slot [OF sg1 sg2 cg getg ne nzg]
    by (auto split: option.splits)
  from st(1) cmd(1) get i1 i2 u f n v st(2) getg ug fg ng vg show ?thesis by (intro conjI)
qed

lemma unat_ucast_u32_u64: "unat (ucast (d :: u32) :: u64) = unat d"
  by (simp add: unsigned_ucast_eq take_bit_eq_mod [where ?'a = nat]
      order_less_le_trans [OF unsigned_less])

text \<open>The first agreement of the wake interval found has the wake interval asked for.\<close>

lemma get_loop_hd:
  "wake_interval_get_loop am us k wis = Some (i, wis') \<Longrightarrow> wis' ! i = a # rest \<Longrightarrow>
   wake_interval_us (agr_data (am a)) = us"
proof (induction wis arbitrary: i wis')
  case Nil
  then show ?case by simp
next
  case (Cons wi tl)
  note prems = Cons.prems and IH = Cons.IH
  show ?case
  proof (cases wi)
    case Nil
    with prems show ?thesis by simp
  next
    case wi: (Cons agr atl)
    let ?w = "wake_interval_us (agr_data (am agr))"
    consider (eq) "?w = us" | (gt) "?w \<noteq> us" "?w > us"
      | (last) "?w \<noteq> us" "\<not> ?w > us" "tl = []"
      | (rec) "?w \<noteq> us" "\<not> ?w > us" "tl \<noteq> []"
      by blast
    then show ?thesis
    proof cases
      case eq
      with prems wi show ?thesis by auto
    next
      case gt
      with prems wi show ?thesis by (auto split: if_splits)
    next
      case last
      with prems wi show ?thesis by (auto split: if_splits)
    next
      case rec
      with prems wi obtain j l where
        r: "wake_interval_get_loop am us k tl = Some (j, l)" and i: "i = Suc j"
        and w: "wis' = wi # l"
        by (auto simp: Let_def)
      from prems(2) i w have "l ! j = a # rest" by simp
      from IH [OF r this] show ?thesis .
    qed
  qed
qed

lemma get_hd:
  assumes "morse_twt_agreement_wake_interval_get tw us k = Some (i, wis')"
    and "wis' ! i = a # rest"
  shows "wake_interval_us (agr_data (agr_mem tw a)) = us"
proof (cases "wake_intervals tw = []")
  case True
  with assms show ?thesis
    by (auto simp: morse_twt_agreement_wake_interval_get_def split: if_splits)
next
  case False
  with assms(1) have "wake_interval_get_loop (agr_mem tw) us k (wake_intervals tw) = Some (i, wis')"
    by (simp add: morse_twt_agreement_wake_interval_get_def)
  from get_loop_hd [OF this assms(2)] show ?thesis .
qed

text \<open>
  Two agreements with the same wake interval, the second anchored at the end of the first
  service period of the first, are never in service at the same time when their durations
  together are at most the wake interval.
\<close>

lemma service_periods_disjoint:
  assumes i: "wake_interval_us d2 = wake_interval_us d1"
    and w: "unat (wake_time_us d2) = unat (wake_time_us d1) + unat (wake_duration_us d1)"
    and fit: "unat (wake_duration_us d1) + unat (wake_duration_us d2) \<le> unat (wake_interval_us d1)"
  shows "\<not> (in_service_period d1 t \<and> in_service_period d2 t)"
proof
  let ?I = "unat (wake_interval_us d1)"
  let ?a = "unat (wake_duration_us d1)"
  let ?b = "unat (wake_duration_us d2)"
  assume "in_service_period d1 t \<and> in_service_period d2 t"
  then have t2: "unat (wake_time_us d1) + ?a \<le> t"
    and m1: "(t - unat (wake_time_us d1)) mod ?I < ?a"
    and m2: "(t - (unat (wake_time_us d1) + ?a)) mod ?I < ?b"
    by (simp_all add: in_service_period_def w i)
  define x where "x = t - unat (wake_time_us d1)"
  have xa: "?a \<le> x" using t2 by (simp add: x_def)
  have m1': "x mod ?I < ?a" using m1 by (simp add: x_def)
  have m2': "(x - ?a) mod ?I < ?b" using m2 by (simp add: x_def)
  have apos: "0 < ?a" using m1' by simp
  then have Ipos: "0 < ?I" using fit by simp
  define q where "q = x div ?I"
  define r where "r = x mod ?I"
  have x: "x = q * ?I + r" by (simp add: q_def r_def)
  have ra: "r < ?a" using m1' by (simp add: r_def)
  have "q \<noteq> 0"
  proof
    assume "q = 0"
    then have "x = r" using x by simp
    with ra xa show False by simp
  qed
  then obtain q' where q': "q = Suc q'" by (cases q) simp_all
  have aI: "?a \<le> ?I" using fit by simp
  have "x - ?a = q' * ?I + (?I + r - ?a)"
    using x q' ra aI by simp
  moreover have "?I + r - ?a < ?I" using ra aI apos by simp
  ultimately have "(x - ?a) mod ?I = ?I + r - ?a" by simp
  with m2' have "?I + r - ?a < ?b" by simp
  with fit show False by simp
qed

text \<open>
  Claim C5 as stated has the second agreement, anchored at the end of the first, produce
  service windows that do not overlap. Here the first agreement is 8000 us long and anchored
  at 0, the wake interval is 100000 us, and the second agreement asks for 95000 us. It is
  anchored at 8000, so its first service period lasts until 103000, while the second
  service period of the first agreement begins at 100000: at that time both are in service.
\<close>

theorem wake_interval_add_anchor_counterexample:
  "twt_view (1, 2) (Some (0, ex_twt1w)) =
     Some (0, [1, 2, 3], [[(1, 2)]], MORSE_TWT_STATE_AGREEMENT, 0) \<and>
   wake_duration_us (agr_data (agr_mem ex_twt1w (1, 2))) = 8000 \<and>
   wake_interval_us (agr_data (agr_mem ex_twt1w (1, 2))) = 100000 \<and>
   wake_duration_us (agr_data (agr_mem ex_twt1w (2, 2))) = 95000 \<and>
   wake_interval_us (agr_data (agr_mem ex_twt1w (2, 2))) = 100000 \<and>
   morse_twt_get_command (p_req_type (params (agr_data (agr_mem ex_twt1w (2, 2))))) =
     TWT_SETUP_CMD_REQUEST \<and>
   twt_view (2, 2) (morse_twt_agreement_wake_interval_add ex_twt1w (2, 2) True) =
     Some (0, [1, 2, 3], [[(1, 2), (2, 2)]], MORSE_TWT_STATE_CONSIDER_REQUEST, 8000) \<and>
   twt_service_view (1, 2) 100000 (morse_twt_agreement_wake_interval_add ex_twt1w (2, 2) True) =
     Some True \<and>
   twt_service_view (2, 2) 100000 (morse_twt_agreement_wake_interval_add ex_twt1w (2, 2) True) =
     Some True"
proof -
  have v: "twt_view (1, 2) (Some (0, ex_twt1w)) =
     Some (0, [1, 2, 3], [[(1, 2)]], MORSE_TWT_STATE_AGREEMENT, 0)"
    "wake_duration_us (agr_data (agr_mem ex_twt1w (1, 2))) = 8000"
    "wake_interval_us (agr_data (agr_mem ex_twt1w (1, 2))) = 100000"
    "wake_duration_us (agr_data (agr_mem ex_twt1w (2, 2))) = 95000"
    "wake_interval_us (agr_data (agr_mem ex_twt1w (2, 2))) = 100000"
    "morse_twt_get_command (p_req_type (params (agr_data (agr_mem ex_twt1w (2, 2))))) =
     TWT_SETUP_CMD_REQUEST"
    "twt_view (2, 2) (morse_twt_agreement_wake_interval_add ex_twt1w (2, 2) True) =
     Some (0, [1, 2, 3], [[(1, 2), (2, 2)]], MORSE_TWT_STATE_CONSIDER_REQUEST, 8000)"
    by code_simp+
  have "map_option (\<lambda>(ret, tw). (agr_data (agr_mem tw (1, 2)), agr_data (agr_mem tw (2, 2))))
          (morse_twt_agreement_wake_interval_add ex_twt1w (2, 2) True) =
        Some (ex_data, ex_data\<lparr>wake_time_us := 8000, wake_duration_us := 95000\<rparr>)"
    by code_simp
  then obtain ret tw where r: "morse_twt_agreement_wake_interval_add ex_twt1w (2, 2) True =
      Some (ret, tw)"
    and d1: "agr_data (agr_mem tw (1, 2)) = ex_data"
    and d2: "agr_data (agr_mem tw (2, 2)) =
             ex_data\<lparr>wake_time_us := 8000, wake_duration_us := 95000\<rparr>"
    by auto
  have s1: "twt_service_view (1, 2) 100000
      (morse_twt_agreement_wake_interval_add ex_twt1w (2, 2) True) = Some True"
    unfolding r using d1 by (simp add: twt_service_view_def in_service_period_def ex_data_def)
  have s2: "twt_service_view (2, 2) 100000
      (morse_twt_agreement_wake_interval_add ex_twt1w (2, 2) True) = Some True"
    unfolding r using d2 by (simp add: twt_service_view_def in_service_period_def ex_data_def)
  from v s1 s2 show ?thesis by (intro conjI)
qed

text \<open>
  Claim C5, as amended. For an agreement in a \<^verbatim>\<open>CONSIDER\<close> state: if the wake interval found or
  created for it is empty, the agreement becomes its only member with \<^verbatim>\<open>wake_time_us = 0\<close>;
  if it holds exactly one other agreement, anchored at 0 with wake duration \<open>d\<close>, and the
  command is not DEMAND (it is REQUEST or SUGGEST), the agreement is put behind that one with
  \<^verbatim>\<open>wake_time_us = d\<close>, the first agreement is unchanged and has the same wake interval, and
  the first service window \<open>[0, d)\<close> ends where the second begins. The service periods of the
  two agreements, which repeat every wake interval, do not overlap when the two wake
  durations together are at most the wake interval.
\<close>

theorem wake_interval_add_anchor:
  assumes st: "agr_state (agr_mem tw agr) \<noteq> MORSE_TWT_STATE_NO_AGREEMENT"
      "agr_state (agr_mem tw agr) \<noteq> MORSE_TWT_STATE_AGREEMENT"
    and get: "morse_twt_agreement_wake_interval_get tw
                (wake_interval_us (agr_data (agr_mem tw agr))) k = Some (i, wis)"
  shows "(wis ! i = [] \<longrightarrow>
            (case morse_twt_agreement_wake_interval_add tw agr k of
               None \<Rightarrow> False
             | Some (ret, tw') \<Rightarrow>
                 ret = 0 \<and> wake_time_us (agr_data (agr_mem tw' agr)) = 0 \<and>
                 wake_intervals tw' = wis[i := [agr]])) \<and>
         (\<forall>first. wis ! i = [first] \<and> first \<noteq> agr \<and>
             wake_time_us (agr_data (agr_mem tw first)) = 0 \<and>
             morse_twt_get_command (p_req_type (params (agr_data (agr_mem tw agr)))) \<noteq>
               TWT_SETUP_CMD_DEMAND \<longrightarrow>
            (case morse_twt_agreement_wake_interval_add tw agr k of
               None \<Rightarrow> False
             | Some (ret, tw') \<Rightarrow>
                 ret = 0 \<and>
                 wake_time_us (agr_data (agr_mem tw' agr)) =
                   ucast (wake_duration_us (agr_data (agr_mem tw first))) \<and>
                 wake_intervals tw' = wis[i := [first, agr]] \<and>
                 agr_mem tw' first = agr_mem tw first \<and>
                 wake_interval_us (agr_data (agr_mem tw' first)) =
                   wake_interval_us (agr_data (agr_mem tw' agr)) \<and>
                 wake_duration_us (agr_data (agr_mem tw' agr)) =
                   wake_duration_us (agr_data (agr_mem tw agr)) \<and>
                 unat (wake_time_us (agr_data (agr_mem tw' first))) +
                 unat (wake_duration_us (agr_data (agr_mem tw' first))) \<le>
                 unat (wake_time_us (agr_data (agr_mem tw' agr))) \<and>
                 (unat (wake_duration_us (agr_data (agr_mem tw first))) +
                  unat (wake_duration_us (agr_data (agr_mem tw agr))) \<le>
                  unat (wake_interval_us (agr_data (agr_mem tw agr))) \<longrightarrow>
                  (\<forall>t. \<not> (in_service_period (agr_data (agr_mem tw' first)) t \<and>
                            in_service_period (agr_data (agr_mem tw' agr)) t)))))"
proof (intro conjI allI impI)
  assume "wis ! i = []"
  then show "case morse_twt_agreement_wake_interval_add tw agr k of
               None \<Rightarrow> False
             | Some (ret, tw') \<Rightarrow>
                 ret = 0 \<and> wake_time_us (agr_data (agr_mem tw' agr)) = 0 \<and>
                 wake_intervals tw' = wis[i := [agr]]"
    using st get
    by (simp add: morse_twt_agreement_wake_interval_add_def Let_def set_wake_time_us_def)
next
  fix first
  assume a: "wis ! i = [first] \<and> first \<noteq> agr \<and>
             wake_time_us (agr_data (agr_mem tw first)) = 0 \<and>
             morse_twt_get_command (p_req_type (params (agr_data (agr_mem tw agr)))) \<noteq>
               TWT_SETUP_CMD_DEMAND"
  let ?d = "ucast (wake_duration_us (agr_data (agr_mem tw first))) :: u64"
  define tw' where "tw' = set_wake_time_us (tw\<lparr>wake_intervals := wis[i := [first, agr]]\<rparr>) agr ?d"
  have r: "morse_twt_agreement_wake_interval_add tw agr k = Some (0, tw')"
    using st get a
    by (simp add: morse_twt_agreement_wake_interval_add_def Let_def tw'_def)
  have iv: "wake_interval_us (agr_data (agr_mem tw first)) =
            wake_interval_us (agr_data (agr_mem tw agr))"
    using get_hd [OF get, of first "[]"] a by simp
  have f1: "agr_mem tw' first = agr_mem tw first"
    using a by (simp add: tw'_def set_wake_time_us_def)
  have f2: "agr_data (agr_mem tw' agr) = (agr_data (agr_mem tw agr))\<lparr>wake_time_us := ?d\<rparr>"
    by (simp add: tw'_def set_wake_time_us_def)
  have f3: "wake_intervals tw' = wis[i := [first, agr]]"
    by (simp add: tw'_def set_wake_time_us_def)
  have p5: "wake_interval_us (agr_data (agr_mem tw' first)) =
            wake_interval_us (agr_data (agr_mem tw' agr))"
    by (simp add: f1 f2 iv)
  have p7: "unat (wake_time_us (agr_data (agr_mem tw' first))) +
            unat (wake_duration_us (agr_data (agr_mem tw' first))) \<le>
            unat (wake_time_us (agr_data (agr_mem tw' agr)))"
    using a by (simp add: f1 f2 unat_ucast_u32_u64)
  have p8: "unat (wake_duration_us (agr_data (agr_mem tw first))) +
            unat (wake_duration_us (agr_data (agr_mem tw agr))) \<le>
            unat (wake_interval_us (agr_data (agr_mem tw agr))) \<longrightarrow>
            (\<forall>t. \<not> (in_service_period (agr_data (agr_mem tw' first)) t \<and>
                      in_service_period (agr_data (agr_mem tw' agr)) t))"
  proof (intro impI allI)
    fix t
    assume fit: "unat (wake_duration_us (agr_data (agr_mem tw first))) +
            unat (wake_duration_us (agr_data (agr_mem tw agr))) \<le>
            unat (wake_interval_us (agr_data (agr_mem tw agr)))"
    show "\<not> (in_service_period (agr_data (agr_mem tw' first)) t \<and>
              in_service_period (agr_data (agr_mem tw' agr)) t)"
    proof (rule service_periods_disjoint)
      show "wake_interval_us (agr_data (agr_mem tw' agr)) =
            wake_interval_us (agr_data (agr_mem tw' first))"
        by (simp add: p5)
      show "unat (wake_time_us (agr_data (agr_mem tw' agr))) =
            unat (wake_time_us (agr_data (agr_mem tw' first))) +
            unat (wake_duration_us (agr_data (agr_mem tw' first)))"
        using a by (simp add: f1 f2 unat_ucast_u32_u64)
      show "unat (wake_duration_us (agr_data (agr_mem tw' first))) +
            unat (wake_duration_us (agr_data (agr_mem tw' agr))) \<le>
            unat (wake_interval_us (agr_data (agr_mem tw' first)))"
        using fit by (simp add: f1 f2 iv)
    qed
  qed
  have K: "wake_time_us (agr_data (agr_mem tw' agr)) = ?d \<and>
           wake_intervals tw' = wis[i := [first, agr]] \<and>
           agr_mem tw' first = agr_mem tw first \<and>
           wake_interval_us (agr_data (agr_mem tw' first)) =
             wake_interval_us (agr_data (agr_mem tw' agr)) \<and>
           wake_duration_us (agr_data (agr_mem tw' agr)) =
             wake_duration_us (agr_data (agr_mem tw agr)) \<and>
           unat (wake_time_us (agr_data (agr_mem tw' first))) +
           unat (wake_duration_us (agr_data (agr_mem tw' first))) \<le>
           unat (wake_time_us (agr_data (agr_mem tw' agr))) \<and>
           (unat (wake_duration_us (agr_data (agr_mem tw first))) +
            unat (wake_duration_us (agr_data (agr_mem tw agr))) \<le>
            unat (wake_interval_us (agr_data (agr_mem tw agr))) \<longrightarrow>
            (\<forall>t. \<not> (in_service_period (agr_data (agr_mem tw' first)) t \<and>
                      in_service_period (agr_data (agr_mem tw' agr)) t)))"
    by (intro conjI f1 f3 p5 p7 p8) (simp_all add: f2)
  show "case morse_twt_agreement_wake_interval_add tw agr k of
               None \<Rightarrow> False
             | Some (ret, tw') \<Rightarrow>
                 ret = 0 \<and>
                 wake_time_us (agr_data (agr_mem tw' agr)) =
                   ucast (wake_duration_us (agr_data (agr_mem tw first))) \<and>
                 wake_intervals tw' = wis[i := [first, agr]] \<and>
                 agr_mem tw' first = agr_mem tw first \<and>
                 wake_interval_us (agr_data (agr_mem tw' first)) =
                   wake_interval_us (agr_data (agr_mem tw' agr)) \<and>
                 wake_duration_us (agr_data (agr_mem tw' agr)) =
                   wake_duration_us (agr_data (agr_mem tw agr)) \<and>
                 unat (wake_time_us (agr_data (agr_mem tw' first))) +
                 unat (wake_duration_us (agr_data (agr_mem tw' first))) \<le>
                 unat (wake_time_us (agr_data (agr_mem tw' agr))) \<and>
                 (unat (wake_duration_us (agr_data (agr_mem tw first))) +
                  unat (wake_duration_us (agr_data (agr_mem tw agr))) \<le>
                  unat (wake_interval_us (agr_data (agr_mem tw agr))) \<longrightarrow>
                  (\<forall>t. \<not> (in_service_period (agr_data (agr_mem tw' first)) t \<and>
                            in_service_period (agr_data (agr_mem tw' agr)) t)))"
    unfolding r by (simp only: option.case prod.case) (rule conjI [OF refl K])
qed

text \<open>
  Two stations ask for an interval of 100000 us and a duration of 8000 us: the first is
  anchored at 0, the second at 8000. The two durations fit into the wake interval, and at
  the time 100000, when the first agreement is in service again, the second is not.
\<close>

theorem wake_interval_add_anchor_witness:
  "agr_state (agr_mem ex_twt0c (1, 2)) = MORSE_TWT_STATE_CONSIDER_REQUEST \<and>
   morse_twt_agreement_wake_interval_get ex_twt0c
     (wake_interval_us (agr_data (agr_mem ex_twt0c (1, 2)))) True = Some (0, [[]]) \<and>
   morse_twt_agreement_wake_interval_add ex_twt0c (1, 2) True \<noteq> None \<and>
   twt_view (1, 2) (morse_twt_agreement_wake_interval_add ex_twt0c (1, 2) True) =
     Some (0, [1, 2, 3], [[(1, 2)]], MORSE_TWT_STATE_CONSIDER_REQUEST, 0) \<and>
   agr_state (agr_mem ex_twt1c (2, 2)) = MORSE_TWT_STATE_CONSIDER_REQUEST \<and>
   morse_twt_agreement_wake_interval_get ex_twt1c
     (wake_interval_us (agr_data (agr_mem ex_twt1c (2, 2)))) True = Some (0, [[(1, 2)]]) \<and>
   wake_time_us (agr_data (agr_mem ex_twt1c (1, 2))) = 0 \<and>
   wake_duration_us (agr_data (agr_mem ex_twt1c (1, 2))) = 8000 \<and>
   wake_duration_us (agr_data (agr_mem ex_twt1c (2, 2))) = 8000 \<and>
   wake_interval_us (agr_data (agr_mem ex_twt1c (2, 2))) = 100000 \<and>
   morse_twt_get_command (p_req_type (params (agr_data (agr_mem ex_twt1c (2, 2))))) =
     TWT_SETUP_CMD_REQUEST \<and>
   morse_twt_agreement_wake_interval_add ex_twt1c (2, 2) True \<noteq> None \<and>
   twt_view (2, 2) (morse_twt_agreement_wake_interval_add ex_twt1c (2, 2) True) =
     Some (0, [1, 2, 3], [[(1, 2), (2, 2)]], MORSE_TWT_STATE_CONSIDER_REQUEST, 8000) \<and>
   twt_service_view (1, 2) 100000 (morse_twt_agreement_wake_interval_add ex_twt1c (2, 2) True) =
     Some True \<and>
   twt_service_view (2, 2) 100000 (morse_twt_agreement_wake_interval_add ex_twt1c (2, 2) True) =
     Some False"
proof -
  have s0: "agr_state (agr_mem ex_twt0c (1, 2)) = MORSE_TWT_STATE_CONSIDER_REQUEST"
    by code_simp
  have g0: "morse_twt_agreement_wake_interval_get ex_twt0c
     (wake_interval_us (agr_data (agr_mem ex_twt0c (1, 2)))) True = Some (0, [[]])"
    by code_simp
  have v0: "twt_view (1, 2) (morse_twt_agreement_wake_interval_add ex_twt0c (1, 2) True) =
     Some (0, [1, 2, 3], [[(1, 2)]], MORSE_TWT_STATE_CONSIDER_REQUEST, 0)"
    by code_simp
  have s1: "agr_state (agr_mem ex_twt1c (2, 2)) = MORSE_TWT_STATE_CONSIDER_REQUEST"
    by code_simp
  have g1: "morse_twt_agreement_wake_interval_get ex_twt1c
     (wake_interval_us (agr_data (agr_mem ex_twt1c (2, 2)))) True = Some (0, [[(1, 2)]])"
    by code_simp
  have t1: "wake_time_us (agr_data (agr_mem ex_twt1c (1, 2))) = 0"
    and d1: "wake_duration_us (agr_data (agr_mem ex_twt1c (1, 2))) = 8000"
    and d2: "wake_duration_us (agr_data (agr_mem ex_twt1c (2, 2))) = 8000"
    and i2: "wake_interval_us (agr_data (agr_mem ex_twt1c (2, 2))) = 100000"
    by code_simp+
  have c1: "morse_twt_get_command (p_req_type (params (agr_data (agr_mem ex_twt1c (2, 2))))) =
     TWT_SETUP_CMD_REQUEST"
    by code_simp
  have v1: "twt_view (2, 2) (morse_twt_agreement_wake_interval_add ex_twt1c (2, 2) True) =
     Some (0, [1, 2, 3], [[(1, 2), (2, 2)]], MORSE_TWT_STATE_CONSIDER_REQUEST, 8000)"
    by code_simp
  have a0: "agr_state (agr_mem ex_twt0c (1, 2)) \<noteq> MORSE_TWT_STATE_NO_AGREEMENT"
    "agr_state (agr_mem ex_twt0c (1, 2)) \<noteq> MORSE_TWT_STATE_AGREEMENT"
    using s0 by simp_all
  have a1: "agr_state (agr_mem ex_twt1c (2, 2)) \<noteq> MORSE_TWT_STATE_NO_AGREEMENT"
    "agr_state (agr_mem ex_twt1c (2, 2)) \<noteq> MORSE_TWT_STATE_AGREEMENT"
    using s1 by simp_all
  have n0: "morse_twt_agreement_wake_interval_add ex_twt0c (1, 2) True \<noteq> None"
    using wake_interval_add_anchor [OF a0 g0, THEN conjunct1]
    by (auto split: option.splits)
  have ne: "(1 :: nat, 2 :: nat) \<noteq> (2, 2)" by simp
  have fit: "unat (wake_duration_us (agr_data (agr_mem ex_twt1c (1, 2)))) +
             unat (wake_duration_us (agr_data (agr_mem ex_twt1c (2, 2)))) \<le>
             unat (wake_interval_us (agr_data (agr_mem ex_twt1c (2, 2))))"
    using d1 d2 i2 by simp
  note th = wake_interval_add_anchor [OF a1 g1, THEN conjunct2, rule_format, of "(1, 2)"]
  obtain ret tw where r: "morse_twt_agreement_wake_interval_add ex_twt1c (2, 2) True =
      Some (ret, tw)"
    and m1: "agr_mem tw (1, 2) = agr_mem ex_twt1c (1, 2)"
    and dis: "\<not> (in_service_period (agr_data (agr_mem tw (1, 2))) 100000 \<and>
                  in_service_period (agr_data (agr_mem tw (2, 2))) 100000)"
    using th ne t1 c1 fit by (auto split: option.splits)
  have n1: "morse_twt_agreement_wake_interval_add ex_twt1c (2, 2) True \<noteq> None"
    by (simp add: r)
  have e1: "agr_data (agr_mem ex_twt1c (1, 2)) = ex_data" by code_simp
  have in1: "in_service_period (agr_data (agr_mem tw (1, 2))) 100000"
    using m1 e1 by (simp add: in_service_period_def ex_data_def)
  with dis have in2: "\<not> in_service_period (agr_data (agr_mem tw (2, 2))) 100000" by simp
  have w1: "twt_service_view (1, 2) 100000
      (morse_twt_agreement_wake_interval_add ex_twt1c (2, 2) True) = Some True"
    unfolding r using in1 by (simp add: twt_service_view_def)
  have w2: "twt_service_view (2, 2) 100000
      (morse_twt_agreement_wake_interval_add ex_twt1c (2, 2) True) = Some False"
    unfolding r using in2 by (simp add: twt_service_view_def)
  from s0 g0 n0 v0 s1 g1 t1 d1 d2 i2 c1 n1 v1 w1 w2 show ?thesis by (intro conjI)
qed
section \<open>Answering a setup in the state without agreement\<close>

text \<open>
  Placing an agreement into a wake interval changes neither the stations, nor the queues of
  responses, nor the state of any agreement; and it divides only by wake intervals of
  agreements that are already placed.
\<close>

lemma wake_interval_add_frame:
  assumes "morse_twt_agreement_wake_interval_add tw agr k = Some (ret, tw')"
  shows "stas tw' = stas tw" and "sta_mem tw' = sta_mem tw" and "tx tw' = tx tw"
    and "action_frames tw' = action_frames tw"
    and "agr_state (agr_mem tw' r) = agr_state (agr_mem tw r)"
    and "frame_env tw' = frame_env tw"
  using assms
  by (auto simp: morse_twt_agreement_wake_interval_add_def Let_def set_wake_time_us_def
      split: if_splits option.splits wi_place.splits)

lemma wake_interval_add_no_trap:
  assumes nz: "\<forall>r \<in> set (concat (wake_intervals tw)).
                 wake_interval_us (agr_data (agr_mem tw r)) \<noteq> 0"
  shows "morse_twt_agreement_wake_interval_add tw agr k \<noteq> None"
proof (cases "morse_twt_agreement_wake_interval_get tw
                (wake_interval_us (agr_data (agr_mem tw agr))) k")
  case None
  then show ?thesis
    by (simp add: morse_twt_agreement_wake_interval_add_def Let_def)
next
  case (Some a)
  obtain i wis where a: "a = (i, wis)" by (cases a)
  note get = Some [unfolded a]
  show ?thesis
  proof (cases "wis ! i = []")
    case True
    with get show ?thesis
      by (simp add: morse_twt_agreement_wake_interval_add_def Let_def)
  next
    case False
    from get_result [OF get] False have w: "wis = wake_intervals tw" and i: "i < length wis"
      by blast+
    have "set (wis ! i) \<subseteq> set (concat (wake_intervals tw))"
      using i w by (auto intro: nth_mem)
    with nz have "\<forall>r \<in> set (wis ! i). wake_interval_us (agr_data (agr_mem tw r)) \<noteq> 0"
      by blast
    from add_loop_first_fit [OF False this, of agr]
    obtain t l where "wake_interval_add_loop (agr_mem tw) agr (wis ! i) = WI_PLACED t l"
      by blast
    with get False show ?thesis
      by (simp add: morse_twt_agreement_wake_interval_add_def Let_def)
  qed
qed

text \<open>The setup command written into a request type is the one read from it.\<close>

lemma get_set_command:
  "morse_twt_get_command (morse_twt_set_command r c) = c"
  by (cases c)
    (simp_all add: morse_twt_get_command_def morse_twt_set_command_def Let_def
      morse_twt_cmd_is_req_def IEEE80211_TWT_REQTYPE_SETUP_CMD_def
      IEEE80211_TWT_REQTYPE_SETUP_CMD_OFFSET_def IEEE80211_TWT_REQTYPE_REQUEST_def
      twt_setup_cmd_of_def bit.conj_disj_distrib2 and.assoc)

lemma update_params_fields:
  "p_req_type (morse_twt_update_params prm c w i d) = p_req_type prm"
  "p_twt (morse_twt_update_params prm c w i d) = w"
  by (simp_all add: morse_twt_update_params_def Let_def)

text \<open>An action frame goes out on the two paths that hand it on, and on no other.\<close>

lemma send_frame_result:
  "snd (morse_mac_send_twt_action_frame tw e a tok s) =
     tw\<lparr>action_frames := action_frames tw @
          (if action_frame_goes_out tw a
           then [\<lparr>af_event = e, af_dest_addr = a, af_dialog_token = tok, af_is_twt_setup = s,
                  af_protected = af_sta_mfp (frame_env tw a)\<rparr>]
           else [])\<rparr>"
  by (simp add: morse_mac_send_twt_action_frame_def action_frame_goes_out_def Let_def)

lemma send_frame_sta_mem:
  "sta_mem (snd (morse_mac_send_twt_action_frame tw e a tok s)) = sta_mem tw"
  by (simp add: send_frame_result)

lemma send_frame_ret:
  "(fst (morse_mac_send_twt_action_frame tw e a tok s) = 0) = action_frame_goes_out tw a"
  by (simp add: morse_mac_send_twt_action_frame_def action_frame_goes_out_def Let_def
      EINVAL_def ENOMEM_def)

text \<open>Entering the states \<open>AGREEMENT\<close> and \<open>NO_AGREEMENT\<close>.\<close>

lemma sta_agreement_add_state:
  "agr_state (agr_mem (snd (morse_twt_sta_agreement_add tw s fl dat)) r) =
     agr_state (agr_mem tw r)"
  by (simp add: morse_twt_sta_agreement_add_def split: option.splits)

lemma sta_agreement_remove_agr_mem:
  "agr_mem (snd (morse_twt_sta_agreement_remove tw s fl)) = agr_mem tw"
  by (simp add: morse_twt_sta_agreement_remove_def Let_def agreement_remove_eq
      sta_remove_fields split: option.splits)

lemma enter_agreement_state:
  "\<exists>tw'. morse_twt_enter_state tw (Some p) event MORSE_TWT_STATE_AGREEMENT k = Some (0, tw') \<and>
     agr_state (agr_mem tw' (p, unat (ev_flow_id event))) = MORSE_TWT_STATE_AGREEMENT \<and>
     tx tw' = tx tw \<and> action_frames tw' = action_frames tw"
  by (simp add: morse_twt_enter_state.simps morse_twt_enter_state_agreement_def Let_def
      sta_agreement_add_state)
    (simp add: morse_twt_sta_agreement_add_def split: option.splits)

lemma sta_remove_action_frames:
  "action_frames (snd (morse_twt_sta_remove tw s)) = action_frames tw"
  by (simp add: morse_twt_sta_remove_def Let_def fold_agreement_remove
      morse_twt_tx_queue_purge_def morse_twt_to_install_queue_purge_def split_def
      split: option.splits)

lemma sta_agreement_remove_action_frames:
  "action_frames (snd (morse_twt_sta_agreement_remove tw s fl)) = action_frames tw"
  by (simp add: morse_twt_sta_agreement_remove_def Let_def agreement_remove_eq
      sta_remove_action_frames split: option.splits)

lemma enter_no_agreement_state:
  "\<exists>tw'. morse_twt_enter_state tw (Some p) event MORSE_TWT_STATE_NO_AGREEMENT k = Some (0, tw') \<and>
     agr_state (agr_mem tw' (p, unat (ev_flow_id event))) = MORSE_TWT_STATE_NO_AGREEMENT \<and>
     action_frames tw' = action_frames tw"
  by (simp add: morse_twt_enter_state.simps morse_twt_enter_state_no_agreement_def Let_def
      sta_agreement_remove_agr_mem sta_agreement_remove_action_frames)



text \<open>
  \<^verbatim>\<open>morse_twt_send_accept\<close> and \<^verbatim>\<open>morse_twt_send_reject\<close>: the response carries the command,
  also in the request type that goes on the wire, and either is handed to
  \<^verbatim>\<open>morse_mac_send_twt_action_frame\<close>, with the agreement entered or left at once whether or
  not the frame goes out, or is put on the \<open>tx\<close> queue with the state of the flow unchanged.
\<close>

lemma send_accept_result:
  assumes d: "setup_agr_data event = Some d"
    and nin: "(p, unat (ev_flow_id event)) \<notin> set (concat (wake_intervals tw))"
    and nz: "\<forall>r \<in> set (concat (wake_intervals tw)).
               wake_interval_us (agr_data (agr_mem tw r)) \<noteq> 0"
  shows "\<exists>tw' e'. morse_twt_send_accept tw (Some p) event k = Some (0, tw') \<and>
           twt_wire_response e' TWT_SETUP_CMD_ACCEPT \<and> ev_key e' = ev_key event \<and>
           ev_type e' = ev_type event \<and>
           (if action_is_pending (sta_mem tw p)
            then agr_state (agr_mem tw' (p, unat (ev_flow_id event))) =
                   MORSE_TWT_STATE_AGREEMENT \<and>
                 tx tw' = tx tw \<and>
                 action_frames tw' = action_frames tw @
                   (if action_frame_goes_out tw (sta_addr (sta_mem tw p))
                    then [\<lparr>af_event = e', af_dest_addr = sta_addr (sta_mem tw p),
                           af_dialog_token = dialog_token (sta_mem tw p),
                           af_is_twt_setup = True,
                           af_protected = af_sta_mfp (frame_env tw (sta_addr (sta_mem tw p)))\<rparr>]
                    else [])
            else agr_state (agr_mem tw' (p, unat (ev_flow_id event))) =
                   agr_state (agr_mem tw (p, unat (ev_flow_id event))) \<and>
                 tx tw' = tx tw @ [e'] \<and> action_frames tw' = action_frames tw \<and>
                 stas tw' = stas tw \<and> sta_mem tw' = sta_mem tw)"
proof -
  let ?a = "(p, unat (ev_flow_id event))"
  define tw1 where "tw1 = tw\<lparr>agr_mem := (agr_mem tw)(?a := (agr_mem tw ?a)\<lparr>agr_data := d\<rparr>)\<rparr>"
  have "\<forall>r \<in> set (concat (wake_intervals tw1)).
          wake_interval_us (agr_data (agr_mem tw1 r)) \<noteq> 0"
    using nz nin by (auto simp: tw1_def)
  then have "morse_twt_agreement_wake_interval_add tw1 ?a k \<noteq> None"
    by (rule wake_interval_add_no_trap)
  then obtain ret_add tw2 where
    add: "morse_twt_agreement_wake_interval_add tw1 ?a k = Some (ret_add, tw2)"
    by (cases "morse_twt_agreement_wake_interval_add tw1 ?a k") auto
  note fr = wake_interval_add_frame [OF add]
  define d1 where "d1 = (agr_data (agr_mem tw2 ?a))
     \<lparr>params := morse_twt_update_params
        ((params (agr_data (agr_mem tw2 ?a)))\<lparr>p_req_type :=
           morse_twt_set_command (p_req_type (params (agr_data (agr_mem tw2 ?a))))
             TWT_SETUP_CMD_ACCEPT\<rparr>)
        (control (agr_data (agr_mem tw2 ?a))) (wake_time_us (agr_data (agr_mem tw2 ?a)))
        (wake_interval_us (agr_data (agr_mem tw2 ?a)))
        (wake_duration_us (agr_data (agr_mem tw2 ?a)))\<rparr>"
  define tw3 where "tw3 = tw2\<lparr>agr_mem := (agr_mem tw2)(?a := (agr_mem tw2 ?a)\<lparr>agr_data := d1\<rparr>)\<rparr>"
  define e1 where "e1 = event\<lparr>setup_cmd := TWT_SETUP_CMD_ACCEPT, setup_agr_data := Some d1\<rparr>"
  have e1: "ev_key e1 = ev_key event"
    "ev_type e1 = ev_type event" "ev_flow_id e1 = ev_flow_id event"
    by (simp_all add: e1_def ev_key_def)
  have wire: "twt_wire_response e1 TWT_SETUP_CMD_ACCEPT"
    by (simp add: twt_wire_response_def e1_def d1_def update_params_fields get_set_command)
  have f3: "sta_mem tw3 = sta_mem tw" "stas tw3 = stas tw" "tx tw3 = tx tw"
    "action_frames tw3 = action_frames tw"
    "agr_state (agr_mem tw3 ?a) = agr_state (agr_mem tw ?a)"
    "frame_env tw3 = frame_env tw"
    using fr(1-4) fr(5) [of ?a] fr(6) by (simp_all add: tw3_def tw1_def)
  have f2: "sta_mem tw2 = sta_mem tw"
    using fr(2) by (simp add: tw1_def)
  have go: "action_frame_goes_out tw3 = action_frame_goes_out tw"
    by (simp add: action_frame_goes_out_def f3(6) fun_eq_iff)
  show ?thesis
  proof (cases "action_is_pending (sta_mem tw p)")
    case False
    have "morse_twt_send_accept tw (Some p) event k = Some (0, tw3\<lparr>tx := tx tw3 @ [e1]\<rparr>)"
      using False f2 f3(1) add d
      by (simp add: morse_twt_send_accept.simps Let_def tw1_def [symmetric]
          d1_def [symmetric] tw3_def [symmetric] e1_def [symmetric])
    then show ?thesis using False e1 wire f3 by auto
  next
    case True
    define fs where "fs = (if action_frame_goes_out tw (sta_addr (sta_mem tw p))
        then [\<lparr>af_event = e1, af_dest_addr = sta_addr (sta_mem tw p),
               af_dialog_token = dialog_token (sta_mem tw p), af_is_twt_setup = True,
               af_protected = af_sta_mfp (frame_env tw (sta_addr (sta_mem tw p)))\<rparr>]
        else [])"
    define tw5 where "tw5 = tw3\<lparr>action_frames := action_frames tw @ fs,
        sta_mem := (sta_mem tw)(p := (sta_mem tw p)\<lparr>action_is_pending := False\<rparr>)\<rparr>"
    have s5: "(snd (morse_mac_send_twt_action_frame tw3 e1 (sta_addr (sta_mem tw p))
                      (dialog_token (sta_mem tw p)) True))
                \<lparr>sta_mem := (sta_mem tw)(p := (sta_mem tw p)\<lparr>action_is_pending := False\<rparr>)\<rparr> = tw5"
      by (simp add: send_frame_result go f3 tw5_def fs_def)
    from enter_agreement_state [of tw5 p e1 k]
    obtain tw6 where en: "morse_twt_enter_state tw5 (Some p) e1 MORSE_TWT_STATE_AGREEMENT k =
        Some (0, tw6)"
      and s6: "agr_state (agr_mem tw6 (p, unat (ev_flow_id e1))) = MORSE_TWT_STATE_AGREEMENT"
      and t6: "tx tw6 = tx tw5" "action_frames tw6 = action_frames tw5"
      by blast
    have r: "morse_twt_send_accept tw (Some p) event k =
        Some (0, morse_twt_purge_event tw6 e1)"
      using True f2 f3(1) add d en
      by (simp add: morse_twt_send_accept.simps Let_def tw1_def [symmetric]
          d1_def [symmetric] tw3_def [symmetric] e1_def [symmetric] send_frame_sta_mem s5)
    have "tx tw5 = tx tw" "action_frames tw5 = action_frames tw @ fs"
      using f3 by (simp_all add: tw5_def)
    then show ?thesis
      using True e1 wire r s6 t6 by (auto simp: morse_twt_purge_event_def fs_def)
  qed
qed

lemma send_reject_result:
  assumes d: "setup_agr_data event = Some d"
  shows "\<exists>tw' e'. morse_twt_send_reject tw (Some p) event k = Some (0, tw') \<and>
           twt_wire_response e' TWT_SETUP_CMD_REJECT \<and> ev_key e' = ev_key event \<and>
           ev_type e' = ev_type event \<and>
           (if action_is_pending (sta_mem tw p)
            then agr_state (agr_mem tw' (p, unat (ev_flow_id event))) =
                   MORSE_TWT_STATE_NO_AGREEMENT \<and>
                 action_frames tw' = action_frames tw @
                   (if action_frame_goes_out tw (sta_addr (sta_mem tw p))
                    then [\<lparr>af_event = e', af_dest_addr = sta_addr (sta_mem tw p),
                           af_dialog_token = dialog_token (sta_mem tw p),
                           af_is_twt_setup = True,
                           af_protected = af_sta_mfp (frame_env tw (sta_addr (sta_mem tw p)))\<rparr>]
                    else [])
            else agr_state (agr_mem tw' (p, unat (ev_flow_id event))) =
                   agr_state (agr_mem tw (p, unat (ev_flow_id event))) \<and>
                 tx tw' = tx tw @ [e'] \<and> action_frames tw' = action_frames tw \<and>
                 stas tw' = stas tw \<and> sta_mem tw' = sta_mem tw)"
proof -
  define d1 where "d1 = d\<lparr>params := (params d)\<lparr>p_req_type :=
      morse_twt_set_command (p_req_type (params d)) TWT_SETUP_CMD_REJECT\<rparr>\<rparr>"
  define e1 where "e1 = event\<lparr>setup_cmd := TWT_SETUP_CMD_REJECT, setup_agr_data := Some d1\<rparr>"
  have e1: "ev_key e1 = ev_key event"
    "ev_type e1 = ev_type event" "ev_flow_id e1 = ev_flow_id event"
    by (simp_all add: e1_def ev_key_def)
  have wire: "twt_wire_response e1 TWT_SETUP_CMD_REJECT"
    by (simp add: twt_wire_response_def e1_def d1_def get_set_command)
  show ?thesis
  proof (cases "action_is_pending (sta_mem tw p)")
    case False
    have "morse_twt_send_reject tw (Some p) event k = Some (0, tw\<lparr>tx := tx tw @ [e1]\<rparr>)"
      using False d
      by (simp add: morse_twt_send_reject.simps Let_def d1_def e1_def)
    then show ?thesis using False e1 wire by auto
  next
    case True
    define fs where "fs = (if action_frame_goes_out tw (sta_addr (sta_mem tw p))
        then [\<lparr>af_event = e1, af_dest_addr = sta_addr (sta_mem tw p),
               af_dialog_token = dialog_token (sta_mem tw p), af_is_twt_setup = True,
               af_protected = af_sta_mfp (frame_env tw (sta_addr (sta_mem tw p)))\<rparr>]
        else [])"
    define tw2 where "tw2 = tw\<lparr>action_frames := action_frames tw @ fs,
        sta_mem := (sta_mem tw)(p := (sta_mem tw p)\<lparr>action_is_pending := False\<rparr>)\<rparr>"
    have s2: "(snd (morse_mac_send_twt_action_frame tw e1 (sta_addr (sta_mem tw p))
                      (dialog_token (sta_mem tw p)) True))
                \<lparr>sta_mem := (sta_mem tw)(p := (sta_mem tw p)\<lparr>action_is_pending := False\<rparr>)\<rparr> = tw2"
      by (simp add: send_frame_result tw2_def fs_def)
    from enter_no_agreement_state [of tw2 p e1 k]
    obtain tw3 where en: "morse_twt_enter_state tw2 (Some p) e1 MORSE_TWT_STATE_NO_AGREEMENT k =
        Some (0, tw3)"
      and s3: "agr_state (agr_mem tw3 (p, unat (ev_flow_id e1))) = MORSE_TWT_STATE_NO_AGREEMENT"
      and t3: "action_frames tw3 = action_frames tw2"
      by blast
    have r: "morse_twt_send_reject tw (Some p) event k =
        Some (0, morse_twt_purge_event tw3 e1)"
      using True d en
      by (simp add: morse_twt_send_reject.simps Let_def d1_def [symmetric] e1_def [symmetric]
          send_frame_sta_mem s2)
    have "action_frames tw2 = action_frames tw @ fs"
      by (simp add: tw2_def)
    then show ?thesis
      using True e1 wire r s3 t3 by (auto simp: morse_twt_purge_event_def fs_def)
  qed
qed

text \<open>
  \<^verbatim>\<open>morse_twt_dequeue_tx\<close> on an accept or a reject of a flow in a \<open>CONSIDER\<close> state.
\<close>

lemma dequeue_tx_accept:
  assumes sta: "morse_twt_get_sta tw (ev_addr e) = Some p"
    and st: "agr_state (agr_mem tw (p, unat (ev_flow_id e))) \<noteq> MORSE_TWT_STATE_NO_AGREEMENT"
      "agr_state (agr_mem tw (p, unat (ev_flow_id e))) \<noteq> MORSE_TWT_STATE_AGREEMENT"
    and ty: "ev_type e = MORSE_TWT_EVENT_SETUP"
    and c: "setup_cmd e = TWT_SETUP_CMD_ACCEPT"
  shows "\<exists>tw'. morse_twt_dequeue_tx tw e = Some (0, tw') \<and>
           agr_state (agr_mem tw' (p, unat (ev_flow_id e))) = MORSE_TWT_STATE_AGREEMENT"
  using enter_agreement_state [of tw p e True] sta st ty c
  by (auto simp: morse_twt_dequeue_tx_def morse_twt_dequeue_tx_response_def Let_def
      morse_twt_purge_event_def)

lemma dequeue_tx_reject:
  assumes sta: "morse_twt_get_sta tw (ev_addr e) = Some p"
    and st: "agr_state (agr_mem tw (p, unat (ev_flow_id e))) \<noteq> MORSE_TWT_STATE_NO_AGREEMENT"
      "agr_state (agr_mem tw (p, unat (ev_flow_id e))) \<noteq> MORSE_TWT_STATE_AGREEMENT"
    and ty: "ev_type e = MORSE_TWT_EVENT_SETUP"
    and c: "setup_cmd e = TWT_SETUP_CMD_REJECT"
  shows "\<exists>tw'. morse_twt_dequeue_tx tw e = Some (0, tw') \<and>
           agr_state (agr_mem tw' (p, unat (ev_flow_id e))) = MORSE_TWT_STATE_NO_AGREEMENT"
  using enter_no_agreement_state [of tw p e True] sta st ty c
  by (auto simp: morse_twt_dequeue_tx_def morse_twt_dequeue_tx_response_def Let_def
      morse_twt_purge_event_def)

text \<open>
  Entering a \<open>CONSIDER\<close> state: the requests and suggestions are accepted, the demands and
  groupings are rejected.
\<close>

lemma get_sta_cong:
  "stas tw' = stas tw \<Longrightarrow> sta_mem tw' = sta_mem tw \<Longrightarrow>
   morse_twt_get_sta tw' a = morse_twt_get_sta tw a"
  by (simp add: morse_twt_get_sta_def)

lemma consider_accept_responded:
  assumes sta: "morse_twt_get_sta tw (ev_addr event) = Some p"
    and ty: "ev_type event = MORSE_TWT_EVENT_SETUP"
    and d: "setup_agr_data event = Some d"
    and nin: "(p, unat (ev_flow_id event)) \<notin> set (concat (wake_intervals tw))"
    and nz: "\<forall>r \<in> set (concat (wake_intervals tw)).
               wake_interval_us (agr_data (agr_mem tw r)) \<noteq> 0"
    and go: "action_is_pending (sta_mem tw p) \<longrightarrow>
               action_frame_goes_out tw (sta_addr (sta_mem tw p))"
    and c: "c = MORSE_TWT_STATE_CONSIDER_REQUEST \<or> c = MORSE_TWT_STATE_CONSIDER_SUGGEST"
  shows "twt_responded tw p event TWT_SETUP_CMD_ACCEPT MORSE_TWT_STATE_AGREEMENT
           (map_option (\<lambda>(ret, t). (0, t)) (morse_twt_enter_state tw (Some p) event c k))"
proof -
  let ?a = "(p, unat (ev_flow_id event))"
  define tw0 where "tw0 = tw\<lparr>agr_mem := (agr_mem tw)(?a := (agr_mem tw ?a)\<lparr>agr_state := c\<rparr>)\<rparr>"
  have en: "morse_twt_enter_state tw (Some p) event c k =
      map_option (\<lambda>(ret, t). (0, t)) (morse_twt_send_accept tw0 (Some p) event k)"
    using c by (auto simp: morse_twt_enter_state.simps Let_def tw0_def)
  have nin0: "?a \<notin> set (concat (wake_intervals tw0))" using nin by (simp add: tw0_def)
  have nz0: "\<forall>r \<in> set (concat (wake_intervals tw0)).
               wake_interval_us (agr_data (agr_mem tw0 r)) \<noteq> 0"
    using nz by (simp add: tw0_def)
  have f0: "sta_mem tw0 = sta_mem tw" "stas tw0 = stas tw" "tx tw0 = tx tw"
    "action_frames tw0 = action_frames tw" "agr_state (agr_mem tw0 ?a) = c"
    "frame_env tw0 = frame_env tw"
    by (simp_all add: tw0_def)
  have g0: "action_frame_goes_out tw0 = action_frame_goes_out tw"
    by (simp add: action_frame_goes_out_def f0(6) fun_eq_iff)
  from send_accept_result [OF d nin0 nz0, of k]
  obtain tw1 e1 where r: "morse_twt_send_accept tw0 (Some p) event k = Some (0, tw1)"
    and e1: "twt_wire_response e1 TWT_SETUP_CMD_ACCEPT" "ev_key e1 = ev_key event"
      "ev_type e1 = ev_type event"
    and br: "if action_is_pending (sta_mem tw0 p)
            then agr_state (agr_mem tw1 ?a) = MORSE_TWT_STATE_AGREEMENT \<and>
                 tx tw1 = tx tw0 \<and>
                 action_frames tw1 = action_frames tw0 @
                   (if action_frame_goes_out tw0 (sta_addr (sta_mem tw0 p))
                    then [\<lparr>af_event = e1, af_dest_addr = sta_addr (sta_mem tw0 p),
                           af_dialog_token = dialog_token (sta_mem tw0 p),
                           af_is_twt_setup = True,
                           af_protected = af_sta_mfp (frame_env tw0 (sta_addr (sta_mem tw0 p)))\<rparr>]
                    else [])
            else agr_state (agr_mem tw1 ?a) = agr_state (agr_mem tw0 ?a) \<and>
                 tx tw1 = tx tw0 @ [e1] \<and> action_frames tw1 = action_frames tw0 \<and>
                 stas tw1 = stas tw0 \<and> sta_mem tw1 = sta_mem tw0"
    by blast
  have res: "map_option (\<lambda>(ret, t). (0, t)) (morse_twt_enter_state tw (Some p) event c k) =
      Some (0, tw1)"
    by (simp add: en r)
  have k1: "ev_addr e1 = ev_addr event" "ev_flow_id e1 = ev_flow_id event"
    using e1(2) by (simp_all add: ev_key_def)
  have c1: "setup_cmd e1 = TWT_SETUP_CMD_ACCEPT"
    using e1(1) by (simp add: twt_wire_response_def split: option.splits)
  show ?thesis
  proof (cases "action_is_pending (sta_mem tw p)")
    case True
    with go have "action_frame_goes_out tw (sta_addr (sta_mem tw p))" by simp
    with True br e1 show ?thesis
      by (simp add: twt_responded_def res f0 g0)
  next
    case False
    with br have b: "agr_state (agr_mem tw1 ?a) = c" "tx tw1 = tx tw @ [e1]"
      "stas tw1 = stas tw" "sta_mem tw1 = sta_mem tw"
      by (simp_all add: f0)
    have g: "morse_twt_get_sta tw1 (ev_addr e1) = Some p"
      using sta by (simp add: get_sta_cong [OF b(3,4)] k1)
    have s1: "agr_state (agr_mem tw1 (p, unat (ev_flow_id e1))) \<noteq> MORSE_TWT_STATE_NO_AGREEMENT"
      "agr_state (agr_mem tw1 (p, unat (ev_flow_id e1))) \<noteq> MORSE_TWT_STATE_AGREEMENT"
      using c b(1) by (auto simp: k1)
    have t1: "ev_type e1 = MORSE_TWT_EVENT_SETUP" using e1(3) ty by simp
    from dequeue_tx_accept [OF g s1 t1 c1]
    obtain tw2 where "morse_twt_dequeue_tx tw1 e1 = Some (0, tw2)"
      "agr_state (agr_mem tw2 ?a) = MORSE_TWT_STATE_AGREEMENT"
      by (auto simp: k1)
    with False e1 b show ?thesis
      by (simp add: twt_responded_def res)
  qed
qed

lemma consider_reject_responded:
  assumes sta: "morse_twt_get_sta tw (ev_addr event) = Some p"
    and ty: "ev_type event = MORSE_TWT_EVENT_SETUP"
    and d: "setup_agr_data event = Some d"
    and go: "action_is_pending (sta_mem tw p) \<longrightarrow>
               action_frame_goes_out tw (sta_addr (sta_mem tw p))"
    and c: "c = MORSE_TWT_STATE_CONSIDER_DEMAND \<or> c = MORSE_TWT_STATE_CONSIDER_GROUPING"
  shows "twt_responded tw p event TWT_SETUP_CMD_REJECT MORSE_TWT_STATE_NO_AGREEMENT
           (map_option (\<lambda>(ret, t). (0, t)) (morse_twt_enter_state tw (Some p) event c k))"
proof -
  let ?a = "(p, unat (ev_flow_id event))"
  define tw0 where "tw0 = tw\<lparr>agr_mem := (agr_mem tw)(?a := (agr_mem tw ?a)\<lparr>agr_state := c\<rparr>)\<rparr>"
  have en: "morse_twt_enter_state tw (Some p) event c k =
      map_option (\<lambda>(ret, t). (0, t)) (morse_twt_send_reject tw0 (Some p) event k)"
    using c by (auto simp: morse_twt_enter_state.simps Let_def tw0_def)
  have f0: "sta_mem tw0 = sta_mem tw" "stas tw0 = stas tw" "tx tw0 = tx tw"
    "action_frames tw0 = action_frames tw" "agr_state (agr_mem tw0 ?a) = c"
    "frame_env tw0 = frame_env tw"
    by (simp_all add: tw0_def)
  have g0: "action_frame_goes_out tw0 = action_frame_goes_out tw"
    by (simp add: action_frame_goes_out_def f0(6) fun_eq_iff)
  from send_reject_result [OF d, of tw0 p k]
  obtain tw1 e1 where r: "morse_twt_send_reject tw0 (Some p) event k = Some (0, tw1)"
    and e1: "twt_wire_response e1 TWT_SETUP_CMD_REJECT" "ev_key e1 = ev_key event"
      "ev_type e1 = ev_type event"
    and br: "if action_is_pending (sta_mem tw0 p)
            then agr_state (agr_mem tw1 ?a) = MORSE_TWT_STATE_NO_AGREEMENT \<and>
                 action_frames tw1 = action_frames tw0 @
                   (if action_frame_goes_out tw0 (sta_addr (sta_mem tw0 p))
                    then [\<lparr>af_event = e1, af_dest_addr = sta_addr (sta_mem tw0 p),
                           af_dialog_token = dialog_token (sta_mem tw0 p),
                           af_is_twt_setup = True,
                           af_protected = af_sta_mfp (frame_env tw0 (sta_addr (sta_mem tw0 p)))\<rparr>]
                    else [])
            else agr_state (agr_mem tw1 ?a) = agr_state (agr_mem tw0 ?a) \<and>
                 tx tw1 = tx tw0 @ [e1] \<and> action_frames tw1 = action_frames tw0 \<and>
                 stas tw1 = stas tw0 \<and> sta_mem tw1 = sta_mem tw0"
    by blast
  have res: "map_option (\<lambda>(ret, t). (0, t)) (morse_twt_enter_state tw (Some p) event c k) =
      Some (0, tw1)"
    by (simp add: en r)
  have k1: "ev_addr e1 = ev_addr event" "ev_flow_id e1 = ev_flow_id event"
    using e1(2) by (simp_all add: ev_key_def)
  have c1: "setup_cmd e1 = TWT_SETUP_CMD_REJECT"
    using e1(1) by (simp add: twt_wire_response_def split: option.splits)
  show ?thesis
  proof (cases "action_is_pending (sta_mem tw p)")
    case True
    with go have "action_frame_goes_out tw (sta_addr (sta_mem tw p))" by simp
    with True br e1 show ?thesis
      by (simp add: twt_responded_def res f0 g0)
  next
    case False
    with br have b: "agr_state (agr_mem tw1 ?a) = c" "tx tw1 = tx tw @ [e1]"
      "stas tw1 = stas tw" "sta_mem tw1 = sta_mem tw"
      by (simp_all add: f0)
    have g: "morse_twt_get_sta tw1 (ev_addr e1) = Some p"
      using sta by (simp add: get_sta_cong [OF b(3,4)] k1)
    have s1: "agr_state (agr_mem tw1 (p, unat (ev_flow_id e1))) \<noteq> MORSE_TWT_STATE_NO_AGREEMENT"
      "agr_state (agr_mem tw1 (p, unat (ev_flow_id e1))) \<noteq> MORSE_TWT_STATE_AGREEMENT"
      using c b(1) by (auto simp: k1)
    have t1: "ev_type e1 = MORSE_TWT_EVENT_SETUP" using e1(3) ty by simp
    from dequeue_tx_reject [OF g s1 t1 c1]
    obtain tw2 where "morse_twt_dequeue_tx tw1 e1 = Some (0, tw2)"
      "agr_state (agr_mem tw2 ?a) = MORSE_TWT_STATE_NO_AGREEMENT"
      by (auto simp: k1)
    with False e1 b show ?thesis
      by (simp add: twt_responded_def res)
  qed
qed

text \<open>
  Where the claim holds. Let the flow of a setup event be in the state \<open>NO_AGREEMENT\<close> for
  the station the event comes from and not placed in any wake interval, let the agreements
  that are placed have wake intervals other than zero, and, if the setup came in an action
  frame, let the surroundings be such that an action frame to the station goes out. Then
  \<^verbatim>\<open>morse_twt_handle_event_in_no_agreement\<close> returns 0, and

    \<^item> for the commands \<open>REQUEST\<close> and \<open>SUGGEST\<close> it produces a response with the command
      \<open>ACCEPT\<close>, and the flow is in the state \<open>AGREEMENT\<close> once the response is delivered;

    \<^item> for the commands \<open>DEMAND\<close> and \<open>GROUPING\<close> it produces a response with the command
      \<open>REJECT\<close>, and the flow is in the state \<open>NO_AGREEMENT\<close> once the response is
      delivered.

  The response is for the same station and flow as the event, and carries the command also
  in the request type of its parameters. A \<open>GROUPING\<close> passes through \<open>CONSIDER_DEMAND\<close>.
\<close>

lemma no_agreement_setup_answered:
  assumes sta: "morse_twt_get_sta tw (ev_addr event) = Some p"
    and ty: "ev_type event = MORSE_TWT_EVENT_SETUP"
    and d: "setup_agr_data event = Some d"
    and st: "agr_state (agr_mem tw (p, unat (ev_flow_id event))) = MORSE_TWT_STATE_NO_AGREEMENT"
    and nin: "(p, unat (ev_flow_id event)) \<notin> set (concat (wake_intervals tw))"
    and nz: "\<forall>r \<in> set (concat (wake_intervals tw)).
               wake_interval_us (agr_data (agr_mem tw r)) \<noteq> 0"
    and go: "action_is_pending (sta_mem tw p) \<longrightarrow>
               action_frame_goes_out tw (sta_addr (sta_mem tw p))"
  shows "(setup_cmd event = TWT_SETUP_CMD_REQUEST \<or> setup_cmd event = TWT_SETUP_CMD_SUGGEST \<longrightarrow>
            twt_responded tw p event TWT_SETUP_CMD_ACCEPT MORSE_TWT_STATE_AGREEMENT
              (morse_twt_handle_event_in_no_agreement tw (Some p) event k)) \<and>
         (setup_cmd event = TWT_SETUP_CMD_DEMAND \<or> setup_cmd event = TWT_SETUP_CMD_GROUPING \<longrightarrow>
            twt_responded tw p event TWT_SETUP_CMD_REJECT MORSE_TWT_STATE_NO_AGREEMENT
              (morse_twt_handle_event_in_no_agreement tw (Some p) event k))"
proof (intro conjI impI)
  assume "setup_cmd event = TWT_SETUP_CMD_REQUEST \<or> setup_cmd event = TWT_SETUP_CMD_SUGGEST"
  then show "twt_responded tw p event TWT_SETUP_CMD_ACCEPT MORSE_TWT_STATE_AGREEMENT
              (morse_twt_handle_event_in_no_agreement tw (Some p) event k)"
    using ty
      consider_accept_responded [OF sta ty d nin nz go, of MORSE_TWT_STATE_CONSIDER_REQUEST k]
      consider_accept_responded [OF sta ty d nin nz go, of MORSE_TWT_STATE_CONSIDER_SUGGEST k]
    by (auto simp: morse_twt_handle_event_in_no_agreement_def)
next
  assume "setup_cmd event = TWT_SETUP_CMD_DEMAND \<or> setup_cmd event = TWT_SETUP_CMD_GROUPING"
  then show "twt_responded tw p event TWT_SETUP_CMD_REJECT MORSE_TWT_STATE_NO_AGREEMENT
              (morse_twt_handle_event_in_no_agreement tw (Some p) event k)"
    using ty
      consider_reject_responded [OF sta ty d go, of MORSE_TWT_STATE_CONSIDER_DEMAND k]
    by (auto simp: morse_twt_handle_event_in_no_agreement_def)
qed

text \<open>
  Station 2 asks for flow 2 while station 1 holds an agreement: a request is answered by an
  accept on the \<open>tx\<close> queue, a demand by a reject on the \<open>tx\<close> queue, and a request that came
  in an action frame by an accept in an action frame.
\<close>

lemma ex_setup_hyps:
  "morse_twt_get_sta ex_twt1 (ev_addr (ex_setup 2 c)) = Some 2"
  "morse_twt_get_sta ex_twt1 (ev_addr (ex_setup_of 2 c)) = Some 2"
  "morse_twt_get_sta ex_twt1p (ev_addr (ex_setup 2 c)) = Some 2"
  "agr_state (agr_mem ex_twt1 (2, unat (ev_flow_id (ex_setup 2 c)))) = MORSE_TWT_STATE_NO_AGREEMENT"
  "agr_state (agr_mem ex_twt1 (2, unat (ev_flow_id (ex_setup_of 2 c)))) =
     MORSE_TWT_STATE_NO_AGREEMENT"
  "agr_state (agr_mem ex_twt1p (2, unat (ev_flow_id (ex_setup 2 c)))) = MORSE_TWT_STATE_NO_AGREEMENT"
  "(2, unat (ev_flow_id (ex_setup 2 c))) \<notin> set (concat (wake_intervals ex_twt1))"
  "(2, unat (ev_flow_id (ex_setup_of 2 c))) \<notin> set (concat (wake_intervals ex_twt1))"
  "(2, unat (ev_flow_id (ex_setup 2 c))) \<notin> set (concat (wake_intervals ex_twt1p))"
  "\<forall>r \<in> set (concat (wake_intervals ex_twt1)).
     wake_interval_us (agr_data (agr_mem ex_twt1 r)) \<noteq> 0"
  "\<forall>r \<in> set (concat (wake_intervals ex_twt1p)).
     wake_interval_us (agr_data (agr_mem ex_twt1p r)) \<noteq> 0"
  "action_is_pending (sta_mem ex_twt1 2) \<longrightarrow>
     action_frame_goes_out ex_twt1 (sta_addr (sta_mem ex_twt1 2))"
  "action_is_pending (sta_mem ex_twt1p 2) \<longrightarrow>
     action_frame_goes_out ex_twt1p (sta_addr (sta_mem ex_twt1p 2))"
  by (simp_all add: morse_twt_get_sta_def ex_setup_def ex_setup_of_def ex_twt1_def ex_twt1p_def
      ex_twt0_def ex_sta_mem_def ex_sta_mem_pending_def ex_sta_def ex_agr_mem1_def ex_idle_def
      ex_data_def action_frame_goes_out_def ex_frame_env_def)

lemma no_agreement_setup_answered_examples:
  "twt_responded ex_twt1 2 (ex_setup 2 TWT_SETUP_CMD_REQUEST)
     TWT_SETUP_CMD_ACCEPT MORSE_TWT_STATE_AGREEMENT
     (morse_twt_handle_event_in_no_agreement ex_twt1 (Some 2)
        (ex_setup 2 TWT_SETUP_CMD_REQUEST) True) \<and>
   twt_responded ex_twt1 2 (ex_setup_of 2 TWT_SETUP_CMD_DEMAND)
     TWT_SETUP_CMD_REJECT MORSE_TWT_STATE_NO_AGREEMENT
     (morse_twt_handle_event_in_no_agreement ex_twt1 (Some 2)
        (ex_setup_of 2 TWT_SETUP_CMD_DEMAND) True) \<and>
   twt_responded ex_twt1p 2 (ex_setup 2 TWT_SETUP_CMD_REQUEST)
     TWT_SETUP_CMD_ACCEPT MORSE_TWT_STATE_AGREEMENT
     (morse_twt_handle_event_in_no_agreement ex_twt1p (Some 2)
        (ex_setup 2 TWT_SETUP_CMD_REQUEST) True)"
proof -
  have ty: "ev_type (ex_setup 2 c) = MORSE_TWT_EVENT_SETUP"
    "ev_type (ex_setup_of 2 c) = MORSE_TWT_EVENT_SETUP"
    and c: "setup_cmd (ex_setup 2 c) = c" "setup_cmd (ex_setup_of 2 c) = c" for c
    by (simp_all add: ex_setup_def ex_setup_of_def)
  have d: "setup_agr_data (ex_setup 2 c) = Some ex_data" for c
    by (simp add: ex_setup_def)
  have d': "setup_agr_data (ex_setup_of 2 c) =
      Some (ex_data\<lparr>params :=
                  ex_params\<lparr>p_req_type := morse_twt_set_command (p_req_type ex_params) c\<rparr>\<rparr>)"
    for c
    by (simp add: ex_setup_of_def)
  note h = ex_setup_hyps
  have a: "twt_responded ex_twt1 2 (ex_setup 2 TWT_SETUP_CMD_REQUEST)
     TWT_SETUP_CMD_ACCEPT MORSE_TWT_STATE_AGREEMENT
     (morse_twt_handle_event_in_no_agreement ex_twt1 (Some 2)
        (ex_setup 2 TWT_SETUP_CMD_REQUEST) True)"
    using no_agreement_setup_answered [OF h(1) ty(1) d h(4) h(7) h(10) h(12),
        of TWT_SETUP_CMD_REQUEST True]
    by (simp add: c)
  have b: "twt_responded ex_twt1 2 (ex_setup_of 2 TWT_SETUP_CMD_DEMAND)
     TWT_SETUP_CMD_REJECT MORSE_TWT_STATE_NO_AGREEMENT
     (morse_twt_handle_event_in_no_agreement ex_twt1 (Some 2)
        (ex_setup_of 2 TWT_SETUP_CMD_DEMAND) True)"
    using no_agreement_setup_answered [OF h(2) ty(2) d' h(5) h(8) h(10) h(12),
        of TWT_SETUP_CMD_DEMAND True]
    by (simp add: c)
  have s: "twt_responded ex_twt1p 2 (ex_setup 2 TWT_SETUP_CMD_REQUEST)
     TWT_SETUP_CMD_ACCEPT MORSE_TWT_STATE_AGREEMENT
     (morse_twt_handle_event_in_no_agreement ex_twt1p (Some 2)
        (ex_setup 2 TWT_SETUP_CMD_REQUEST) True)"
    using no_agreement_setup_answered [OF h(3) ty(1) d h(6) h(9) h(11) h(13),
        of TWT_SETUP_CMD_REQUEST True]
    by (simp add: c)
  from a b s show ?thesis by (intro conjI)
qed

text \<open>
  Claim C6 has every setup with the command REQUEST accepted when its flow is in the state
  \<open>NO_AGREEMENT\<close>, and the comments in the code say the same (``Accept all requests for
  now''). The code does not accept the following request.

  A peer may send a wake interval mantissa of 0: \<^verbatim>\<open>morse_twt_validate_params\<close> does not look
  at the mantissa, and \<^verbatim>\<open>morse_twt_parse_ie\<close> computes a wake interval of 0 us from it.
  Starting from an access point without agreements, the requests of the stations 1 and 2
  with a mantissa of 0 are accepted and their responses delivered; then both agreements are
  placed in the wake interval of 0 us, anchored at 0 and at 7936, and flow 2 of station 3 is
  in the state \<open>NO_AGREEMENT\<close>. For the same request from station 3,
  \<^verbatim>\<open>morse_twt_handle_event_in_no_agreement\<close> enters \<open>CONSIDER_REQUEST\<close>, \<^verbatim>\<open>morse_twt_send_accept\<close>
  calls \<^verbatim>\<open>morse_twt_agreement_wake_interval_add\<close>, and the walk over the two agreements
  divides the wake time of the first by its wake interval of 0 in \<^verbatim>\<open>div64_u64_rem\<close>. The
  handler does not return: no accept is produced and the flow does not reach \<open>AGREEMENT\<close>.
\<close>

theorem no_agreement_request_zero_interval:
  "twt_view (1, 2) (ex_admit0 2 (ex_admit0 1 (Some (0, ex_twt0)))) =
     Some (0, [1, 2, 3], [[(1, 2), (2, 2)]], MORSE_TWT_STATE_AGREEMENT, 0) \<and>
   twt_view (2, 2) (ex_admit0 2 (ex_admit0 1 (Some (0, ex_twt0)))) =
     Some (0, [1, 2, 3], [[(1, 2), (2, 2)]], MORSE_TWT_STATE_AGREEMENT, 7936) \<and>
   twt_view (3, 2) (ex_admit0 2 (ex_admit0 1 (Some (0, ex_twt0)))) =
     Some (0, [1, 2, 3], [[(1, 2), (2, 2)]], MORSE_TWT_STATE_NO_AGREEMENT, 0) \<and>
   twt_interval_view (1, 2) (ex_admit0 2 (ex_admit0 1 (Some (0, ex_twt0)))) = Some 0 \<and>
   twt_interval_view (2, 2) (ex_admit0 2 (ex_admit0 1 (Some (0, ex_twt0)))) = Some 0 \<and>
   ev_type (ex_setup0 3) = MORSE_TWT_EVENT_SETUP \<and>
   setup_cmd (ex_setup0 3) = TWT_SETUP_CMD_REQUEST \<and>
   ex_handle0 3 (ex_admit0 2 (ex_admit0 1 (Some (0, ex_twt0)))) = None"
  by code_simp

text \<open>
  Two more ways in which a setup in the state \<open>NO_AGREEMENT\<close> is not answered as it should
  be. First, the delivery of a reject. Station 2 has no agreement and demands one; the
  reject is put on the \<open>tx\<close> queue. When it is delivered, \<^verbatim>\<open>morse_twt_dequeue_tx_response\<close>
  enters \<open>NO_AGREEMENT\<close>, the station has no agreement left and is removed, and
  \<^verbatim>\<open>morse_twt_sta_remove\<close> purges the \<open>tx\<close> queue of the station, which frees the reject;
  then \<^verbatim>\<open>morse_twt_dequeue_tx\<close> purges the reject once more. The flow is in the state
  \<open>NO_AGREEMENT\<close>, and the event was freed twice.
\<close>

lemma ex_reject_freed_twice:
  "twt_free_view (ex_answer (ex_setup_of 2 TWT_SETUP_CMD_DEMAND) ex_twt0) =
     Some (0, [ex_reject 2], [], [1, 2, 3]) \<and>
   twt_view (2, 2) (ex_answer (ex_setup_of 2 TWT_SETUP_CMD_DEMAND) ex_twt0) =
     Some (0, [1, 2, 3], [], MORSE_TWT_STATE_CONSIDER_DEMAND, 0) \<and>
   twt_free_view (ex_deliver (ex_answer (ex_setup_of 2 TWT_SETUP_CMD_DEMAND) ex_twt0)) =
     Some (0, [], [ex_reject 2, ex_reject 2], [1, 3]) \<and>
   twt_view (2, 2) (ex_deliver (ex_answer (ex_setup_of 2 TWT_SETUP_CMD_DEMAND) ex_twt0)) =
     Some (0, [1, 3], [], MORSE_TWT_STATE_NO_AGREEMENT, 0)"
  by code_simp

text \<open>
  Second, a setup that came in an action frame when no buffer for the answer can be
  allocated. \<^verbatim>\<open>morse_twt_send_accept\<close> does not look at the return value of
  \<^verbatim>\<open>morse_mac_send_twt_action_frame\<close>: no frame goes out and nothing is put on the \<open>tx\<close>
  queue, but the flow enters \<open>AGREEMENT\<close>. In surroundings where the frame goes out, the
  accept is sent.
\<close>

lemma ex_accept_frame_lost:
  "action_is_pending (sta_mem ex_twt1n 2) \<and>
   \<not> action_frame_goes_out ex_twt1n (sta_addr (sta_mem ex_twt1n 2)) \<and>
   twt_resp_view (2, 2) (ex_answer (ex_setup 2 TWT_SETUP_CMD_REQUEST) ex_twt1n) =
     Some (0, [], [], MORSE_TWT_STATE_AGREEMENT) \<and>
   twt_resp_view (2, 2) (ex_answer (ex_setup 2 TWT_SETUP_CMD_REQUEST) ex_twt1p) =
     Some (0, [], [TWT_SETUP_CMD_ACCEPT], MORSE_TWT_STATE_AGREEMENT)"
  by code_simp

end
